(* ===== verification/Prelude.thy ===== *)
theory Prelude
  imports Complex_Main
begin

text \<open>
  Shared vocabulary of the development.

  \<^item> \<open>py_error\<close>: the exceptions the trainer can raise, as values. A computation that may
    raise returns \<open>'a result = py_error + 'a\<close> (\<open>Inl\<close> the exception), sequenced by
    \<open>rbind\<close>.
  \<^item> \<open>('s, 'a) prog\<close>: a method that mutates state and may raise. The state is returned
    in both cases, because what a Python method wrote before it raised stays written.
    \<open>pbind\<close>, \<open>pret\<close>, \<open>praise\<close>, \<open>pget\<close>, \<open>pread\<close>, \<open>pmodify\<close>, \<open>plift\<close> build
    such methods; \<open>pfold\<close> is the \<open>for\<close> loop that carries the local variables, and
    \<open>fails m s\<close> says that \<open>m\<close> raises from \<open>s\<close>. The loop rules \<open>pfold_final_inv\<close>
    and \<open>pfold_rule\<close> carry an invariant through a loop on every exit, \<open>pfold_all_raise\<close>
    is the loop whose iterations all raise. \<open>preserves P m\<close> says that \<open>m\<close> keeps the
    invariant \<open>P\<close> on every exit; the rules \<open>preserves_intros\<close> build it along the
    structure of a method.
  \<^item> Indexing as the tensor library does it: \<open>py_nth\<close> (a position, IndexError out of
    range), \<open>mask_select\<close> (a boolean mask over the first dimension),
    \<open>select_column\<close> (a mask over rows and one column).
  The lemmas are declared \<open>[simp]\<close> or collected in \<open>result_iffs\<close> and
  \<open>prog_simps\<close>, so that the component theories unfold their operations with
  \<open>simp add: prog_simps\<close> and invert a successful run with \<open>result_iffs\<close>.
\<close>

section \<open>Exceptions as values\<close>

named_theorems result_iffs "when a sequenced computation succeeds or raises"
named_theorems prog_simps "definitions of the state-and-exception combinators"
named_theorems preserves_intros "programs that preserve an invariant"

datatype py_error =
    AttributeError
  | TypeError
  | UnboundLocalError
  | IndexError
  | KeyError
  | ValueError
  | ZeroDivisionError
  | NotANumber
  | FileNotFoundError
  | FileExistsError
  | NotADirectoryError
  | IsADirectoryError
  | RuntimeError

type_synonym 'a result = "py_error + 'a"

definition rbind :: "'a result \<Rightarrow> ('a \<Rightarrow> 'b result) \<Rightarrow> 'b result" where
  "rbind m f = (case m of Inl e \<Rightarrow> Inl e | Inr x \<Rightarrow> f x)"

fun rmap :: "('a \<Rightarrow> 'b result) \<Rightarrow> 'a list \<Rightarrow> 'b list result" where
  "rmap f [] = Inr []"
| "rmap f (x # xs) = rbind (f x) (\<lambda>y. rbind (rmap f xs) (\<lambda>ys. Inr (y # ys)))"

definition succeeds :: "'a result \<Rightarrow> bool" where
  "succeeds m = (case m of Inl _ \<Rightarrow> False | Inr _ \<Rightarrow> True)"

section \<open>State and exceptions\<close>

type_synonym ('s, 'a) prog = "'s \<Rightarrow> 'a result \<times> 's"

definition pret :: "'a \<Rightarrow> ('s, 'a) prog" where
  "pret x = (\<lambda>s. (Inr x, s))"

definition praise :: "py_error \<Rightarrow> ('s, 'a) prog" where
  "praise e = (\<lambda>s. (Inl e, s))"

definition plift :: "'a result \<Rightarrow> ('s, 'a) prog" where
  "plift r = (\<lambda>s. (r, s))"

definition pread :: "('s \<Rightarrow> 'a result) \<Rightarrow> ('s, 'a) prog" where
  "pread f = (\<lambda>s. (f s, s))"

definition pget :: "('s \<Rightarrow> 'a) \<Rightarrow> ('s, 'a) prog" where
  "pget f = (\<lambda>s. (Inr (f s), s))"

definition pmodify :: "('s \<Rightarrow> 's) \<Rightarrow> ('s, unit) prog" where
  "pmodify f = (\<lambda>s. (Inr (), f s))"

definition pbind :: "('s, 'a) prog \<Rightarrow> ('a \<Rightarrow> ('s, 'b) prog) \<Rightarrow> ('s, 'b) prog" where
  "pbind m f = (\<lambda>s. case m s of (Inl e, s') \<Rightarrow> (Inl e, s') | (Inr x, s') \<Rightarrow> f x s')"

fun pfold :: "('x \<Rightarrow> 'l \<Rightarrow> ('s, 'l) prog) \<Rightarrow> 'x list \<Rightarrow> 'l \<Rightarrow> ('s, 'l) prog" where
  "pfold body [] l = pret l"
| "pfold body (x # xs) l = pbind (body x l) (pfold body xs)"

abbreviation outcome :: "'a result \<times> 's \<Rightarrow> 'a result" where
  "outcome r \<equiv> fst r"

abbreviation final :: "'a result \<times> 's \<Rightarrow> 's" where
  "final r \<equiv> snd r"

definition fails :: "('s, 'a) prog \<Rightarrow> 's \<Rightarrow> bool" where
  "fails m s = (case outcome (m s) of Inl _ \<Rightarrow> True | Inr _ \<Rightarrow> False)"

text \<open>\<open>preserves P m\<close>: the state \<open>m\<close> leaves satisfies \<open>P\<close> when the state it starts from
  does, whether \<open>m\<close> returns or raises.\<close>

definition preserves :: "('s \<Rightarrow> bool) \<Rightarrow> ('s, 'a) prog \<Rightarrow> bool" where
  "preserves P m \<longleftrightarrow> (\<forall>s. P s \<longrightarrow> P (final (m s)))"

section \<open>Indexing\<close>

definition py_nth :: "'a list \<Rightarrow> nat \<Rightarrow> 'a result" where
  "py_nth xs i = (if i < length xs then Inr (xs ! i) else Inl IndexError)"

definition py_last :: "'a list \<Rightarrow> 'a result" where
  "py_last xs = (if xs = [] then Inl IndexError else Inr (last xs))"

definition mask_select :: "bool list \<Rightarrow> 'a list \<Rightarrow> 'a list result" where
  "mask_select m xs =
     (if length m = length xs then Inr (map snd (filter fst (zip m xs))) else Inl IndexError)"

definition select_column :: "bool list \<Rightarrow> nat \<Rightarrow> 'a list list \<Rightarrow> 'a list result" where
  "select_column m j rows =
     (if list_all (\<lambda>r. j < length r) rows
      then mask_select m (map (\<lambda>r. r ! j) rows)
      else Inl IndexError)"

definition enumerate_from0 :: "'a list \<Rightarrow> (nat \<times> 'a) list" where
  "enumerate_from0 xs = zip [0..<length xs] xs"

section \<open>Lemmas on results\<close>

lemma rbind_Inl [simp]: "rbind (Inl e) f = Inl e"
  by (simp add: rbind_def)

lemma rbind_Inr [simp]: "rbind (Inr x) f = f x"
  by (simp add: rbind_def)

lemma rbind_eq_Inr_iff [result_iffs]:
  "rbind m f = Inr y \<longleftrightarrow> (\<exists>x. m = Inr x \<and> f x = Inr y)"
  by (cases m) simp_all

lemma rbind_eq_Inl_iff [result_iffs]:
  "rbind m f = Inl e \<longleftrightarrow> m = Inl e \<or> (\<exists>x. m = Inr x \<and> f x = Inl e)"
  by (cases m) simp_all

lemma rbind_assoc: "rbind (rbind m f) g = rbind m (\<lambda>x. rbind (f x) g)"
  by (cases m) simp_all

lemma rbind_cong [fundef_cong]:
  "m = m' \<Longrightarrow> (\<And>x. m' = Inr x \<Longrightarrow> f x = f' x) \<Longrightarrow> rbind m f = rbind m' f'"
  by (cases m') simp_all

lemma succeeds_simps [simp]: "succeeds (Inr x)" "\<not> succeeds (Inl e)"
  by (simp_all add: succeeds_def)

lemma succeeds_iff: "succeeds m \<longleftrightarrow> (\<exists>x. m = Inr x)"
  by (cases m) simp_all

lemma rmap_eq_Inr_iff:
  "rmap f xs = Inr ys \<longleftrightarrow> list_all2 (\<lambda>x y. f x = Inr y) xs ys"
proof (induction xs arbitrary: ys)
  case Nil
  show ?case by auto
next
  case (Cons x xs)
  show ?case
    by (cases ys) (auto simp: result_iffs Cons.IH)
qed

lemma rmap_total: "(\<And>x. x \<in> set xs \<Longrightarrow> f x = Inr (g x)) \<Longrightarrow> rmap f xs = Inr (map g xs)"
  by (induction xs) simp_all

lemma rmap_length: "rmap f xs = Inr ys \<Longrightarrow> length ys = length xs"
  by (simp add: rmap_eq_Inr_iff list_all2_lengthD)

lemma rmap_append:
  "rmap f (xs @ ys) = rbind (rmap f xs) (\<lambda>as. rbind (rmap f ys) (\<lambda>bs. Inr (as @ bs)))"
proof (induction xs)
  case Nil
  show ?case by (cases "rmap f ys") simp_all
next
  case (Cons x xs)
  show ?case
    by (cases "f x"; cases "rmap f xs"; cases "rmap f ys") (simp_all add: Cons.IH)
qed

lemma rmap_cong:
  "(\<And>x. x \<in> set xs \<Longrightarrow> f x = g x) \<Longrightarrow> rmap f xs = rmap g xs"
  by (induction xs) simp_all

lemma rmap_raises: "x \<in> set xs \<Longrightarrow> f x = Inl e \<Longrightarrow> \<exists>e'. rmap f xs = Inl e'"
proof (induction xs)
  case Nil
  then show ?case by simp
next
  case (Cons y ys)
  show ?case
  proof (cases "f y")
    case (Inl e')
    then show ?thesis by simp
  next
    case (Inr v)
    with Cons obtain e' where "rmap f ys = Inl e'" by auto
    with Inr show ?thesis by simp
  qed
qed

lemma rbind_raises: "m = Inl e \<Longrightarrow> \<exists>e'. rbind m f = Inl e'"
  by simp

section \<open>Lemmas on programs\<close>

lemmas prog_defs [prog_simps] =
  pret_def praise_def plift_def pread_def pget_def pmodify_def pbind_def

lemma pbind_pret [simp]: "pbind (pret x) f = f x"
  by (simp add: prog_simps)

lemma pbind_praise [simp]: "pbind (praise e) f = praise e"
  by (simp add: prog_simps)

lemma pbind_run_Inr: "m s = (Inr x, s') \<Longrightarrow> pbind m f s = f x s'"
  by (simp add: pbind_def)

lemma pbind_run_Inl: "m s = (Inl e, s') \<Longrightarrow> pbind m f s = (Inl e, s')"
  by (simp add: pbind_def)

lemma pbind_eq_Inr_iff [result_iffs]:
  "pbind m f s = (Inr y, t) \<longleftrightarrow> (\<exists>x s'. m s = (Inr x, s') \<and> f x s' = (Inr y, t))"
  by (cases "m s" rule: prod.exhaust; cases "fst (m s)") (auto simp: pbind_def)

lemma pbind_outcome_Inr:
  "outcome (pbind m f s) = Inr y \<Longrightarrow> \<exists>x s'. m s = (Inr x, s') \<and> outcome (f x s') = Inr y"
  by (cases "m s" rule: prod.exhaust; cases "fst (m s)") (auto simp: pbind_def)

lemma pbind_assoc: "pbind (pbind m f) g = pbind m (\<lambda>x. pbind (f x) g)"
  by (rule ext) (simp add: pbind_def split: prod.splits sum.splits)

lemma pfold_append:
  "pfold body (xs @ ys) l = pbind (pfold body xs l) (pfold body ys)"
proof (induction xs arbitrary: l)
  case Nil
  show ?case by simp
next
  case (Cons x xs)
  have "pfold body (xs @ ys) = (\<lambda>l. pbind (pfold body xs l) (pfold body ys))"
    by (rule ext) (rule Cons.IH)
  then show ?case by (simp add: pbind_assoc)
qed

text \<open>
  The loop rule: a property of the state that every iteration keeps, whether the iteration
  returns or raises, holds when the loop is left, however it is left.
\<close>

lemma pbind_final_inv:
  assumes "P (final (m s))"
    and "\<And>x s'. m s = (Inr x, s') \<Longrightarrow> P (final (f x s'))"
  shows "P (final (pbind m f s))"
  using assms by (cases "m s" rule: prod.exhaust; cases "fst (m s)") (auto simp: pbind_def)

lemma pfold_final_inv:
  assumes "P s"
    and "\<And>x l s. x \<in> set xs \<Longrightarrow> P s \<Longrightarrow> P (final (body x l s))"
  shows "P (final (pfold body xs l s))"
  using assms
proof (induction xs arbitrary: l s)
  case Nil
  then show ?case by (simp add: pret_def)
next
  case (Cons x xs)
  show ?case
    unfolding pfold.simps
  proof (rule pbind_final_inv)
    show "P (final (body x l s))"
      using Cons.prems by simp
  next
    fix l' s'
    assume run: "body x l s = (Inr l', s')"
    have "P (final (body x l s))"
      using Cons.prems by simp
    with run have "P s'" by simp
    then show "P (final (pfold body xs l' s'))"
      using Cons.prems(2) by (intro Cons.IH) simp_all
  qed
qed

text \<open>A loop whose first iteration raises stops there, with the state that iteration left.\<close>

lemma pfold_first_raises:
  "body x l s = (Inl e, s') \<Longrightarrow> pfold body (x # xs) l s = (Inl e, s')"
  by (simp add: pbind_run_Inl)

text \<open>The same with an invariant of the loop's local variables beside that of the state.\<close>

lemma pfold_rule:
  assumes "Q l" and "P s"
    and step: "\<And>x l s. x \<in> set xs \<Longrightarrow> Q l \<Longrightarrow> P s \<Longrightarrow>
                 P (final (body x l s)) \<and> (\<forall>l'. outcome (body x l s) = Inr l' \<longrightarrow> Q l')"
  shows "P (final (pfold body xs l s)) \<and> (\<forall>l'. outcome (pfold body xs l s) = Inr l' \<longrightarrow> Q l')"
  using assms
proof (induction xs arbitrary: l s)
  case Nil
  then show ?case by (simp add: pret_def)
next
  case (Cons x xs)
  have here: "P (final (body x l s))" "\<And>l'. outcome (body x l s) = Inr l' \<Longrightarrow> Q l'"
    using Cons.prems(3) [of x l s] Cons.prems(1,2) by simp_all
  show ?case
  proof (cases "body x l s")
    case (Pair r s')
    show ?thesis
    proof (cases r)
      case (Inl e)
      with Pair here show ?thesis by (simp add: pbind_run_Inl)
    next
      case (Inr l1)
      with Pair here have start: "Q l1" "P s'" by simp_all
      have "P (final (pfold body xs l1 s')) \<and>
            (\<forall>l'. outcome (pfold body xs l1 s') = Inr l' \<longrightarrow> Q l')"
      proof (rule Cons.IH)
        fix y l s
        assume "y \<in> set xs" "Q l" "P s"
        then show "P (final (body y l s)) \<and> (\<forall>l'. outcome (body y l s) = Inr l' \<longrightarrow> Q l')"
          using Cons.prems(3) [of y l s] by simp
      qed (use start in simp_all)
      with Pair Inr show ?thesis by (simp add: pbind_run_Inr)
    qed
  qed
qed

text \<open>Raising: \<open>fails m s\<close> says that \<open>m\<close> leaves \<open>s\<close> with an exception.\<close>

lemma preservesI: "(\<And>s. P s \<Longrightarrow> P (final (m s))) \<Longrightarrow> preserves P m"
  by (simp add: preserves_def)

lemma preservesD: "preserves P m \<Longrightarrow> P s \<Longrightarrow> P (final (m s))"
  by (simp add: preserves_def)

lemma preserves_basic [preserves_intros]:
  "preserves P (pret x)" "preserves P (praise e)" "preserves P (plift r)"
  "preserves P (pread g)" "preserves P (pget h)"
  by (simp_all add: preserves_def prog_simps)

lemma preserves_pbind [preserves_intros]:
  assumes "preserves P m" and "\<And>x. preserves P (f x)"
  shows "preserves P (pbind m f)"
proof (rule preservesI)
  fix s assume "P s"
  with assms(1) have here: "P (final (m s))"
    by (rule preservesD)
  show "P (final (pbind m f s))"
  proof (rule pbind_final_inv [where P = P])
    fix x s' assume "m s = (Inr x, s')"
    with here show "P (final (f x s'))"
      using assms(2) [of x] by (simp add: preserves_def)
  qed (rule here)
qed

lemma preserves_pfold [preserves_intros]:
  assumes "\<And>x l. preserves P (body x l)"
  shows "preserves P (pfold body xs l)"
proof (rule preservesI)
  fix s assume "P s"
  then show "P (final (pfold body xs l s))"
  proof (rule pfold_final_inv [where P = P])
    fix x l s assume "P s"
    with assms [of x l] show "P (final (body x l s))"
      by (simp add: preserves_def)
  qed
qed

lemma preserves_case_prod [preserves_intros]:
  "(\<And>a b. preserves P (f a b)) \<Longrightarrow> preserves P (case_prod f x)"
  by (cases x) (simp only: prod.case)

lemma preserves_if [preserves_intros]:
  "preserves P m \<Longrightarrow> preserves P m' \<Longrightarrow> preserves P (if b then m else m')"
  by (cases b) (simp_all only: if_True if_False)

lemma preserves_Let [preserves_intros]:
  "(\<And>x. preserves P (f x)) \<Longrightarrow> preserves P (Let v f)"
  by (simp add: Let_def)

lemma fails_iff: "fails m s \<longleftrightarrow> (\<exists>e s'. m s = (Inl e, s'))"
  by (cases "m s" rule: prod.exhaust; cases "fst (m s)") (auto simp: fails_def)

lemma fails_outcome: "fails m s \<longleftrightarrow> (\<exists>e. outcome (m s) = Inl e)"
  by (cases "outcome (m s)") (simp_all add: fails_def)

lemma final_bind_simps:
  "final (pbind (plift r) f s) = (case r of Inl _ \<Rightarrow> s | Inr x \<Rightarrow> final (f x s))"
  "final (pbind (pread g) f s) = (case g s of Inl _ \<Rightarrow> s | Inr x \<Rightarrow> final (f x s))"
  "final (pbind (pget h) f s) = final (f (h s) s)"
  "final (pbind (pmodify u) k s) = final (k () (u s))"
  by (simp_all add: prog_simps split: sum.splits)

lemma succeeds_outcome: "succeeds (outcome (m s)) \<longleftrightarrow> \<not> fails m s"
  by (cases "outcome (m s)") (simp_all add: fails_def)

lemma fails_praise [simp]: "fails (praise e) s"
  by (simp add: fails_def praise_def)

lemma not_fails_pret [simp]: "\<not> fails (pret x) s"
  by (simp add: fails_def pret_def)

lemma fails_pbind_iff:
  "fails (pbind m f) s \<longleftrightarrow> fails m s \<or> (\<exists>x s'. m s = (Inr x, s') \<and> fails (f x) s')"
  by (cases "m s" rule: prod.exhaust; cases "fst (m s)") (auto simp: fails_def pbind_def)

lemma fails_pbindI1: "fails m s \<Longrightarrow> fails (pbind m f) s"
  by (simp add: fails_pbind_iff)

lemma fails_pbindI2: "(\<And>x s'. m s = (Inr x, s') \<Longrightarrow> fails (f x) s') \<Longrightarrow> fails (pbind m f) s"
  by (cases "m s" rule: prod.exhaust; cases "fst (m s)") (auto simp: fails_def pbind_def)

lemma fails_pfold_Cons: "fails (body x l) s \<Longrightarrow> fails (pfold body (x # xs) l) s"
  by (simp add: fails_pbindI1)

lemma not_fails_iff: "\<not> fails m s \<longleftrightarrow> (\<exists>x. outcome (m s) = Inr x)"
  by (cases "outcome (m s)") (simp_all add: fails_def)

lemma final_pbind_pret [simp]: "final (pbind m (\<lambda>x. pret (g x)) s) = final (m s)"
  by (simp add: pbind_def pret_def split: prod.splits sum.splits)

lemma outcome_pbind_pret:
  "outcome (pbind m (\<lambda>x. pret (g x)) s) = (case outcome (m s) of Inl e \<Rightarrow> Inl e | Inr x \<Rightarrow> Inr (g x))"
  by (simp add: pbind_def pret_def split: prod.splits sum.splits)

lemma fails_bind_simps:
  "fails (pbind (plift r) f) s \<longleftrightarrow> (case r of Inl _ \<Rightarrow> True | Inr x \<Rightarrow> fails (f x) s)"
  "fails (pbind (pread g) f) s \<longleftrightarrow> (case g s of Inl _ \<Rightarrow> True | Inr x \<Rightarrow> fails (f x) s)"
  "fails (pbind (pget h) f) s \<longleftrightarrow> fails (f (h s)) s"
  "fails (pbind (pmodify u) k) s \<longleftrightarrow> fails (k ()) (u s)"
  by (simp_all add: fails_def prog_simps split: sum.splits)

text \<open>A loop whose every iteration raises without touching the state: it returns at once on
  the empty list and raises on any other, and the state is as before.\<close>

lemma pfold_all_raise:
  assumes "\<And>x. x \<in> set xs \<Longrightarrow> fails (body x l) s \<and> final (body x l s) = s"
  shows "pfold body xs l s = (if xs = [] then Inr l else outcome (body (hd xs) l s), s)"
proof (cases xs)
  case Nil
  then show ?thesis by (simp add: pret_def)
next
  case (Cons x rest)
  with assms [of x] obtain e where "body x l s = (Inl e, s)"
    by (cases "body x l s") (auto simp: fails_iff)
  with Cons show ?thesis by (simp add: pbind_run_Inl)
qed

section \<open>Lemmas on indexing\<close>

lemma py_nth_in_range [simp]: "i < length xs \<Longrightarrow> py_nth xs i = Inr (xs ! i)"
  by (simp add: py_nth_def)

lemma py_nth_out_of_range [simp]: "length xs \<le> i \<Longrightarrow> py_nth xs i = Inl IndexError"
  by (simp add: py_nth_def)

lemma py_nth_eq_Inr_iff [result_iffs]: "py_nth xs i = Inr x \<longleftrightarrow> i < length xs \<and> xs ! i = x"
  by (auto simp: py_nth_def)

lemma py_nth_error: "py_nth xs i = Inl e \<Longrightarrow> e = IndexError"
  by (auto simp: py_nth_def split: if_splits)

lemma py_last_snoc [simp]: "py_last (xs @ [x]) = Inr x"
  by (simp add: py_last_def)

lemma py_last_Nil [simp]: "py_last [] = Inl IndexError"
  by (simp add: py_last_def)

lemma mask_select_eq_Inr_iff [result_iffs]:
  "mask_select m xs = Inr ys \<longleftrightarrow>
     length m = length xs \<and> ys = map snd (filter fst (zip m xs))"
  by (auto simp: mask_select_def)

lemma mask_select_error: "mask_select m xs = Inl e \<Longrightarrow> e = IndexError"
  by (auto simp: mask_select_def split: if_splits)

lemma mask_select_Nil [simp]: "mask_select [] [] = Inr []"
  by (simp add: mask_select_def)

lemma mask_select_Cons [simp]:
  "mask_select (b # m) (x # xs) =
     rbind (mask_select m xs) (\<lambda>ys. Inr (if b then x # ys else ys))"
  by (simp add: mask_select_def)

lemma mask_select_all_False:
  "length m = length xs \<Longrightarrow> \<forall>b \<in> set m. \<not> b \<Longrightarrow> mask_select m xs = Inr []"
  by (induction m xs rule: list_induct2) auto

lemma mask_select_all_True:
  "length m = length xs \<Longrightarrow> \<forall>b \<in> set m. b \<Longrightarrow> mask_select m xs = Inr xs"
  by (induction m xs rule: list_induct2) auto

text \<open>Only the selected positions matter: two lists that agree wherever the mask is set
  select the same.\<close>

lemma filter_zip_cong:
  "length m = length xs \<Longrightarrow> length xs = length ys \<Longrightarrow>
   \<forall>i < length m. m ! i \<longrightarrow> xs ! i = ys ! i \<Longrightarrow>
   map snd (filter fst (zip m xs)) = map snd (filter fst (zip m ys))"
proof (induction m xs ys rule: list_induct3)
  case Nil
  show ?case by simp
next
  case (Cons b m x xs y ys)
  have tl: "xs ! i = ys ! i" if "i < length m" "m ! i" for i
    using Cons.prems [rule_format, of "Suc i"] that by simp
  have hd: "x = y" if b
    using Cons.prems [rule_format, of 0] that by simp
  from Cons.IH tl hd show ?case by simp
qed

lemma mask_select_cong:
  assumes "length xs = length ys"
    and "\<forall>i < length xs. i < length m \<longrightarrow> m ! i \<longrightarrow> xs ! i = ys ! i"
  shows "mask_select m xs = mask_select m ys"
proof (cases "length m = length xs")
  case False
  with assms(1) show ?thesis by (simp add: mask_select_def)
next
  case True
  with assms(2) have "\<forall>i < length m. m ! i \<longrightarrow> xs ! i = ys ! i"
    by simp
  with True assms(1) have "map snd (filter fst (zip m xs)) = map snd (filter fst (zip m ys))"
    by (rule filter_zip_cong)
  with True assms(1) show ?thesis by (simp add: mask_select_def)
qed

text \<open>A selection by a mask, by the positions at which the mask is set.\<close>

lemma zip_by_index: "length m = length xs \<Longrightarrow> zip m xs = map (\<lambda>i. (m ! i, xs ! i)) [0..<length xs]"
  by (rule nth_equalityI) simp_all

lemma mask_select_by_index:
  assumes "length m = length xs"
  shows "mask_select m xs = Inr (map (\<lambda>i. xs ! i) (filter (\<lambda>i. m ! i) [0..<length xs]))"
  using assms by (simp add: mask_select_def zip_by_index filter_map comp_def)

lemma rmap_map: "rmap f (map h xs) = rmap (\<lambda>x. f (h x)) xs"
  by (induction xs) simp_all

lemma filter_fst_zip_none: "\<forall>b \<in> set m. \<not> b \<Longrightarrow> filter fst (zip m xs) = []"
proof -
  assume none: "\<forall>b \<in> set m. \<not> b"
  have "\<not> fst p" if "p \<in> set (zip m xs)" for p
  proof -
    from that have "fst p \<in> set m"
      by (metis prod.collapse set_zip_leftD)
    with none show ?thesis by blast
  qed
  then show ?thesis by (simp add: filter_empty_conv)
qed

lemma mask_select_none_active:
  "\<forall>b \<in> set m. \<not> b \<Longrightarrow> mask_select m xs = Inr ys \<Longrightarrow> ys = []"
  by (simp add: mask_select_eq_Inr_iff filter_fst_zip_none)

lemma select_column_error: "select_column m j rows = Inl e \<Longrightarrow> e = IndexError"
  by (auto simp: select_column_def dest: mask_select_error split: if_splits)

lemma select_column_eq_Inr_iff [result_iffs]:
  "select_column m j rows = Inr ys \<longleftrightarrow>
     (\<forall>r \<in> set rows. j < length r) \<and> length m = length rows \<and>
     ys = map snd (filter fst (zip m (map (\<lambda>r. r ! j) rows)))"
  by (auto simp: select_column_def mask_select_def list_all_iff)

lemma select_column_none_active:
  "\<forall>b \<in> set m. \<not> b \<Longrightarrow> select_column m j rows = Inr ys \<Longrightarrow> ys = []"
  by (simp add: select_column_eq_Inr_iff filter_fst_zip_none)

lemma length_enumerate_from0 [simp]: "length (enumerate_from0 xs) = length xs"
  by (simp add: enumerate_from0_def)

lemma enumerate_from0_Nil [simp]: "enumerate_from0 [] = []"
  by (simp add: enumerate_from0_def)

lemma enumerate_from0_nth:
  "i < length xs \<Longrightarrow> enumerate_from0 xs ! i = (i, xs ! i)"
  by (simp add: enumerate_from0_def)

lemma enumerate_from0_Cons_hd: "\<exists>rest. enumerate_from0 (x # xs) = (0, x) # rest"
  by (simp add: enumerate_from0_def upt_rec)

end
