(* ===== verification/Loss.thy ===== *)
theory Loss
  imports Prelude
begin

text \<open>
  The loss and perplexity calculator: \<open>_batch_loss\<close>, \<open>_perplexity_from_loss\<close> and the
  mean that \<open>_print_info\<close> takes (\<open>trainer.py\<close>, lines 177-195).

  A batch of \<open>n\<close> examples is \<open>targets\<close> (\<open>n\<close> rows of token ids), \<open>target_lengths\<close>
  (\<open>n\<close> integers) and \<open>outputs\<close> (one matrix of \<open>n\<close> rows per time step). Floating
  point numbers are modelled as \<open>real\<close>; a value that is not a number has no counterpart
  and is the error \<open>NotANumber\<close>.

  \<open>batch_loss\<close> is the loop as written, with its running counter \<open>l\<close>;
  \<open>batch_loss_ref\<close> is the closed form in which step \<open>idx\<close> selects the examples with
  \<open>idx < target_lengths[i]\<close>. The lemmas show that the two agree, which positions the
  result depends on, when the loop raises, and how it differs from a loop over the time
  steps of \<open>outputs\<close>. \<open>nll_loss\<close> is the criterion the trainer installs,
  \<open>nn.NLLLoss()\<close> with its defaults, under which a target equal to \<open>ignore_index\<close> is
  skipped and the others are averaged. Under this criterion the value
  of the loss is given in closed form (\<open>nll_step\<close> over the examples \<open>active\<close> at a step)
  for the batches \<open>nll_ready\<close> describes, and it is bounded by the scores when these
  are logarithms of probabilities. The perplexity is below \<open>2 ^ 1024\<close>, from where on a
  float of 64 bits is infinite, exactly when the loss is below \<open>1024\<close>.
\<close>

section \<open>Data\<close>

type_synonym seqs = "int list list"
type_synonym logits = "real list list"
type_synonym outputs = "logits list"
type_synonym criterion = "logits \<Rightarrow> int list \<Rightarrow> real result"

section \<open>Operations\<close>

text \<open>The loop of \<open>_batch_loss\<close>: the state is the counter array \<open>l\<close> and the sum.\<close>

fun batch_loss_loop ::
  "criterion \<Rightarrow> outputs \<Rightarrow> seqs \<Rightarrow> nat list \<Rightarrow> int list \<times> real \<Rightarrow> (int list \<times> real) result"
where
  "batch_loss_loop criterion outputs targets [] (l, loss) = Inr (l, loss)"
| "batch_loss_loop criterion outputs targets (idx # rest) (l, loss) =
     (let idxes = map (\<lambda>x. 0 < x) l in
      rbind (py_nth outputs idx) (\<lambda>out.
      rbind (mask_select idxes out) (\<lambda>sel.
      rbind (select_column idxes idx targets) (\<lambda>tgt.
      rbind (criterion sel tgt) (\<lambda>c.
      batch_loss_loop criterion outputs targets rest (map (\<lambda>x. x - 1) l, loss + c))))))"

definition batch_loss :: "criterion \<Rightarrow> outputs \<Rightarrow> int list \<Rightarrow> seqs \<Rightarrow> real result" where
  "batch_loss criterion outputs target_lengths targets =
     rbind (batch_loss_loop criterion outputs targets
              [0..<length target_lengths] (target_lengths, 0))
       (\<lambda>(l, loss).
          if length outputs = 0 then Inl ZeroDivisionError
          else Inr (loss / real (length outputs)))"

definition perplexity_from_loss :: "real \<Rightarrow> real" where
  "perplexity_from_loss loss = 2 powr loss"

text \<open>\<open>np.mean\<close> of a list; of no numbers it is not a number (\<open>None\<close>), with a warning only.\<close>

definition np_mean :: "real list \<Rightarrow> real option" where
  "np_mean xs = (if xs = [] then None else Some (sum_list xs / real (length xs)))"

section \<open>Reference definitions\<close>

text \<open>What step \<open>idx\<close> adds, stated from the lengths themselves.\<close>

definition loss_term :: "criterion \<Rightarrow> outputs \<Rightarrow> int list \<Rightarrow> seqs \<Rightarrow> nat \<Rightarrow> real result" where
  "loss_term criterion outputs target_lengths targets idx =
     (let idxes = map (\<lambda>x. int idx < x) target_lengths in
      rbind (py_nth outputs idx) (\<lambda>out.
      rbind (mask_select idxes out) (\<lambda>sel.
      rbind (select_column idxes idx targets) (\<lambda>tgt.
      criterion sel tgt))))"

definition batch_loss_ref :: "criterion \<Rightarrow> outputs \<Rightarrow> int list \<Rightarrow> seqs \<Rightarrow> real result" where
  "batch_loss_ref criterion outputs target_lengths targets =
     rbind (rmap (loss_term criterion outputs target_lengths targets)
              [0..<length target_lengths])
       (\<lambda>cs. if outputs = [] then Inl ZeroDivisionError
             else Inr (sum_list cs / real (length outputs)))"

text \<open>
  The loss of section 4.3 of the specification read literally: one step per element of
  \<open>outputs\<close>, the sum divided by the number of steps.
\<close>

definition timestep_loss :: "criterion \<Rightarrow> outputs \<Rightarrow> int list \<Rightarrow> seqs \<Rightarrow> real result" where
  "timestep_loss criterion outputs target_lengths targets =
     rbind (rmap (loss_term criterion outputs target_lengths targets) [0..<length outputs])
       (\<lambda>cs. if outputs = [] then Inl ZeroDivisionError
             else Inr (sum_list cs / real (length outputs)))"

text \<open>
  The criterion the trainer installs, \<open>nn.NLLLoss()\<close> with its defaults (no class weights,
  \<open>ignore_index = -100\<close>, mean reduction), from the library's documentation: a row whose
  target is \<open>ignore_index\<close> is left out, and the result is the mean over the other rows of
  minus the entry at the row's target. A target that is no column of its row is an error;
  when no row is left the mean is not a number.
\<close>

definition ignore_index :: int where
  "ignore_index = - 100"

definition nll_row :: "real list \<Rightarrow> int \<Rightarrow> real result" where
  "nll_row row t = (if 0 \<le> t \<and> nat t < length row then Inr (- (row ! nat t)) else Inl IndexError)"

definition nll_loss :: criterion where
  "nll_loss input target =
     (if length input \<noteq> length target then Inl ValueError
      else
        let kept = filter (\<lambda>(row, t). t \<noteq> ignore_index) (zip input target) in
        rbind (rmap (\<lambda>(row, t). nll_row row t) kept)
          (\<lambda>vs. if kept = [] then Inl NotANumber
                else Inr (sum_list vs / real (length kept))))"

text \<open>Shapes: \<open>n\<close> examples, at least \<open>n\<close> output steps of \<open>n\<close> rows, at least \<open>n\<close> columns
  of targets.\<close>

definition well_shaped :: "outputs \<Rightarrow> int list \<Rightarrow> seqs \<Rightarrow> bool" where
  "well_shaped outputs target_lengths targets \<longleftrightarrow>
     length target_lengths \<le> length outputs \<and>
     list_all (\<lambda>out. length out = length target_lengths) (take (length target_lengths) outputs) \<and>
     length targets = length target_lengths \<and>
     list_all (\<lambda>r. length target_lengths \<le> length r) targets"

text \<open>The examples that are active at step \<open>idx\<close>, and the masked NLL of the step: the
  mean, over the active examples, of minus the score of the target token.\<close>

definition active :: "int list \<Rightarrow> nat \<Rightarrow> nat list" where
  "active target_lengths idx = filter (\<lambda>i. int idx < target_lengths ! i) [0..<length target_lengths]"

definition nll_step :: "outputs \<Rightarrow> int list \<Rightarrow> seqs \<Rightarrow> nat \<Rightarrow> real" where
  "nll_step outputs target_lengths targets idx =
     (\<Sum>i\<leftarrow>active target_lengths idx. - (outputs ! idx ! i ! nat (targets ! i ! idx))) /
     real (length (active target_lengths idx))"

text \<open>A batch the NLL criterion scores: well shaped, with at least one output step, and at
  every step at least one active example, whose target token is a column of its row.\<close>

definition nll_ready :: "outputs \<Rightarrow> int list \<Rightarrow> seqs \<Rightarrow> bool" where
  "nll_ready outputs target_lengths targets \<longleftrightarrow>
     well_shaped outputs target_lengths targets \<and> outputs \<noteq> [] \<and>
     list_all (\<lambda>idx. active target_lengths idx \<noteq> [] \<and>
                 list_all (\<lambda>i. 0 \<le> targets ! i ! idx \<and>
                               nat (targets ! i ! idx) < length (outputs ! idx ! i))
                   (active target_lengths idx))
       [0..<length target_lengths]"

text \<open>Two batches of outputs (of targets) of the same shape that agree at every position
  \<open>(idx, i)\<close> with \<open>idx < target_lengths[i]\<close>.\<close>

definition outputs_agree :: "int list \<Rightarrow> outputs \<Rightarrow> outputs \<Rightarrow> bool" where
  "outputs_agree lens outs outs' \<longleftrightarrow>
     length outs = length outs' \<and>
     list_all (\<lambda>k. k < length outs \<longrightarrow>
         length (outs ! k) = length (outs' ! k) \<and>
         list_all (\<lambda>i. i < length (outs ! k) \<longrightarrow> int k < lens ! i \<longrightarrow>
                      outs ! k ! i = outs' ! k ! i) [0..<length lens])
       [0..<length lens]"

definition targets_agree :: "int list \<Rightarrow> seqs \<Rightarrow> seqs \<Rightarrow> bool" where
  "targets_agree lens tgts tgts' \<longleftrightarrow>
     length tgts = length tgts' \<and>
     list_all (\<lambda>i. length (tgts ! i) = length (tgts' ! i)) [0..<length tgts] \<and>
     list_all (\<lambda>i. i < length tgts \<longrightarrow>
         list_all (\<lambda>k. int k < lens ! i \<longrightarrow> tgts ! i ! k = tgts' ! i ! k) [0..<length lens])
       [0..<length lens]"

section \<open>The loop and its closed form\<close>

declare batch_loss_loop.simps(2) [simp del]

lemma map_active_shift: "map (\<lambda>x. 0 < x) (map (\<lambda>x. x - int k) l) = map (\<lambda>x. int k < x) l"
  by simp

lemma map_decrement_shift: "map (\<lambda>x. x - 1) (map (\<lambda>x. x - int k) l) = map (\<lambda>x. x - int (Suc k)) l"
  by simp

lemma batch_loss_loop_step:
  "batch_loss_loop c outs tgts (k # ks) (map (\<lambda>x. x - int k) lens, acc) =
     rbind (loss_term c outs lens tgts k)
       (\<lambda>v. batch_loss_loop c outs tgts ks (map (\<lambda>x. x - int (Suc k)) lens, acc + v))"
  unfolding batch_loss_loop.simps(2) loss_term_def Let_def
    map_active_shift map_decrement_shift
  by (simp add: rbind_assoc)

text \<open>
  After the steps \<open>k, \<dots>, n - 1\<close> the counter of every example is its length minus \<open>n\<close>
  and the sum has grown by the terms of these steps.
\<close>

lemma batch_loss_loop_closed:
  assumes "k \<le> n"
  shows "batch_loss_loop c outs tgts [k..<n] (map (\<lambda>x. x - int k) lens, acc) =
           rbind (rmap (loss_term c outs lens tgts) [k..<n])
             (\<lambda>cs. Inr (map (\<lambda>x. x - int n) lens, acc + sum_list cs))"
  using assms
proof (induction "n - k" arbitrary: k acc)
  case 0
  then have "k = n" by simp
  then show ?case by simp
next
  case (Suc d)
  then have lt: "k < n" and d: "d = n - Suc k" and le: "Suc k \<le> n"
    by simp_all
  have IH: "batch_loss_loop c outs tgts [Suc k..<n] (map (\<lambda>x. x - int (Suc k)) lens, acc') =
      rbind (rmap (loss_term c outs lens tgts) [Suc k..<n])
        (\<lambda>cs. Inr (map (\<lambda>x. x - int n) lens, acc' + sum_list cs))" for acc'
    using Suc.hyps(1) [OF d le] .
  show ?case
    by (simp only: upt_conv_Cons [OF lt] batch_loss_loop_step IH rmap.simps rbind_assoc
          rbind_Inr sum_list.Cons add.assoc)
qed

lemma batch_loss_loop_from_start:
  "batch_loss_loop c outs tgts [0..<n] (lens, acc) =
     rbind (rmap (loss_term c outs lens tgts) [0..<n])
       (\<lambda>cs. Inr (map (\<lambda>x. x - int n) lens, acc + sum_list cs))"
  using batch_loss_loop_closed [of 0 n c outs tgts lens acc] by simp

section \<open>Perplexity\<close>

lemma perplexity_pos [simp]: "0 < perplexity_from_loss loss"
  by (simp add: perplexity_from_loss_def)

lemma perplexity_zero [simp]: "perplexity_from_loss 0 = 1"
  by (simp add: perplexity_from_loss_def)

lemma perplexity_add: "perplexity_from_loss (a + b) = perplexity_from_loss a * perplexity_from_loss b"
  by (simp add: perplexity_from_loss_def powr_add)

lemma perplexity_of_nat: "perplexity_from_loss (real n) = 2 ^ n"
  by (simp add: perplexity_from_loss_def powr_realpow)

section \<open>Mean\<close>

lemma np_mean_Nil [simp]: "np_mean [] = None"
  by (simp add: np_mean_def)

lemma np_mean_Cons [simp]: "np_mean (x # xs) = Some ((x + sum_list xs) / (1 + real (length xs)))"
  by (simp add: np_mean_def add.commute)

lemma np_mean_replicate: "0 < n \<Longrightarrow> np_mean (replicate n x) = Some x"
  by (simp add: np_mean_def sum_list_replicate)

section \<open>What the batch loss computes\<close>

lemma batch_loss_unfold:
  "batch_loss c outs lens tgts =
     rbind (rmap (loss_term c outs lens tgts) [0..<length lens])
       (\<lambda>cs. if outs = [] then Inl ZeroDivisionError
             else Inr (sum_list cs / real (length outs)))"
  by (simp add: batch_loss_def batch_loss_loop_from_start rbind_assoc)

lemmas batch_loss_eval =
  batch_loss_unfold loss_term_def select_column_def upt_rec

lemmas nll_eval = nll_loss_def nll_row_def ignore_index_def Let_def

text \<open>C1 (equivalence). The loop of \<open>_batch_loss\<close>, which decrements a counter per example
  and selects the examples whose counter is still positive, computes the closed form: step
  \<open>idx\<close> runs the criterion on the examples with \<open>idx < target_lengths[i]\<close>, for
  \<open>idx\<close> below the number of examples, and the sum is divided by \<open>len(outputs)\<close>; the two
  raise the same exceptions.\<close>

theorem batch_loss_eq_ref:
  "batch_loss c outs lens tgts = batch_loss_ref c outs lens tgts"
  by (simp add: batch_loss_unfold batch_loss_ref_def)

lemma batch_loss_empty_batch:
  "batch_loss c outs [] tgts = (if outs = [] then Inl ZeroDivisionError else Inr 0)"
  by (simp add: batch_loss_def)

lemma batch_loss_raises_if_term_raises:
  assumes "k < length lens" and "loss_term c outs lens tgts k = Inl e"
  shows "\<exists>e'. batch_loss c outs lens tgts = Inl e'"
proof -
  have "\<exists>e'. rmap (loss_term c outs lens tgts) [0..<length lens] = Inl e'"
    by (rule rmap_raises [where x = k and e = e]) (use assms in simp_all)
  then obtain e' where "rmap (loss_term c outs lens tgts) [0..<length lens] = Inl e'" ..
  then show ?thesis
    by (simp add: batch_loss_def batch_loss_loop_from_start)
qed

section \<open>Which positions the batch loss reads\<close>

lemma select_column_cong:
  assumes len: "length rows = length rows'"
    and rowlen: "\<forall>i < length rows. length (rows ! i) = length (rows' ! i)"
    and eq: "\<forall>i < length rows. i < length m \<longrightarrow> m ! i \<longrightarrow> rows ! i ! j = rows' ! i ! j"
  shows "select_column m j rows = select_column m j rows'"
proof -
  have cols: "list_all (\<lambda>r. j < length r) rows = list_all (\<lambda>r. j < length r) rows'"
    using len rowlen by (simp add: list_all_length)
  have "mask_select m (map (\<lambda>r. r ! j) rows) = mask_select m (map (\<lambda>r. r ! j) rows')"
    using len eq by (intro mask_select_cong) simp_all
  with cols show ?thesis
    by (simp add: select_column_def)
qed

lemma loss_term_cong:
  assumes outs: "outputs_agree lens outs outs'"
    and tgts: "targets_agree lens tgts tgts'"
    and k: "k < length lens"
  shows "loss_term c outs lens tgts k = loss_term c outs' lens tgts' k"
proof -
  let ?m = "map (\<lambda>x. int k < x) lens"
  have col: "select_column ?m k tgts = select_column ?m k tgts'"
    using tgts k by (intro select_column_cong) (simp_all add: targets_agree_def list_all_iff)
  show ?thesis
  proof (cases "k < length outs")
    case False
    with outs show ?thesis
      by (simp add: loss_term_def Let_def outputs_agree_def)
  next
    case True
    with outs k have same: "length (outs ! k) = length (outs' ! k)"
      and at: "\<forall>i < length (outs ! k). i < length lens \<longrightarrow> int k < lens ! i \<longrightarrow>
                 outs ! k ! i = outs' ! k ! i"
      by (simp_all add: outputs_agree_def list_all_iff)
    from same at have "mask_select ?m (outs ! k) = mask_select ?m (outs' ! k)"
      by (intro mask_select_cong) simp_all
    with True outs col show ?thesis
      by (simp add: loss_term_def Let_def outputs_agree_def)
  qed
qed

text \<open>C3 (safety). Masking: the loss reads the outputs and the targets of example \<open>i\<close> at
  step \<open>idx\<close> only while \<open>idx < target_lengths[i]\<close>. Two batches of the same shape that
  agree at these positions have the same loss (or raise the same exception), whatever the
  padding holds.\<close>

theorem batch_loss_masked:
  assumes "outputs_agree lens outs outs'" and "targets_agree lens tgts tgts'"
  shows "batch_loss c outs lens tgts = batch_loss c outs' lens tgts'"
proof -
  have "rmap (loss_term c outs lens tgts) [0..<length lens] =
        rmap (loss_term c outs' lens tgts') [0..<length lens]"
    using assms by (intro rmap_cong loss_term_cong) simp_all
  moreover from assms(1) have "outs = [] \<longleftrightarrow> outs' = []" "length outs = length outs'"
    by (auto simp: outputs_agree_def)
  ultimately show ?thesis
    by (simp add: batch_loss_unfold cong: if_cong)
qed

theorem batch_loss_masked_witness:
  "outputs_agree [2, 1] [[[-1, -2], [-3, -4]], [[-5, -6], [-7, -8]]]
                        [[[-1, -2], [-3, -4]], [[-5, -6], [0, 0]]] \<and>
   targets_agree [2, 1] [[0, 1], [1, 0]] [[0, 1], [1, 1]] \<and>
   batch_loss nll_loss [[[-1, -2], [-3, -4]], [[-5, -6], [-7, -8]]] [2, 1] [[0, 1], [1, 0]] =
     Inr (17 / 4) \<and>
   batch_loss nll_loss [[[-1, -2], [-3, -4]], [[-5, -6], [0, 0]]] [2, 1] [[0, 1], [1, 1]] =
     Inr (17 / 4)"
proof -
  let ?outs = "[[[-1, -2], [-3, -4]], [[-5, -6], [-7, -8]]] :: outputs"
  let ?outs' = "[[[-1, -2], [-3, -4]], [[-5, -6], [0, 0]]] :: outputs"
  have o: "outputs_agree [2, 1] ?outs ?outs'"
    by (simp add: outputs_agree_def)
  have t: "targets_agree [2, 1] [[0, 1], [1, 0]] [[0, 1], [1, 1]]"
    by (simp add: targets_agree_def)
  have v: "batch_loss nll_loss ?outs [2, 1] [[0, 1], [1, 0]] = Inr (17 / 4)"
    by (simp add: batch_loss_eval nll_eval)
  from batch_loss_masked [OF o t, of nll_loss] o t v show ?thesis
    by simp
qed

text \<open>C7 (error). The loop runs once per example, not once per time step: with more examples
  than output steps it indexes \<open>outputs\<close> past its end and the call raises.\<close>

theorem batch_loss_index_error:
  assumes "length outs < length lens"
  shows "\<exists>e. batch_loss c outs lens tgts = Inl e"
proof -
  have "loss_term c outs lens tgts (length outs) = Inl IndexError"
    by (simp add: loss_term_def)
  with assms show ?thesis
    by (rule batch_loss_raises_if_term_raises)
qed

theorem batch_loss_index_error_witness:
  "length [[[-1, -2], [-3, -4]]] < length [2, 1 :: int] \<and>
   (\<exists>e. batch_loss nll_loss [[[-1, -2], [-3, -4]]] [2, 1] [[0, 1], [1, 0]] = Inl e)"
  using batch_loss_index_error [of "[[[-1, -2], [-3, -4]]]" "[2, 1]" nll_loss "[[0, 1], [1, 0]]"]
  by simp

text \<open>C33 (safety). Output steps at or after the number of examples are never read, however
  long the answers are: two runs of outputs of the same length that agree on their first
  \<open>len(target_lengths)\<close> steps have the same loss.\<close>

theorem batch_loss_ignores_late_steps:
  assumes "length outs = length outs'"
    and "take (length lens) outs = take (length lens) outs'"
  shows "batch_loss c outs lens tgts = batch_loss c outs' lens tgts"
proof -
  have "loss_term c outs lens tgts k = loss_term c outs' lens tgts k" if "k < length lens" for k
  proof -
    have "outs ! k = outs' ! k" if "k < length outs"
      using assms(2) \<open>k < length lens\<close> by (metis nth_take)
    with assms(1) show ?thesis
      by (simp add: loss_term_def py_nth_def)
  qed
  then have "rmap (loss_term c outs lens tgts) [0..<length lens] =
        rmap (loss_term c outs' lens tgts) [0..<length lens]"
    by (intro rmap_cong) simp
  moreover from assms(1) have "outs = [] \<longleftrightarrow> outs' = []"
    by auto
  ultimately show ?thesis
    using assms(1) by (simp add: batch_loss_unfold cong: if_cong)
qed

theorem batch_loss_ignores_late_steps_witness:
  "batch_loss nll_loss [[[-1, -2]], [[-3, -4]], [[-5, -6]]] [3] [[0, 1, 1]] =
   batch_loss nll_loss [[[-1, -2]], [[9, 9]], [[9, 9]]] [3] [[0, 1, 1]] \<and>
   batch_loss nll_loss [[[-1, -2]], [[-3, -4]], [[-5, -6]]] [3] [[0, 1, 1]] = Inr (1 / 3)"
proof -
  have "batch_loss nll_loss [[[-1, -2]], [[-3, -4]], [[-5, -6]]] [3] [[0, 1, 1]] = Inr (1 / 3)"
    by (simp add: batch_loss_eval nll_eval)
  with batch_loss_ignores_late_steps
         [of "[[[-1, -2]], [[-3, -4]], [[-5, -6]]]" "[[[-1, -2]], [[9, 9]], [[9, 9]]]" "[3]"
             nll_loss "[[0, 1, 1]]"]
  show ?thesis by simp
qed

text \<open>When the batch has exactly as many examples as there are output
  steps, the loop is the loss of the specification, one masked step per element of
  \<open>outputs\<close>.\<close>

lemma batch_loss_eq_timestep_loss:
  assumes "length lens = length outs"
  shows "batch_loss c outs lens tgts = timestep_loss c outs lens tgts"
  using assms by (simp add: batch_loss_unfold timestep_loss_def)

lemma batch_loss_eq_timestep_loss_witness:
  "batch_loss nll_loss [[[-1, -2], [-3, -4]], [[-5, -6], [-7, -8]]] [2, 1] [[0, 1], [1, 0]] =
   timestep_loss nll_loss [[[-1, -2], [-3, -4]], [[-5, -6], [-7, -8]]] [2, 1] [[0, 1], [1, 0]]"
  using batch_loss_eq_timestep_loss
          [of "[2, 1]" "[[[-1, -2], [-3, -4]], [[-5, -6], [-7, -8]]]" nll_loss "[[0, 1], [1, 0]]"]
  by simp

text \<open>Where the two differ: one example of three tokens and three output steps. The loop
  scores the first step only; the loss over the time steps scores all three.\<close>

lemma batch_loss_differs_from_timestep_loss:
  "batch_loss nll_loss [[[-1, -2]], [[-3, -4]], [[-5, -6]]] [3] [[0, 1, 1]] = Inr (1 / 3) \<and>
   timestep_loss nll_loss [[[-1, -2]], [[-3, -4]], [[-5, -6]]] [3] [[0, 1, 1]] = Inr (11 / 3)"
  by (simp add: batch_loss_eval timestep_loss_def nll_eval)

section \<open>The batch loss under the NLL criterion\<close>

lemma nll_loss_Nil [simp]: "nll_loss [] [] = Inl NotANumber"
  by (simp add: nll_loss_def)

lemma loss_term_nll_none_active:
  assumes "\<forall>x \<in> set lens. x \<le> int k"
  shows "\<exists>e. loss_term nll_loss outs lens tgts k = Inl e"
proof (cases "loss_term nll_loss outs lens tgts k")
  case (Inl e)
  then show ?thesis by blast
next
  case (Inr v)
  let ?m = "map (\<lambda>x. int k < x) lens"
  from assms have none: "\<forall>b \<in> set ?m. \<not> b" by auto
  from Inr obtain out sel tgt where sel: "mask_select ?m out = Inr sel"
    and tgt: "select_column ?m k tgts = Inr tgt" and run: "nll_loss sel tgt = Inr v"
    by (auto simp: loss_term_def Let_def rbind_eq_Inr_iff)
  from none sel have "sel = []" by (rule mask_select_none_active)
  moreover from none tgt have "tgt = []" by (rule select_column_none_active)
  ultimately show ?thesis using run by simp
qed

text \<open>With the criterion the trainer installs, a batch that has more examples
  than its longest answer has tokens cannot be scored: at step \<open>idx = m\<close> no example is
  active, the selection is empty and its mean is not a number.\<close>

lemma batch_loss_nll_short_answers:
  assumes "m < length lens" and "\<forall>x \<in> set lens. x \<le> int m"
  shows "\<exists>e. batch_loss nll_loss outs lens tgts = Inl e"
proof -
  from assms(2) obtain e where "loss_term nll_loss outs lens tgts m = Inl e"
    using loss_term_nll_none_active by blast
  with assms(1) show ?thesis
    by (rule batch_loss_raises_if_term_raises)
qed

lemma batch_loss_nll_short_answers_witness:
  "1 < length [1, 1 :: int] \<and> list_all (\<lambda>x. x \<le> int 1) [1, 1] \<and>
   (\<exists>e. batch_loss nll_loss [[[-1, -2], [-3, -4]], [[-5, -6], [-7, -8]]] [1, 1]
          [[0, 1], [1, 0]] = Inl e)"
  using batch_loss_nll_short_answers
          [of 1 "[1, 1]" "[[[-1, -2], [-3, -4]], [[-5, -6], [-7, -8]]]" "[[0, 1], [1, 0]]"]
  by simp

section \<open>Perplexity is the base-2 exponential\<close>

text \<open>Perplexity is 2 to the loss: the base-2 logarithm of the perplexity
  recorded for a loss is that loss.\<close>

lemma perplexity_log2_inverse: "log 2 (perplexity_from_loss loss) = loss"
  by (simp add: perplexity_from_loss_def)

text \<open>Perplexity orders batches as the loss does.\<close>

lemma perplexity_strict_mono:
  "perplexity_from_loss a < perplexity_from_loss b \<longleftrightarrow> a < b"
  by (simp add: perplexity_from_loss_def)

section \<open>The value of the batch loss under the NLL criterion\<close>

lemma active_by_mask:
  "filter (\<lambda>i. map (\<lambda>x. int idx < x) lens ! i) [0..<length lens] = active lens idx"
  unfolding active_def by (rule filter_cong) simp_all

lemma set_active: "i \<in> set (active lens idx) \<longleftrightarrow> i < length lens \<and> int idx < lens ! i"
  by (auto simp: active_def)

text \<open>Without an ignored target the criterion is the mean over all rows; a row with an
  ignored target can be dropped.\<close>

lemma nll_loss_no_ignored:
  assumes "ignore_index \<notin> set target"
  shows "nll_loss input target =
         (if length input \<noteq> length target then Inl ValueError
          else if input = [] then Inl NotANumber
          else rbind (rmap (\<lambda>(row, t). nll_row row t) (zip input target))
                 (\<lambda>vs. Inr (sum_list vs / real (length input))))"
proof -
  have "filter (\<lambda>(row, t). t \<noteq> ignore_index) (zip input target) = zip input target"
    using assms by (auto simp: filter_id_conv dest: set_zip_rightD)
  then show ?thesis
    by (cases input; cases target) (simp_all add: nll_loss_def)
qed

lemma nll_loss_ignored_row:
  "nll_loss (row # input) (ignore_index # target) =
     (if length input \<noteq> length target then Inl ValueError else nll_loss input target)"
  by (simp add: nll_loss_def)

lemma nll_loss_by_index:
  assumes "is \<noteq> []" and "\<And>i. i \<in> set is \<Longrightarrow> 0 \<le> t i \<and> nat (t i) < length (row i)"
  shows "nll_loss (map row is) (map t is) =
         Inr ((\<Sum>i\<leftarrow>is. - (row i ! nat (t i))) / real (length is))"
proof -
  have "rmap (\<lambda>i. nll_row (row i) (t i)) is = Inr (map (\<lambda>i. - (row i ! nat (t i))) is)"
    by (rule rmap_total) (simp add: nll_row_def assms(2))
  moreover have "ignore_index \<notin> set (map t is)"
    using assms(2) by (fastforce simp: ignore_index_def)
  ultimately show ?thesis
    using assms(1) by (simp add: nll_loss_no_ignored zip_map_map zip_same_conv_map rmap_map)
qed

lemma loss_term_nll:
  assumes shape: "well_shaped outs lens tgts" and idx: "idx < length lens"
    and some: "active lens idx \<noteq> []"
    and range: "\<And>i. i \<in> set (active lens idx) \<Longrightarrow>
                  0 \<le> tgts ! i ! idx \<and> nat (tgts ! i ! idx) < length (outs ! idx ! i)"
  shows "loss_term nll_loss outs lens tgts idx = Inr (nll_step outs lens tgts idx)"
proof -
  let ?m = "map (\<lambda>x. int idx < x) lens"
  from shape idx have out: "idx < length outs" "length (outs ! idx) = length lens"
    and rows: "length tgts = length lens" "list_all (\<lambda>r. idx < length r) tgts"
    by (auto simp: well_shaped_def list_all_length)
  from out(2) have sel: "mask_select ?m (outs ! idx) = Inr (map (\<lambda>i. outs ! idx ! i) (active lens idx))"
    by (simp add: mask_select_by_index active_by_mask)
  have "map (\<lambda>i. map (\<lambda>r. r ! idx) tgts ! i) (active lens idx) =
        map (\<lambda>i. tgts ! i ! idx) (active lens idx)"
    by (rule map_cong) (simp_all add: set_active rows(1))
  with rows have tgt: "select_column ?m idx tgts = Inr (map (\<lambda>i. tgts ! i ! idx) (active lens idx))"
    by (simp add: select_column_def mask_select_by_index active_by_mask)
  from out(1) show ?thesis
    by (simp add: loss_term_def sel tgt nll_step_def nll_loss_by_index [OF some range])
qed

lemma loss_terms_nll:
  assumes "nll_ready outs lens tgts"
  shows "rmap (loss_term nll_loss outs lens tgts) [0..<length lens] =
         Inr (map (nll_step outs lens tgts) [0..<length lens])"
  using assms by (intro rmap_total loss_term_nll) (auto simp: nll_ready_def list_all_iff)

text \<open>
  C10 (masked loss, section 4.3, with the criterion the trainer installs): on a batch the
  criterion scores, \<open>_batch_loss\<close> returns, and its value is the sum over the steps below
  the number of examples of the mean, over the examples still active at the step, of
  minus the score of the target token, divided by the number of output steps.
\<close>

theorem nll_batch_loss_value:
  assumes "nll_ready outs lens tgts"
  shows "batch_loss nll_loss outs lens tgts =
         Inr ((\<Sum>idx\<leftarrow>[0..<length lens]. nll_step outs lens tgts idx) / real (length outs))"
  using assms by (simp add: batch_loss_unfold loss_terms_nll) (simp add: nll_ready_def)

theorem nll_batch_loss_value_witness:
  "batch_loss nll_loss [[[- 1, - 2], [- 3, - 4]], [[- 5, - 6], [- 7, - 8]]] [2, 1] [[0, 1], [1, 0]]
     = Inr (17 / 4)"
proof -
  have "nll_ready [[[- 1, - 2], [- 3, - 4]], [[- 5, - 6], [- 7, - 8]]] [2, 1] [[0, 1], [1, 0]]"
    by (simp add: nll_ready_def well_shaped_def active_def upt_conv_Cons)
  from nll_batch_loss_value [OF this] show ?thesis
    by (simp add: nll_step_def active_def upt_conv_Cons)
qed

text \<open>The mean of a step lies where the scores of its active examples lie.\<close>

lemma nll_step_bounds:
  assumes "active lens idx \<noteq> []"
    and "\<And>i. i \<in> set (active lens idx) \<Longrightarrow>
           - b \<le> outs ! idx ! i ! nat (tgts ! i ! idx) \<and> outs ! idx ! i ! nat (tgts ! i ! idx) \<le> 0"
  shows "0 \<le> nll_step outs lens tgts idx \<and> nll_step outs lens tgts idx \<le> b"
proof -
  let ?f = "\<lambda>i. - (outs ! idx ! i ! nat (tgts ! i ! idx))"
  have "sum_list (map ?f (active lens idx)) \<le> sum_list (map (\<lambda>i. b) (active lens idx))"
    by (rule sum_list_mono) (use assms(2) in force)
  then have "sum_list (map ?f (active lens idx)) \<le> b * real (length (active lens idx))"
    by (simp add: sum_list_triv mult.commute)
  moreover have "0 \<le> sum_list (map ?f (active lens idx))"
    by (rule sum_list_nonneg) (use assms(2) in force)
  moreover from assms(1) have "0 < real (length (active lens idx))"
    by simp
  ultimately show ?thesis
    by (simp add: nll_step_def pos_divide_le_eq)
qed

lemma sum_list_bounds:
  assumes "\<And>x. x \<in> set xs \<Longrightarrow> 0 \<le> f x \<and> f x \<le> (b :: real)"
  shows "0 \<le> sum_list (map f xs) \<and> sum_list (map f xs) \<le> b * real (length xs)"
proof -
  have "sum_list (map f xs) \<le> sum_list (map (\<lambda>x. b) xs)"
    by (rule sum_list_mono) (use assms in simp)
  moreover have "0 \<le> sum_list (map f xs)"
    by (rule sum_list_nonneg) (use assms in force)
  ultimately show ?thesis
    by (simp add: sum_list_triv mult.commute)
qed

text \<open>
  C40 (loss and perplexity, section 4.3): with scores that are logarithms of probabilities
  not below \<open>- b\<close>, the loss of a batch the criterion scores lies between \<open>0\<close> and \<open>b\<close>
  and its perplexity between \<open>1\<close> and \<open>2\<close> to the \<open>b\<close>: the loop scores at most as many
  steps as there are output steps, by which the sum is divided.
\<close>

theorem nll_batch_loss_bounds:
  assumes "nll_ready outs lens tgts"
    and "\<And>idx i. idx < length lens \<Longrightarrow> i \<in> set (active lens idx) \<Longrightarrow>
           - b \<le> outs ! idx ! i ! nat (tgts ! i ! idx) \<and> outs ! idx ! i ! nat (tgts ! i ! idx) \<le> 0"
    and "0 \<le> b"
  shows "\<exists>v. batch_loss nll_loss outs lens tgts = Inr v \<and> 0 \<le> v \<and> v \<le> b \<and>
             1 \<le> perplexity_from_loss v \<and> perplexity_from_loss v \<le> 2 powr b"
proof -
  let ?v = "(\<Sum>idx\<leftarrow>[0..<length lens]. nll_step outs lens tgts idx) / real (length outs)"
  from assms(1) have n: "length lens \<le> length outs" "0 < length outs"
    by (simp_all add: nll_ready_def well_shaped_def)
  have "0 \<le> nll_step outs lens tgts idx \<and> nll_step outs lens tgts idx \<le> b"
    if "idx \<in> set [0..<length lens]" for idx
    using that assms(1,2) by (intro nll_step_bounds) (auto simp: nll_ready_def list_all_iff)
  from sum_list_bounds [of "[0..<length lens]" "nll_step outs lens tgts" b, OF this]
  have sum: "0 \<le> (\<Sum>idx\<leftarrow>[0..<length lens]. nll_step outs lens tgts idx)"
    "(\<Sum>idx\<leftarrow>[0..<length lens]. nll_step outs lens tgts idx) \<le> b * real (length lens)"
    by simp_all
  from n(1) assms(3) have "b * real (length lens) \<le> b * real (length outs)"
    by (intro mult_left_mono) simp_all
  with sum n(2) have "0 \<le> ?v" "?v \<le> b"
    by (simp_all add: pos_divide_le_eq)
  moreover have "batch_loss nll_loss outs lens tgts = Inr ?v"
    using assms(1) by (simp add: batch_loss_unfold loss_terms_nll) (simp add: nll_ready_def)
  ultimately show ?thesis
    by (simp add: perplexity_from_loss_def ge_one_powr_ge_zero)
qed

theorem nll_batch_loss_bounds_witness:
  "\<exists>v. batch_loss nll_loss [[[- 1, - 2], [- 3, - 4]], [[- 5, - 6], [- 7, - 8]]] [2, 1]
         [[0, 1], [1, 0]] = Inr v \<and> 0 \<le> v \<and> v \<le> 8 \<and>
       1 \<le> perplexity_from_loss v \<and> perplexity_from_loss v \<le> 2 powr 8"
proof (rule nll_batch_loss_bounds)
  show "nll_ready [[[- 1, - 2], [- 3, - 4]], [[- 5, - 6], [- 7, - 8]]] [2, 1] [[0, 1], [1, 0]]"
    by (simp add: nll_ready_def well_shaped_def active_def upt_conv_Cons)
  show "- 8 \<le> [[[- 1, - 2], [- 3, - 4]], [[- 5, - 6], [- 7, - 8 :: real]]] ! idx ! i !
                 nat ([[0, 1], [1, 0]] ! i ! idx) \<and>
        [[[- 1, - 2], [- 3, - 4]], [[- 5, - 6], [- 7, - 8 :: real]]] ! idx ! i !
                 nat ([[0, 1], [1, 0]] ! i ! idx) \<le> 0"
    if "idx < length [2, 1 :: int]" "i \<in> set (active [2, 1] idx)" for idx i
    using that by (auto simp: active_def upt_conv_Cons less_Suc_eq split: if_splits)
qed simp

section \<open>The range of the perplexity\<close>

text \<open>The first power of two that is no finite float of 64 bits is \<open>2 ^ 1024\<close>: the
  perplexity of a loss stays below it exactly when the loss is below \<open>1024\<close>. From there
  on \<open>np.power\<close> returns infinity; the code does not guard against it (section 7 of the
  specification).\<close>

lemma perplexity_finite_iff: "perplexity_from_loss v < 2 ^ 1024 \<longleftrightarrow> v < 1024"
proof -
  have "(2 :: real) powr 1024 = 2 ^ 1024"
    by (rule powr_numeral) simp
  then have "perplexity_from_loss v < 2 ^ 1024 \<longleftrightarrow> 2 powr v < 2 powr 1024"
    by (simp only: perplexity_from_loss_def)
  also have "\<dots> \<longleftrightarrow> v < 1024"
    by (rule powr_less_cancel_iff) simp
  finally show ?thesis .
qed

section \<open>The scenario of the specification\<close>

text \<open>Section 8 of the specification: answers of the lengths 3 and 1 with two output
  steps. The loop makes two steps, as many as there are examples: both examples are scored
  at step 0 and the first alone at step 1; its third token is never scored, and no output
  is indexed past the end. With a third example the loop makes a third step and raises.\<close>

lemma scenario_lengths_3_1:
  "batch_loss nll_loss [[[- 1, - 2], [- 3, - 4]], [[- 5, - 6], [- 7, - 8]]] [3, 1]
     [[0, 1, 1], [1, 0, 0]] = Inr (17 / 4)"
  "batch_loss nll_loss [[[- 1, - 2], [- 3, - 4]], [[- 5, - 6], [- 7, - 8]]] [3, 1]
     [[0, 1, 0], [1, 1, 1]] = Inr (17 / 4)"
  "batch_loss nll_loss [[[- 1, - 2], [- 3, - 4], [- 1, - 1]], [[- 5, - 6], [- 7, - 8], [- 1, - 1]]]
     [3, 1, 1] [[0, 1, 1], [1, 0, 0], [0, 0, 0]] = Inl IndexError"
  by (simp_all add: batch_loss_eval nll_eval)

end
