(* ===== verification/Params.thy ===== *)
theory Params
  imports Prelude
begin

text \<open>
  The hyperparameter store: the dictionary \<open>params\<close> that the trainer reads with
  \<open>self.params[C.KEY]\<close>. The keys are the names of the constants module (\<open>pkey\<close>), the
  values are Python integers, floats or strings (\<open>pval\<close>). The attribute
  \<open>self.params\<close> can also hold \<open>None\<close>, so a read goes through \<open>getitem\<close> on a
  \<open>params option\<close>: \<open>None\<close> is not subscriptable (TypeError), a missing key is a KeyError.

  The coercions say what each use accepts: \<open>range\<close> wants an integer, a product and a
  comparison with a float want a number, \<open>==\<close> with the epoch accepts anything, and
  \<open>%s\<close> formats anything. \<open>all_keys\<close> enumerates the keys; with it \<open>pkey\<close> is an
  instance of the class \<open>enum\<close>.
\<close>

section \<open>Data\<close>

datatype pkey =
    VOCAB_SIZE | HDIM | OUTPUT_MAX_LEN | H_LAYERS | DROPOUT
  | EPOCHS | LR | LR_DECAY | DECAY_START_EPOCH | TEACHER_FORCING_RATIO | MODEL_NAME

datatype pval = PInt int | PFloat real | PStr string

type_synonym params = "pkey \<rightharpoonup> pval"

text \<open>The keys, in the order of the constants.\<close>

definition all_keys :: "pkey list" where
  "all_keys = [VOCAB_SIZE, HDIM, OUTPUT_MAX_LEN, H_LAYERS, DROPOUT, EPOCHS, LR, LR_DECAY,
               DECAY_START_EPOCH, TEACHER_FORCING_RATIO, MODEL_NAME]"

section \<open>Operations\<close>

definition getitem :: "params option \<Rightarrow> pkey \<Rightarrow> pval result" where
  "getitem ps k =
     (case ps of
        None \<Rightarrow> Inl TypeError
      | Some d \<Rightarrow> (case d k of None \<Rightarrow> Inl KeyError | Some v \<Rightarrow> Inr v))"

text \<open>The argument of \<open>range\<close>: an integer, nothing else.\<close>

fun as_index :: "pval \<Rightarrow> int result" where
  "as_index (PInt i) = Inr i"
| "as_index (PFloat r) = Inl TypeError"
| "as_index (PStr s) = Inl TypeError"

text \<open>An operand of float arithmetic or of \<open><\<close> against a float.\<close>

fun as_number :: "pval \<Rightarrow> real result" where
  "as_number (PInt i) = Inr (real_of_int i)"
| "as_number (PFloat r) = Inr r"
| "as_number (PStr s) = Inl TypeError"

text \<open>\<open>epoch == v\<close> for an integer \<open>epoch\<close>: numbers compare by value, a string is unequal.\<close>

fun eq_int :: "int \<Rightarrow> pval \<Rightarrow> bool" where
  "eq_int n (PInt i) = (n = i)"
| "eq_int n (PFloat r) = (real_of_int n = r)"
| "eq_int n (PStr s) = False"

text \<open>\<open>range(n)\<close> as the list of its values; empty for \<open>n \<le> 0\<close>.\<close>

definition py_range :: "int \<Rightarrow> nat list" where
  "py_range n = [0..<nat n]"

section \<open>Lemmas\<close>

lemma getitem_None [simp]: "getitem None k = Inl TypeError"
  by (simp add: getitem_def)

lemma getitem_Some [simp]:
  "getitem (Some d) k = (case d k of None \<Rightarrow> Inl KeyError | Some v \<Rightarrow> Inr v)"
  by (simp add: getitem_def)

lemma getitem_eq_Inr_iff [result_iffs]:
  "getitem ps k = Inr v \<longleftrightarrow> (\<exists>d. ps = Some d \<and> d k = Some v)"
  by (auto simp: getitem_def split: option.splits)

lemma getitem_error: "getitem ps k = Inl e \<Longrightarrow> e = TypeError \<or> e = KeyError"
  by (auto simp: getitem_def split: option.splits)

lemma getitem_update_same [simp]: "getitem (Some (d(k \<mapsto> v))) k = Inr v"
  by simp

lemma getitem_update_other [simp]:
  "k \<noteq> k' \<Longrightarrow> getitem (Some (d(k' \<mapsto> v))) k = getitem (Some d) k"
  by simp

lemma as_index_eq_Inr_iff [result_iffs]: "as_index v = Inr i \<longleftrightarrow> v = PInt i"
  by (cases v) auto

lemma as_number_eq_Inr_iff:
  "as_number v = Inr r \<longleftrightarrow> (\<exists>i. v = PInt i \<and> r = real_of_int i) \<or> v = PFloat r"
  by (cases v) auto

lemma as_number_error: "as_number v = Inl e \<Longrightarrow> e = TypeError"
  by (cases v) auto

lemma as_index_error: "as_index v = Inl e \<Longrightarrow> e = TypeError"
  by (cases v) auto

lemma py_range_nonpos [simp]: "n \<le> 0 \<Longrightarrow> py_range n = []"
  by (simp add: py_range_def)

lemma py_range_pos: "0 < n \<Longrightarrow> py_range n = 0 # [1..<nat n]"
  by (simp add: py_range_def upt_rec)

lemma length_py_range [simp]: "length (py_range n) = nat n"
  by (simp add: py_range_def)

lemma py_range_eq_Nil_iff [simp]: "py_range n = [] \<longleftrightarrow> n \<le> 0"
  by (simp add: py_range_def)

section \<open>The keys are enumerated\<close>

lemma all_keys_UNIV [simp]: "k \<in> set all_keys"
  by (cases k) (simp_all add: all_keys_def)

lemma distinct_all_keys: "distinct all_keys"
  by (simp add: all_keys_def)

lemma UNIV_pkey: "UNIV = set all_keys"
  by auto

text \<open>With the keys enumerated, a statement about all keys of a dictionary is one about
  the list \<open>all_keys\<close>, and the library's class of enumerable types applies.\<close>

instantiation pkey :: enum
begin

definition "enum_pkey = all_keys"

definition "enum_all_pkey P \<longleftrightarrow> list_all P all_keys"

definition "enum_ex_pkey P \<longleftrightarrow> list_ex P all_keys"

instance
proof
  show "UNIV = set (enum_class.enum :: pkey list)"
    by (simp add: enum_pkey_def UNIV_pkey [symmetric])
  show "distinct (enum_class.enum :: pkey list)"
    by (simp add: enum_pkey_def distinct_all_keys)
  show "\<And>P. (enum_class.enum_all :: (pkey \<Rightarrow> bool) \<Rightarrow> bool) P = Ball UNIV P"
    by (auto simp: enum_all_pkey_def list_all_iff)
  show "\<And>P. (enum_class.enum_ex :: (pkey \<Rightarrow> bool) \<Rightarrow> bool) P = Bex UNIV P"
    by (auto simp: enum_ex_pkey_def list_ex_iff)
qed

end

lemma dom_params_finite: "finite (dom (d :: params))"
  by simp

end
