(* ===== verification/Checkpoint.thy ===== *)
theory Checkpoint
  imports Params
begin

text \<open>
  The pure part of the checkpoint writer (\<open>trainer.py\<close>, lines 151-168 and 186-188): the
  name of the checkpoint directory and the creation of that directory.

  \<^item> \<open>strftime\<close> is \<open>time.strftime('%Y-%m-%d-%H-%M-%S')\<close> on a \<open>datetime\<close> record:
    the year in decimal, the other five fields zero-padded to two digits, joined by
    hyphens. \<open>strptime\<close> reads such a name back; it has no counterpart in the code and
    serves to state that the name determines the time.
  \<^item> \<open>save_dir_path\<close> is the \<open>'%s/%s/%s'\<close> format of \<open>_save_dir\<close>; \<open>py_str\<close> is what
    \<open>%s\<close> prints for a hyperparameter value (the text of a float comes from the
    environment, as \<open>float_repr\<close>).
  \<^item> The paths of the file system are a set. \<open>ensure_path\<close> is the set that exists
    when \<open>_ensure_path\<close> returns: if the path does not exist, \<open>os.makedirs\<close> creates it
    and every missing ancestor (\<open>dir_prefixes\<close>). \<open>dirname\<close> is the directory of a path,
    in which a file of that path is created. The exceptions of \<open>os.makedirs\<close> and of
    \<open>open\<close> need the kind of a path (a file or a directory) and are in the theory
    \<open>World\<close>.
  \<^item> The lemmas on paths relate the two: the ancestors of an ancestor are ancestors, a
    path with a slash is its directory and a file name (\<open>path_split\<close>), and the
    ancestors of a path are the path and the ancestors of its directory
    (\<open>dir_prefixes_dirname\<close>).
\<close>

section \<open>Data\<close>

record datetime =
  year :: nat
  month :: nat
  day :: nat
  hour :: nat
  minute :: nat
  second :: nat

type_synonym filesystem = "string set"

section \<open>Decimal numbers\<close>

definition digit_char :: "nat \<Rightarrow> char" where
  "digit_char d = char_of (48 + d)"

definition is_digit :: "char \<Rightarrow> bool" where
  "is_digit c \<longleftrightarrow> 48 \<le> (of_char c :: nat) \<and> (of_char c :: nat) \<le> 57"

definition digit_val :: "char \<Rightarrow> nat" where
  "digit_val c = of_char c - 48"

fun show_nat :: "nat \<Rightarrow> string" where
  "show_nat n = (if n < 10 then [digit_char n] else show_nat (n div 10) @ [digit_char (n mod 10)])"

definition show_int :: "int \<Rightarrow> string" where
  "show_int i = (if i < 0 then CHR ''-'' # show_nat (nat (- i)) else show_nat (nat i))"

definition pad2 :: "nat \<Rightarrow> string" where
  "pad2 n = (if n < 10 then CHR ''0'' # show_nat n else show_nat n)"

definition read_nat :: "string \<Rightarrow> nat option" where
  "read_nat s =
     (if s \<noteq> [] \<and> list_all is_digit s
      then Some (foldl (\<lambda>a c. 10 * a + digit_val c) 0 s) else None)"

definition read2 :: "string \<Rightarrow> nat option" where
  "read2 s = (if length s = 2 then read_nat s else None)"

section \<open>Operations\<close>

definition valid_datetime :: "datetime \<Rightarrow> bool" where
  "valid_datetime d \<longleftrightarrow>
     1 \<le> year d \<and> year d \<le> 9999 \<and> 1 \<le> month d \<and> month d \<le> 12 \<and>
     1 \<le> day d \<and> day d \<le> 31 \<and> hour d < 24 \<and> minute d < 60 \<and> second d < 60"

definition strftime :: "datetime \<Rightarrow> string" where
  "strftime d =
     show_nat (year d) @ ''-'' @ pad2 (month d) @ ''-'' @ pad2 (day d) @ ''-'' @
     pad2 (hour d) @ ''-'' @ pad2 (minute d) @ ''-'' @ pad2 (second d)"

definition strptime :: "string \<Rightarrow> datetime option" where
  "strptime s =
     (if length s < 16 then None
      else
        let y = take (length s - 15) s; r = drop (length s - 15) s in
        if [r ! 0, r ! 3, r ! 6, r ! 9, r ! 12] \<noteq> ''-----'' then None
        else
          Option.bind (read_nat y) (\<lambda>ye.
          Option.bind (read2 (take 2 (drop 1 r))) (\<lambda>mo.
          Option.bind (read2 (take 2 (drop 4 r))) (\<lambda>da.
          Option.bind (read2 (take 2 (drop 7 r))) (\<lambda>ho.
          Option.bind (read2 (take 2 (drop 10 r))) (\<lambda>mi.
          Option.bind (read2 (take 2 (drop 13 r))) (\<lambda>se.
          Some \<lparr>year = ye, month = mo, day = da, hour = ho, minute = mi, second = se\<rparr>)))))))"

definition py_str :: "(real \<Rightarrow> string) \<Rightarrow> pval \<Rightarrow> string" where
  "py_str float_repr v =
     (case v of PInt i \<Rightarrow> show_int i | PFloat r \<Rightarrow> float_repr r | PStr s \<Rightarrow> s)"

definition slash_join :: "string \<Rightarrow> string \<Rightarrow> string" where
  "slash_join a b = a @ ''/'' @ b"

definition save_dir_path :: "string \<Rightarrow> string \<Rightarrow> string \<Rightarrow> string" where
  "save_dir_path base name time_str = base @ ''/'' @ name @ ''/'' @ time_str"

text \<open>The path itself and its ancestors: the prefixes that end where a slash follows.\<close>

definition dir_prefixes :: "string \<Rightarrow> string list" where
  "dir_prefixes p =
     map (\<lambda>i. take i p)
       (filter (\<lambda>i. i = length p \<or> p ! i = CHR ''/'') [1..<Suc (length p)])"

definition makedirs :: "string \<Rightarrow> filesystem \<Rightarrow> filesystem" where
  "makedirs p files = files \<union> set (dir_prefixes p)"

definition ensure_path :: "string \<Rightarrow> filesystem \<Rightarrow> filesystem" where
  "ensure_path p files = (if p \<in> files then files else makedirs p files)"

text \<open>The directory of a path, \<open>os.path.dirname\<close>: what precedes its last slash.\<close>

definition dirname :: "string \<Rightarrow> string" where
  "dirname p = rev (drop 1 (dropWhile (\<lambda>c. c \<noteq> CHR ''/'') (rev p)))"

section \<open>Lemmas on decimal numbers\<close>

declare show_nat.simps [simp del]

lemma digit_val_digit_char [simp]: "d < 10 \<Longrightarrow> digit_val (digit_char d) = d"
  by (simp add: digit_char_def digit_val_def)

lemma is_digit_digit_char [simp]: "d < 10 \<Longrightarrow> is_digit (digit_char d)"
  by (simp add: digit_char_def is_digit_def)

lemma not_is_digit_hyphen [simp]: "\<not> is_digit CHR ''-''"
  by (simp add: is_digit_def)

lemma not_is_digit_slash [simp]: "\<not> is_digit CHR ''/''"
  by (simp add: is_digit_def)

lemma is_digit_zero [simp]: "is_digit CHR ''0''" and digit_val_zero [simp]: "digit_val CHR ''0'' = 0"
  by (simp_all add: is_digit_def digit_val_def)

lemma show_nat_small: "n < 10 \<Longrightarrow> show_nat n = [digit_char n]"
  by (simp add: show_nat.simps)

lemma show_nat_large:
  "10 \<le> n \<Longrightarrow> show_nat n = show_nat (n div 10) @ [digit_char (n mod 10)]"
  by (subst show_nat.simps) simp

lemma show_nat_digits: "list_all is_digit (show_nat n)"
proof (induction n rule: show_nat.induct)
  case (1 n)
  show ?case
  proof (cases "n < 10")
    case True
    then show ?thesis by (simp add: show_nat_small)
  next
    case False
    with "1.IH" show ?thesis by (simp add: show_nat_large)
  qed
qed

lemma show_nat_not_Nil [simp]: "show_nat n \<noteq> []"
  by (subst show_nat.simps) simp

lemma foldl_show_nat: "foldl (\<lambda>a c. 10 * a + digit_val c) 0 (show_nat n) = n"
proof (induction n rule: show_nat.induct)
  case (1 n)
  show ?case
  proof (cases "n < 10")
    case True
    then show ?thesis by (simp add: show_nat_small)
  next
    case False
    with "1.IH" show ?thesis by (simp add: show_nat_large)
  qed
qed

lemma read_nat_show_nat [simp]: "read_nat (show_nat n) = Some n"
  by (simp add: read_nat_def show_nat_digits foldl_show_nat)

lemma length_show_nat_2: "10 \<le> n \<Longrightarrow> n < 100 \<Longrightarrow> length (show_nat n) = 2"
  by (simp add: show_nat_large show_nat_small)

lemma length_show_nat_4: "1000 \<le> n \<Longrightarrow> n \<le> 9999 \<Longrightarrow> length (show_nat n) = 4"
proof -
  assume n: "1000 \<le> n" "n \<le> 9999"
  then have "10 \<le> n" "10 \<le> n div 10" "10 \<le> n div 10 div 10" "n div 10 div 10 div 10 < 10"
    by simp_all
  then show ?thesis
    by (simp add: show_nat_large [of n] show_nat_large [of "n div 10"]
          show_nat_large [of "n div 10 div 10"] show_nat_small)
qed

lemma length_pad2 [simp]: "n < 100 \<Longrightarrow> length (pad2 n) = 2"
  by (simp add: pad2_def show_nat_small length_show_nat_2)

lemma read2_pad2 [simp]: "n < 100 \<Longrightarrow> read2 (pad2 n) = Some n"
proof (cases "n < 10")
  case True
  then show ?thesis
    by (simp add: read2_def pad2_def show_nat_small read_nat_def)
next
  case False
  assume "n < 100"
  with False have "length (show_nat n) = 2"
    by (simp add: length_show_nat_2)
  with False show ?thesis
    by (simp add: read2_def pad2_def)
qed

lemma pad2_digits: "list_all is_digit (pad2 n)"
  by (simp add: pad2_def show_nat_digits)

lemma pad2_two: "n < 100 \<Longrightarrow> \<exists>a b. pad2 n = [a, b]"
proof -
  assume "n < 100"
  then have "length (pad2 n) = 2" by simp
  then show ?thesis
    by (cases "pad2 n" rule: list.exhaust; cases "tl (pad2 n)" rule: list.exhaust) auto
qed

section \<open>Lemmas on the file system\<close>

lemma ensure_path_exists [simp]: "p \<in> files \<Longrightarrow> ensure_path p files = files"
  by (simp add: ensure_path_def)

lemma in_dir_prefixes_iff:
  "q \<in> set (dir_prefixes p) \<longleftrightarrow>
     (\<exists>i. 1 \<le> i \<and> i \<le> length p \<and> (i = length p \<or> p ! i = CHR ''/'') \<and> q = take i p)"
  by (auto simp: dir_prefixes_def)

lemma self_in_dir_prefixes: "p \<noteq> [] \<Longrightarrow> p \<in> set (dir_prefixes p)"
  unfolding in_dir_prefixes_iff
  by (rule exI [of _ "length p"]) (cases p; simp)

lemma ensure_path_mono: "files \<subseteq> ensure_path p files"
  by (auto simp: ensure_path_def makedirs_def)

lemma ensure_path_creates: "p \<noteq> [] \<Longrightarrow> p \<in> ensure_path p files"
  by (simp add: ensure_path_def makedirs_def self_in_dir_prefixes)

lemma ensure_path_idem: "p \<noteq> [] \<Longrightarrow> ensure_path p (ensure_path p files) = ensure_path p files"
  by (simp add: ensure_path_creates)

lemma ancestor_in_dir_prefixes:
  "a \<noteq> [] \<Longrightarrow> a \<in> set (dir_prefixes (slash_join a b))"
  unfolding in_dir_prefixes_iff
  by (rule exI [of _ "length a"]) (cases a; simp add: slash_join_def nth_append)

lemma dir_prefixes_length: "q \<in> set (dir_prefixes p) \<Longrightarrow> length q \<le> length p"
  by (auto simp: in_dir_prefixes_iff)

lemma child_not_in_dir_prefixes: "slash_join p file \<notin> set (dir_prefixes p)"
  using dir_prefixes_length [of "slash_join p file" p] by (auto simp: slash_join_def)

text \<open>Ensuring a directory creates nothing below it.\<close>

lemma ensure_path_no_child:
  "slash_join p file \<in> ensure_path p files \<longleftrightarrow> slash_join p file \<in> files"
  by (simp add: ensure_path_def makedirs_def child_not_in_dir_prefixes)

lemma save_dir_path_not_Nil [simp]: "save_dir_path base name time_str \<noteq> []"
  by (simp add: save_dir_path_def)

lemma dirname_slash_join [simp]:
  "CHR ''/'' \<notin> set name \<Longrightarrow> dirname (slash_join dir name) = dir"
proof -
  assume "CHR ''/'' \<notin> set name"
  then have "dropWhile (\<lambda>c. c \<noteq> CHR ''/'') (rev name @ CHR ''/'' # rev dir) = CHR ''/'' # rev dir"
    by (subst dropWhile_append2) auto
  then show ?thesis
    by (simp add: dirname_def slash_join_def)
qed

text \<open>The ancestors of an ancestor are ancestors, and the ancestors of a path are the
  path and the ancestors of its directory.\<close>

lemma dir_prefixes_trans:
  assumes "q \<in> set (dir_prefixes p)" and "r \<in> set (dir_prefixes q)"
  shows "r \<in> set (dir_prefixes p)"
proof -
  from assms(1) obtain i where i: "1 \<le> i" "i \<le> length p" "i = length p \<or> p ! i = CHR ''/''"
    "q = take i p"
    by (auto simp: in_dir_prefixes_iff)
  from assms(2) obtain j where j: "1 \<le> j" "j \<le> length q" "j = length q \<or> q ! j = CHR ''/''"
    "r = take j q"
    by (auto simp: in_dir_prefixes_iff)
  from i have len: "length q = i"
    by simp
  with j have le: "j \<le> i"
    by simp
  with i j have r: "r = take j p"
    by (simp add: min_absorb1)
  have "j = length p \<or> p ! j = CHR ''/''"
  proof (cases "j = i")
    case True
    with i(3) show ?thesis by simp
  next
    case False
    with le j(3) len have "q ! j = CHR ''/''" "j < i"
      by auto
    with i(4) show ?thesis by simp
  qed
  with j(1) le i(2) r show ?thesis
    unfolding in_dir_prefixes_iff by (intro exI [of _ j]) simp
qed

lemma dirname_no_slash: "CHR ''/'' \<notin> set p \<Longrightarrow> dirname p = []"
proof -
  assume "CHR ''/'' \<notin> set p"
  then have e: "dropWhile (\<lambda>c. c \<noteq> CHR ''/'') (rev p) = []"
    by (auto simp: dropWhile_eq_Nil_conv)
  show ?thesis
    by (simp only: dirname_def e drop_Nil rev.simps)
qed

lemma dir_prefixes_Nil [simp]: "dir_prefixes [] = []"
  by (simp add: dir_prefixes_def)

lemma path_split:
  assumes "CHR ''/'' \<in> set p"
  shows "\<exists>name. p = slash_join (dirname p) name \<and> CHR ''/'' \<notin> set name"
proof -
  let ?P = "\<lambda>c. c \<noteq> CHR ''/''"
  from assms have "dropWhile ?P (rev p) \<noteq> []"
    by (auto simp: dropWhile_eq_Nil_conv)
  then obtain rest where rest: "dropWhile ?P (rev p) = CHR ''/'' # rest"
    using hd_dropWhile [of ?P "rev p"] by (cases "dropWhile ?P (rev p)") auto
  have "rev p = takeWhile ?P (rev p) @ CHR ''/'' # rest"
    using takeWhile_dropWhile_id [of ?P "rev p"] by (simp add: rest)
  then have "p = rev rest @ CHR ''/'' # rev (takeWhile ?P (rev p))"
    by (metis rev_append rev.simps(2) rev_rev_ident append_Cons append_Nil append_assoc)
  moreover have "dirname p = rev rest"
    by (simp add: dirname_def rest)
  moreover have "CHR ''/'' \<notin> set (rev (takeWhile ?P (rev p)))"
    by (auto dest: set_takeWhileD)
  ultimately show ?thesis
    by (auto simp: slash_join_def)
qed

lemma dir_prefixes_no_slash:
  assumes "p \<noteq> []" and "CHR ''/'' \<notin> set p"
  shows "set (dir_prefixes p) = {p}"
proof -
  have "q = p" if "q \<in> set (dir_prefixes p)" for q
  proof -
    from that obtain i where i: "i \<le> length p" "i = length p \<or> p ! i = CHR ''/''" "q = take i p"
      by (auto simp: in_dir_prefixes_iff)
    from i(1,2) assms(2) have "i = length p"
      using nth_mem [of i p] by (cases "i = length p") auto
    with i(3) show ?thesis by simp
  qed
  with self_in_dir_prefixes [OF assms(1)] show ?thesis
    by auto
qed

lemma dir_prefixes_slash_join:
  assumes "name \<noteq> []" and "CHR ''/'' \<notin> set name"
  shows "set (dir_prefixes (slash_join d name)) =
           insert (slash_join d name) (set (dir_prefixes d))"
proof (intro set_eqI iffI)
  fix q assume "q \<in> set (dir_prefixes (slash_join d name))"
  then obtain i where i: "1 \<le> i" "i \<le> length (slash_join d name)"
    "i = length (slash_join d name) \<or> slash_join d name ! i = CHR ''/''"
    "q = take i (slash_join d name)"
    by (auto simp: in_dir_prefixes_iff)
  show "q \<in> insert (slash_join d name) (set (dir_prefixes d))"
  proof (cases "i = length (slash_join d name)")
    case True
    with i show ?thesis by simp
  next
    case False
    with i(3) have slash: "(d @ CHR ''/'' # name) ! i = CHR ''/''"
      by (simp add: slash_join_def)
    have "i \<le> length d"
    proof (rule ccontr)
      assume "\<not> i \<le> length d"
      with slash i(2) False have "name ! (i - Suc (length d)) = CHR ''/''"
        by (simp add: nth_append nth_Cons')
      moreover from \<open>\<not> i \<le> length d\<close> i(2) False have "i - Suc (length d) < length name"
        by (simp add: slash_join_def)
      ultimately show False
        using assms(2) nth_mem by metis
    qed
    with i slash have "q = take i d" "i = length d \<or> d ! i = CHR ''/''"
      by (auto simp: slash_join_def nth_append split: if_splits)
    with i(1) \<open>i \<le> length d\<close> show ?thesis
      by (auto simp: in_dir_prefixes_iff)
  qed
next
  fix q assume "q \<in> insert (slash_join d name) (set (dir_prefixes d))"
  then consider "q = slash_join d name" | "q \<in> set (dir_prefixes d)"
    by auto
  then show "q \<in> set (dir_prefixes (slash_join d name))"
  proof cases
    case 1
    then show ?thesis
      by (simp add: self_in_dir_prefixes slash_join_def)
  next
    case 2
    then obtain i where "1 \<le> i" "i \<le> length d" "i = length d \<or> d ! i = CHR ''/''" "q = take i d"
      by (auto simp: in_dir_prefixes_iff)
    then show ?thesis
      unfolding in_dir_prefixes_iff
      by (intro exI [of _ i]) (auto simp: slash_join_def nth_append)
  qed
qed

lemma dir_prefixes_dirname:
  assumes "p \<noteq> []" and "last p \<noteq> CHR ''/''"
  shows "set (dir_prefixes p) = insert p (set (dir_prefixes (dirname p)))"
proof (cases "CHR ''/'' \<in> set p")
  case True
  from path_split [OF this] obtain name
    where name: "p = slash_join (dirname p) name" "CHR ''/'' \<notin> set name"
    by blast
  have "name \<noteq> []"
  proof
    assume "name = []"
    with name(1) have "p = dirname p @ [CHR ''/'']"
      by (simp add: slash_join_def)
    then have "last p = CHR ''/''"
      by (metis last_snoc)
    with assms(2) show False ..
  qed
  from dir_prefixes_slash_join [OF this name(2), of "dirname p"] name(1) show ?thesis
    by simp
next
  case False
  with assms(1) show ?thesis
    by (simp add: dir_prefixes_no_slash dirname_no_slash)
qed


section \<open>The directory name determines the time\<close>

lemma pad2_field: "n < 100 \<Longrightarrow> \<exists>a b. pad2 n = [a, b] \<and> read2 [a, b] = Some n"
proof -
  assume n: "n < 100"
  then obtain a b where "pad2 n = [a, b]"
    using pad2_two by blast
  moreover from n have "read2 (pad2 n) = Some n" by simp
  ultimately show ?thesis by auto
qed

lemma valid_datetime_fields:
  assumes "valid_datetime d"
  shows "month d < 100" "day d < 100" "hour d < 100" "minute d < 100" "second d < 100"
  using assms by (simp_all add: valid_datetime_def)

lemma strptime_fields:
  assumes "read2 [m1, m2] = Some mo" "read2 [d1, d2] = Some da" "read2 [h1, h2] = Some ho"
    "read2 [i1, i2] = Some mi" "read2 [s1, s2] = Some se"
  shows "strptime (show_nat ye @ [CHR ''-'', m1, m2, CHR ''-'', d1, d2, CHR ''-'', h1, h2,
            CHR ''-'', i1, i2, CHR ''-'', s1, s2]) =
         Some \<lparr>year = ye, month = mo, day = da, hour = ho, minute = mi, second = se\<rparr>"
  using assms by (simp add: strptime_def Let_def)

lemma strptime_strftime_aux:
  assumes "valid_datetime d"
  shows "strptime (strftime d) = Some d"
proof -
  note f = valid_datetime_fields [OF assms]
  from pad2_field [OF f(1)] obtain m1 m2
    where mo: "pad2 (month d) = [m1, m2]" "read2 [m1, m2] = Some (month d)" by blast
  from pad2_field [OF f(2)] obtain d1 d2
    where da: "pad2 (day d) = [d1, d2]" "read2 [d1, d2] = Some (day d)" by blast
  from pad2_field [OF f(3)] obtain h1 h2
    where ho: "pad2 (hour d) = [h1, h2]" "read2 [h1, h2] = Some (hour d)" by blast
  from pad2_field [OF f(4)] obtain i1 i2
    where mi: "pad2 (minute d) = [i1, i2]" "read2 [i1, i2] = Some (minute d)" by blast
  from pad2_field [OF f(5)] obtain s1 s2
    where se: "pad2 (second d) = [s1, s2]" "read2 [s1, s2] = Some (second d)" by blast
  have "strftime d = show_nat (year d) @ [CHR ''-'', m1, m2, CHR ''-'', d1, d2, CHR ''-'', h1, h2,
            CHR ''-'', i1, i2, CHR ''-'', s1, s2]"
    by (simp add: strftime_def mo da ho mi se)
  then show ?thesis
    by (simp add: strptime_fields [OF mo(2) da(2) ho(2) mi(2) se(2)])
qed

text \<open>C5 (roundtrip). The name of a checkpoint directory determines the time it was written
  at: reading \<open>strftime('%Y-%m-%d-%H-%M-%S')\<close> of a valid time back gives that time, so
  checkpoints of different seconds never share a directory.\<close>

theorem strptime_strftime:
  assumes "valid_datetime d"
  shows "strptime (strftime d) = Some d"
  using assms by (rule strptime_strftime_aux)

theorem strptime_strftime_witness:
  "valid_datetime \<lparr>year = 2018, month = 4, day = 9, hour = 7, minute = 30, second = 5\<rparr> \<and>
   strptime (strftime \<lparr>year = 2018, month = 4, day = 9, hour = 7, minute = 30, second = 5\<rparr>) =
     Some \<lparr>year = 2018, month = 4, day = 9, hour = 7, minute = 30, second = 5\<rparr>"
proof -
  have v: "valid_datetime \<lparr>year = 2018, month = 4, day = 9, hour = 7, minute = 30, second = 5\<rparr>"
    by (simp add: valid_datetime_def)
  from strptime_strftime [OF v] v show ?thesis by simp
qed

lemma strftime_example:
  "strftime \<lparr>year = 2018, month = 4, day = 9, hour = 7, minute = 30, second = 5\<rparr> =
     ''2018-04-09-07-30-05''"
  by (simp add: strftime_def pad2_def show_nat.simps digit_char_def char_of_eq_iff)

lemma strftime_inj:
  "valid_datetime d \<Longrightarrow> valid_datetime d' \<Longrightarrow> strftime d = strftime d' \<Longrightarrow> d = d'"
  by (metis option.inject strptime_strftime_aux)

text \<open>For the years 1000 to 9999 the directory name has exactly 19
  characters.\<close>

lemma length_strftime:
  assumes "valid_datetime d" and "1000 \<le> year d"
  shows "length (strftime d) = 19"
  using assms valid_datetime_fields [OF assms(1)]
  by (simp add: strftime_def length_show_nat_4 valid_datetime_def)

lemma length_strftime_witness:
  "valid_datetime \<lparr>year = 2018, month = 4, day = 9, hour = 7, minute = 30, second = 5\<rparr> \<and>
   length (strftime \<lparr>year = 2018, month = 4, day = 9, hour = 7, minute = 30, second = 5\<rparr>) = 19"
proof -
  have v: "valid_datetime \<lparr>year = 2018, month = 4, day = 9, hour = 7, minute = 30, second = 5\<rparr>"
    by (simp add: valid_datetime_def)
  from length_strftime [OF v] v show ?thesis by simp
qed

text \<open>\<open>_ensure_path\<close> is idempotent and only adds: after it the path
  exists, what existed still exists, and a second call changes nothing.\<close>

lemma ensure_path_spec:
  assumes "p \<noteq> []"
  shows "p \<in> ensure_path p files \<and> files \<subseteq> ensure_path p files \<and>
         ensure_path p (ensure_path p files) = ensure_path p files"
  using assms by (simp add: ensure_path_creates ensure_path_mono ensure_path_idem)

lemma ensure_path_spec_witness:
  "''runs/lm'' \<in> ensure_path ''runs/lm'' {''runs''} \<and>
   {''runs''} \<subseteq> ensure_path ''runs/lm'' {''runs''} \<and>
   ensure_path ''runs/lm'' (ensure_path ''runs/lm'' {''runs''}) = ensure_path ''runs/lm'' {''runs''}"
  using ensure_path_spec [of "''runs/lm''" "{''runs''}"] by simp

end
