(* ===== verification/Json.thy ===== *)
theory Json
  imports Checkpoint "HOL-Library.List_Lexorder" "HOL-Library.Char_ord" "HOL-Library.Multiset"
begin

text \<open>
  The text of the hyperparameter file: \<open>json.dump(self.params, fp, indent=4,
  sort_keys=True)\<close> (\<open>trainer.py\<close>, line 161), and a reader for such text, with which
  the round trip of section 8 of the specification is stated.

  \<^item> \<open>json_dump\<close> is the writer, from the documentation of the \<open>json\<close> module: \<open>null\<close>
    for \<open>None\<close>; for a dictionary its items sorted by key, one per line, indented by four
    spaces, key and value separated by a colon and a space; \<open>{}\<close> for the empty
    dictionary. A string is quoted and escaped as \<open>ensure_ascii\<close> does it
    (\<open>escape_char\<close>), an integer is printed in decimal, a float by \<open>repr\<close>, which is a
    parameter (\<open>float_repr\<close> of the environment).
  \<^item> The keys of the dictionary are the strings the constants module gives the
    hyperparameter names; \<open>dict_items\<close> lists the items of a dictionary under these names.
  \<^item> The reader is a lexer, one character at a time with the state \<open>lex_state\<close>
    (\<open>lex_step\<close>, \<open>lex_run\<close>, \<open>lex\<close>), and a parser of the tokens of one flat object
    (\<open>parse_members\<close>, \<open>parse_object\<close>); \<open>json_load\<close> composes them. It has no
    counterpart in \<open>trainer.py\<close>; it reads what the writer writes and rejects, as
    \<open>json.load\<close> does, control characters in strings and unknown escapes.
  \<^item> \<open>value_token\<close> and \<open>member_tokens\<close> are the tokens the writer's text stands for.
    The lemmas follow the text through the scanner: one escaped character
    (\<open>lex_escape_char\<close>), a string, a number, a value before a delimiter, a member, the
    lines of an object (\<open>lex_json_object\<close>); then the parser (\<open>parse_object_tokens\<close>)
    and the dictionary of the sorted items (\<open>params_of_dict_items\<close>).
  \<^item> \<open>printable\<close> says that a text consists of printable ASCII characters and line
    breaks, \<open>one_line\<close> that it has no line break either. The lemmas show it of every
    piece of the writer's text, whatever the strings of the dictionary hold, since
    \<open>escape_char\<close> escapes every other character.
  \<^item> \<open>demo_key_name\<close>, \<open>demo_float_repr\<close> and \<open>demo_float_parse\<close> are one value of the
    names of the keys and of the text of floats, on which the properties are applied.
\<close>

section \<open>The writer\<close>

type_synonym items = "(string \<times> pval) list"

definition items_of :: "(pkey \<Rightarrow> string) \<Rightarrow> params \<Rightarrow> pkey list \<Rightarrow> items" where
  "items_of name d ks =
     concat (map (\<lambda>k. case d k of None \<Rightarrow> [] | Some v \<Rightarrow> [(name k, v)]) ks)"

definition dict_items :: "(pkey \<Rightarrow> string) \<Rightarrow> params \<Rightarrow> items" where
  "dict_items name d = items_of name d all_keys"

definition hex_digit :: "nat \<Rightarrow> char" where
  "hex_digit n = (if n < 10 then char_of (48 + n) else char_of (87 + n))"

definition quote :: char where "quote = CHR 0x22"
definition backslash :: char where "backslash = CHR 0x5C"
definition newline :: char where "newline = CHR 0x0A"

definition escape_char :: "char \<Rightarrow> string" where
  "escape_char c =
     (if c = quote then [backslash, quote]
      else if c = backslash then [backslash, backslash]
      else if c = newline then [backslash, CHR ''n'']
      else if c = CHR 0x0D then [backslash, CHR ''r'']
      else if c = CHR 0x09 then [backslash, CHR ''t'']
      else if c = CHR 0x08 then [backslash, CHR ''b'']
      else if c = CHR 0x0C then [backslash, CHR ''f'']
      else if (of_char c :: nat) < 32 \<or> 126 < (of_char c :: nat) then
        [backslash, CHR ''u'', CHR ''0'', CHR ''0'',
         hex_digit (of_char c div 16), hex_digit (of_char c mod 16)]
      else [c])"

definition json_string :: "string \<Rightarrow> string" where
  "json_string s = quote # concat (map escape_char s) @ [quote]"

definition json_value :: "(real \<Rightarrow> string) \<Rightarrow> pval \<Rightarrow> string" where
  "json_value repr v =
     (case v of PInt i \<Rightarrow> show_int i | PFloat r \<Rightarrow> repr r | PStr s \<Rightarrow> json_string s)"

definition json_member :: "(real \<Rightarrow> string) \<Rightarrow> string \<times> pval \<Rightarrow> string" where
  "json_member repr kv = ''    '' @ json_string (fst kv) @ '': '' @ json_value repr (snd kv)"

fun join_lines :: "string list \<Rightarrow> string" where
  "join_lines [] = []"
| "join_lines [x] = x"
| "join_lines (x # y # ys) = x @ CHR '','' # newline # join_lines (y # ys)"

definition json_object :: "(real \<Rightarrow> string) \<Rightarrow> items \<Rightarrow> string" where
  "json_object repr kvs =
     (if kvs = [] then ''{}''
      else CHR ''{'' # newline # join_lines (map (json_member repr) (sort_key fst kvs))
             @ [newline, CHR ''}''])"

definition json_dump :: "(pkey \<Rightarrow> string) \<Rightarrow> (real \<Rightarrow> string) \<Rightarrow> params option \<Rightarrow> string" where
  "json_dump name repr ps =
     (case ps of None \<Rightarrow> ''null'' | Some d \<Rightarrow> json_object repr (dict_items name d))"

section \<open>The reader\<close>

datatype token = LBrace | RBrace | Colon | Comma | Str string | Atom string

datatype lex_state =
    Outside
  | InStr string
  | InEsc string
  | InUni string "nat list"
  | InAtom string

definition is_space :: "char \<Rightarrow> bool" where
  "is_space c \<longleftrightarrow> c = CHR '' '' \<or> c = newline \<or> c = CHR 0x0D \<or> c = CHR 0x09"

definition is_delimiter :: "char \<Rightarrow> bool" where
  "is_delimiter c \<longleftrightarrow>
     is_space c \<or> c = CHR ''{'' \<or> c = CHR ''}'' \<or> c = CHR '':'' \<or> c = CHR '','' \<or> c = quote"

definition hex_val :: "char \<Rightarrow> nat option" where
  "hex_val c =
     (let n = (of_char c :: nat) in
      if 48 \<le> n \<and> n \<le> 57 then Some (n - 48)
      else if 97 \<le> n \<and> n \<le> 102 then Some (n - 87)
      else if 65 \<le> n \<and> n \<le> 70 then Some (n - 55)
      else None)"

definition unescape :: "char \<Rightarrow> char option" where
  "unescape c =
     (if c = quote then Some quote
      else if c = backslash then Some backslash
      else if c = CHR ''/'' then Some CHR ''/''
      else if c = CHR ''n'' then Some newline
      else if c = CHR ''r'' then Some (CHR 0x0D)
      else if c = CHR ''t'' then Some (CHR 0x09)
      else if c = CHR ''b'' then Some (CHR 0x08)
      else if c = CHR ''f'' then Some (CHR 0x0C)
      else None)"

text \<open>A character met outside of a string and of an atom. Strings and atoms are kept
  reversed while they are read.\<close>

definition outside_step :: "char \<Rightarrow> token list \<Rightarrow> lex_state \<times> token list" where
  "outside_step c acc =
     (if is_space c then (Outside, acc)
      else if c = CHR ''{'' then (Outside, LBrace # acc)
      else if c = CHR ''}'' then (Outside, RBrace # acc)
      else if c = CHR '':'' then (Outside, Colon # acc)
      else if c = CHR '','' then (Outside, Comma # acc)
      else if c = quote then (InStr [], acc)
      else (InAtom [c], acc))"

definition lex_step :: "char \<Rightarrow> lex_state \<times> token list \<Rightarrow> (lex_state \<times> token list) option" where
  "lex_step c x =
     (case x of (st, acc) \<Rightarrow>
        (case st of
           Outside \<Rightarrow> Some (outside_step c acc)
         | InAtom a \<Rightarrow>
             if is_delimiter c then Some (outside_step c (Atom (rev a) # acc))
             else Some (InAtom (c # a), acc)
         | InStr s \<Rightarrow>
             if c = quote then Some (Outside, Str (rev s) # acc)
             else if c = backslash then Some (InEsc s, acc)
             else if (of_char c :: nat) < 32 then None
             else Some (InStr (c # s), acc)
         | InEsc s \<Rightarrow>
             if c = CHR ''u'' then Some (InUni s [], acc)
             else map_option (\<lambda>d. (InStr (d # s), acc)) (unescape c)
         | InUni s ds \<Rightarrow>
             (case hex_val c of
                None \<Rightarrow> None
              | Some d \<Rightarrow>
                  if length ds < 3 then Some (InUni s (ds @ [d]), acc)
                  else
                    let n = foldl (\<lambda>a h. 16 * a + h) 0 (ds @ [d]) in
                    if n < 256 then Some (InStr (char_of n # s), acc) else None)))"

fun lex_run :: "string \<Rightarrow> lex_state \<times> token list \<Rightarrow> (lex_state \<times> token list) option" where
  "lex_run [] x = Some x"
| "lex_run (c # cs) x = Option.bind (lex_step c x) (lex_run cs)"

definition lex_end :: "lex_state \<times> token list \<Rightarrow> token list option" where
  "lex_end x =
     (case x of
        (Outside, acc) \<Rightarrow> Some (rev acc)
      | (InAtom a, acc) \<Rightarrow> Some (rev (Atom (rev a) # acc))
      | _ \<Rightarrow> None)"

definition lex :: "string \<Rightarrow> token list option" where
  "lex s = Option.bind (lex_run s (Outside, [])) lex_end"

definition read_int :: "string \<Rightarrow> int option" where
  "read_int s =
     (case s of
        [] \<Rightarrow> None
      | c # cs \<Rightarrow>
          if c = CHR ''-'' then map_option (\<lambda>n. - int n) (read_nat cs)
          else map_option int (read_nat s))"

definition read_value :: "(string \<Rightarrow> real option) \<Rightarrow> token \<Rightarrow> pval option" where
  "read_value fparse t =
     (case t of
        Str s \<Rightarrow> Some (PStr s)
      | Atom a \<Rightarrow>
          if a \<in> {''null'', ''true'', ''false''} then None
          else (case read_int a of
                  Some i \<Rightarrow> Some (PInt i)
                | None \<Rightarrow> map_option PFloat (fparse a))
      | _ \<Rightarrow> None)"

fun parse_members :: "(string \<Rightarrow> real option) \<Rightarrow> token list \<Rightarrow> items option" where
  "parse_members fparse [Str k, Colon, v, RBrace] =
     map_option (\<lambda>x. [(k, x)]) (read_value fparse v)"
| "parse_members fparse (Str k # Colon # v # Comma # rest) =
     Option.bind (read_value fparse v) (\<lambda>x.
       map_option (\<lambda>kvs. (k, x) # kvs) (parse_members fparse rest))"
| "parse_members fparse ts = None"

definition parse_object :: "(string \<Rightarrow> real option) \<Rightarrow> token list \<Rightarrow> items option" where
  "parse_object fparse ts =
     (case ts of
        [LBrace, RBrace] \<Rightarrow> Some []
      | LBrace # rest \<Rightarrow> parse_members fparse rest
      | _ \<Rightarrow> None)"

text \<open>The dictionary of a list of items, under the names of the keys.\<close>

definition params_of_items :: "(pkey \<Rightarrow> string) \<Rightarrow> items \<Rightarrow> params" where
  "params_of_items name kvs = (\<lambda>k. map_of kvs (name k))"

text \<open>\<open>json.load\<close> on the text of a hyperparameter file: \<open>None\<close> when the text is not
  read, \<open>Some None\<close> for \<open>null\<close>, \<open>Some (Some d)\<close> for an object.\<close>

definition json_load ::
  "(pkey \<Rightarrow> string) \<Rightarrow> (string \<Rightarrow> real option) \<Rightarrow> string \<Rightarrow> params option option"
where
  "json_load name fparse text =
     (case lex text of
        None \<Rightarrow> None
      | Some ts \<Rightarrow>
          if ts = [Atom ''null''] then Some None
          else map_option (\<lambda>kvs. Some (params_of_items name kvs)) (parse_object fparse ts))"

text \<open>What the round trip asks of the text of a float: it is an atom that is not read as
  an integer or a literal, and the reader of floats gives the float back.\<close>

definition float_text_ok :: "(real \<Rightarrow> string) \<Rightarrow> (string \<Rightarrow> real option) \<Rightarrow> real \<Rightarrow> bool" where
  "float_text_ok repr fparse r \<longleftrightarrow>
     repr r \<noteq> [] \<and> list_all (\<lambda>c. \<not> is_delimiter c) (repr r) \<and> read_int (repr r) = None \<and>
     repr r \<notin> {''null'', ''true'', ''false''} \<and> fparse (repr r) = Some r"

definition value_ok :: "(real \<Rightarrow> string) \<Rightarrow> (string \<Rightarrow> real option) \<Rightarrow> pval \<Rightarrow> bool" where
  "value_ok repr fparse v = (case v of PFloat r \<Rightarrow> float_text_ok repr fparse r | _ \<Rightarrow> True)"

text \<open>The characters with a two-character escape, the tokens of a value and of the
  members of an object: what the lexer is shown to give on the output of the writer.\<close>

definition needs_short_escape :: "char \<Rightarrow> bool" where
  "needs_short_escape c \<longleftrightarrow>
     c \<in> {quote, backslash, newline, CHR 0x0D, CHR 0x09, CHR 0x08, CHR 0x0C}"


definition value_token :: "(real \<Rightarrow> string) \<Rightarrow> pval \<Rightarrow> token" where
  "value_token repr v =
     (case v of PInt i \<Rightarrow> Atom (show_int i) | PFloat r \<Rightarrow> Atom (repr r) | PStr s \<Rightarrow> Str s)"

fun member_tokens :: "(real \<Rightarrow> string) \<Rightarrow> items \<Rightarrow> token list" where
  "member_tokens repr [] = []"
| "member_tokens repr [kv] = [Str (fst kv), Colon, value_token repr (snd kv)]"
| "member_tokens repr (kv # kv' # kvs) =
     Str (fst kv) # Colon # value_token repr (snd kv) # Comma # member_tokens repr (kv' # kvs)"

definition values_ok :: "(real \<Rightarrow> string) \<Rightarrow> (string \<Rightarrow> real option) \<Rightarrow> items \<Rightarrow> bool" where
  "values_ok repr fparse kvs = list_all (\<lambda>kv. value_ok repr fparse (snd kv)) kvs"

text \<open>Text that a terminal shows as it is: the printable characters of ASCII, on one
  line or with line feeds.\<close>

definition printable_char :: "char \<Rightarrow> bool" where
  "printable_char c \<longleftrightarrow> 32 \<le> (of_char c :: nat) \<and> (of_char c :: nat) \<le> 126"

definition printable :: "string \<Rightarrow> bool" where
  "printable s = list_all (\<lambda>c. printable_char c \<or> c = newline) s"

definition one_line :: "string \<Rightarrow> bool" where
  "one_line s = list_all printable_char s"

section \<open>A concrete instance\<close>

text \<open>Names of the hyperparameters, and a printer and a reader of the floats \<open>0\<close> and
  \<open>1/2\<close>, on which the lemmas below are applied.\<close>

fun demo_key_name :: "pkey \<Rightarrow> string" where
  "demo_key_name VOCAB_SIZE = ''vocab_size''"
| "demo_key_name HDIM = ''hdim''"
| "demo_key_name OUTPUT_MAX_LEN = ''output_max_len''"
| "demo_key_name H_LAYERS = ''h_layers''"
| "demo_key_name DROPOUT = ''dropout''"
| "demo_key_name EPOCHS = ''epochs''"
| "demo_key_name LR = ''lr''"
| "demo_key_name LR_DECAY = ''lr_decay''"
| "demo_key_name DECAY_START_EPOCH = ''decay_start_epoch''"
| "demo_key_name TEACHER_FORCING_RATIO = ''teacher_forcing_ratio''"
| "demo_key_name MODEL_NAME = ''model_name''"

definition demo_float_repr :: "real \<Rightarrow> string" where
  "demo_float_repr r = (if r = 0 then ''0.0'' else ''0.5'')"

definition demo_float_parse :: "string \<Rightarrow> real option" where
  "demo_float_parse s = (if s = ''0.0'' then Some 0 else if s = ''0.5'' then Some (1 / 2) else None)"

section \<open>Lemmas on the lexer\<close>

lemmas char_defs = quote_def backslash_def newline_def

lemma lex_run_append: "lex_run (a @ b) x = Option.bind (lex_run a x) (lex_run b)"
proof (induction a arbitrary: x)
  case (Cons c a)
  then show ?case by (cases "lex_step c x") simp_all
qed simp

lemma lex_run_Nil [simp]: "lex_run [] = Some"
  by (rule ext) simp

lemma lex_run_append_Some: "lex_run a x = Some y \<Longrightarrow> lex_run (a @ b) x = lex_run b y"
  by (simp add: lex_run_append)

lemma lex_run_snoc: "lex_run a x = Some y \<Longrightarrow> lex_run (a @ [c]) x = lex_step c y"
  by (simp add: lex_run_append)

lemma of_char_div_16: "(of_char c :: nat) div 16 < 16"
  using nat_of_char_less_256 [of c] by (intro less_mult_imp_div_less) simp

lemma of_char_char_of_small: "n < 256 \<Longrightarrow> (of_char (char_of n) :: nat) = n"
  by simp

lemma hex_val_hex_digit: "n < 16 \<Longrightarrow> hex_val (hex_digit n) = Some n"
  by (simp add: hex_val_def hex_digit_def of_char_char_of_small)

lemma lex_short_escape:
  "needs_short_escape c \<Longrightarrow>
   lex_run (escape_char c) (InStr t, acc) = Some (InStr (c # t), acc)"
  unfolding needs_short_escape_def
  by (auto simp: escape_char_def lex_step_def unescape_def char_defs)

lemma lex_unicode_escape:
  assumes "\<not> needs_short_escape c" "(of_char c :: nat) < 32 \<or> 126 < (of_char c :: nat)"
  shows "lex_run (escape_char c) (InStr t, acc) = Some (InStr (c # t), acc)"
proof -
  from assms have "escape_char c = [backslash, CHR ''u'', CHR ''0'', CHR ''0'',
       hex_digit (of_char c div 16), hex_digit (of_char c mod 16)]"
    by (auto simp: escape_char_def needs_short_escape_def)
  moreover have "hex_val CHR ''0'' = Some 0"
    by (simp add: hex_val_def)
  ultimately show ?thesis
    by (simp add: lex_step_def char_defs hex_val_hex_digit of_char_div_16)
qed

lemma lex_plain_char:
  assumes "\<not> needs_short_escape c" "\<not> ((of_char c :: nat) < 32 \<or> 126 < (of_char c :: nat))"
  shows "lex_run (escape_char c) (InStr t, acc) = Some (InStr (c # t), acc)"
  using assms by (auto simp: escape_char_def lex_step_def needs_short_escape_def)

text \<open>One escaped character of a string is read back as that character.\<close>

lemma lex_escape_char:
  "lex_run (escape_char c) (InStr t, acc) = Some (InStr (c # t), acc)"
  using lex_short_escape lex_unicode_escape lex_plain_char by blast

lemma lex_escaped:
  "lex_run (concat (map escape_char s)) (InStr t, acc) = Some (InStr (rev s @ t), acc)"
  by (induction s arbitrary: t) (simp_all add: lex_run_append lex_escape_char)

lemma outside_step_simps [simp]:
  "outside_step CHR '' '' acc = (Outside, acc)"
  "outside_step newline acc = (Outside, acc)"
  "outside_step CHR ''{'' acc = (Outside, LBrace # acc)"
  "outside_step CHR ''}'' acc = (Outside, RBrace # acc)"
  "outside_step CHR '':'' acc = (Outside, Colon # acc)"
  "outside_step CHR '','' acc = (Outside, Comma # acc)"
  "outside_step quote acc = (InStr [], acc)"
  by (simp_all add: outside_step_def is_space_def char_defs)

lemma lex_json_string: "lex_run (json_string s) (Outside, acc) = Some (Outside, Str s # acc)"
  by (simp add: json_string_def lex_step_def lex_run_append lex_escaped)

lemma lex_atom_more:
  "list_all (\<lambda>c. \<not> is_delimiter c) a \<Longrightarrow>
   lex_run a (InAtom b, acc) = Some (InAtom (rev a @ b), acc)"
  by (induction a arbitrary: b) (simp_all add: lex_step_def)

lemma lex_atom:
  assumes "a \<noteq> []" and "list_all (\<lambda>c. \<not> is_delimiter c) a"
  shows "lex_run a (Outside, acc) = Some (InAtom (rev a), acc)"
proof (cases a)
  case Nil
  with assms show ?thesis by simp
next
  case (Cons c cs)
  with assms have "outside_step c acc = (InAtom [c], acc)"
    by (auto simp: outside_step_def is_delimiter_def)
  with Cons assms show ?thesis
    by (simp add: lex_step_def lex_atom_more)
qed

section \<open>Lemmas on numbers and values\<close>

lemma is_digit_not_delimiter: "is_digit c \<Longrightarrow> \<not> is_delimiter c"
  by (auto simp: is_digit_def is_delimiter_def is_space_def char_defs)

lemma digits_not_delimiters: "list_all is_digit s \<Longrightarrow> list_all (\<lambda>c. \<not> is_delimiter c) s"
  by (induction s) (simp_all add: is_digit_not_delimiter)

lemma show_int_not_Nil [simp]: "show_int i \<noteq> []"
  by (simp add: show_int_def)

lemma show_int_no_delimiter: "list_all (\<lambda>c. \<not> is_delimiter c) (show_int i)"
proof -
  have "\<not> is_delimiter CHR ''-''"
    by (simp add: is_delimiter_def is_space_def char_defs)
  then show ?thesis
    by (simp add: show_int_def digits_not_delimiters show_nat_digits)
qed

lemma read_int_show_int [simp]: "read_int (show_int i) = Some i"
proof (cases "i < 0")
  case True
  then show ?thesis by (simp add: read_int_def show_int_def)
next
  case False
  obtain c cs where cs: "show_nat (nat i) = c # cs"
    by (cases "show_nat (nat i)") simp_all
  with show_nat_digits [of "nat i"] have "c \<noteq> CHR ''-''"
    by auto
  with False cs read_nat_show_nat [of "nat i"] show ?thesis
    by (simp add: read_int_def show_int_def)
qed

lemma read_int_literals [simp]:
  "read_int ''null'' = None" "read_int ''true'' = None" "read_int ''false'' = None"
  by (simp_all add: read_int_def read_nat_def is_digit_def)

lemma read_value_token:
  "value_ok repr fparse v \<Longrightarrow> read_value fparse (value_token repr v) = Some v"
proof (cases v)
  case (PInt i)
  have "show_int i \<notin> {''null'', ''true'', ''false''}"
    using read_int_show_int [of i] by (auto simp del: read_int_show_int)
  with PInt show ?thesis
    by (simp add: read_value_def value_token_def)
qed (auto simp: read_value_def value_token_def value_ok_def float_text_ok_def)

text \<open>A value followed by a delimiter is read as its token.\<close>

lemma lex_json_value:
  assumes "value_ok repr fparse v" and "is_delimiter c"
  shows "lex_run (json_value repr v @ c # rest) (Outside, acc) =
         lex_run rest (outside_step c (value_token repr v # acc))"
proof -
  have atom: "lex_run (a @ c # rest) (Outside, acc) = lex_run rest (outside_step c (Atom a # acc))"
    if "a \<noteq> []" "list_all (\<lambda>c. \<not> is_delimiter c) a" for a
    using that assms(2) by (simp add: lex_run_append lex_atom lex_step_def)
  show ?thesis
  proof (cases v)
    case (PStr s)
    then show ?thesis
      by (simp add: json_value_def value_token_def lex_run_append lex_json_string lex_step_def)
  next
    case (PInt i)
    then show ?thesis
      by (simp add: json_value_def value_token_def atom show_int_no_delimiter)
  next
    case (PFloat r)
    with assms(1) show ?thesis
      by (simp add: json_value_def value_token_def atom value_ok_def float_text_ok_def)
  qed
qed

section \<open>The tokens of an object\<close>

lemma values_ok_simps [simp]:
  "values_ok repr fparse []"
  "values_ok repr fparse (kv # kvs) \<longleftrightarrow>
     value_ok repr fparse (snd kv) \<and> values_ok repr fparse kvs"
  by (simp_all add: values_ok_def)

lemma is_delimiter_simps [simp]: "is_delimiter CHR '',''" "is_delimiter newline"
  by (simp_all add: is_delimiter_def is_space_def)

lemma lex_json_member:
  assumes "value_ok repr fparse (snd kv)" and "is_delimiter c"
  shows "lex_run (json_member repr kv @ c # rest) (Outside, acc) =
         lex_run rest (outside_step c (value_token repr (snd kv) # Colon # Str (fst kv) # acc))"
proof -
  have "lex_run (json_member repr kv @ c # rest) (Outside, acc) =
        lex_run (json_string (fst kv) @ '': '' @ json_value repr (snd kv) @ c # rest) (Outside, acc)"
    by (simp add: json_member_def lex_step_def)
  also have "\<dots> = lex_run (json_value repr (snd kv) @ c # rest) (Outside, Colon # Str (fst kv) # acc)"
    by (simp add: lex_run_append_Some [OF lex_json_string] lex_step_def)
  finally show ?thesis
    by (simp add: lex_json_value [OF assms])
qed

lemma lex_join_lines:
  assumes "kvs \<noteq> []" and "values_ok repr fparse kvs"
  shows "lex_run (join_lines (map (json_member repr) kvs) @ newline # rest) (Outside, acc) =
         lex_run rest (Outside, rev (member_tokens repr kvs) @ acc)"
  using assms
proof (induction kvs arbitrary: acc rule: member_tokens.induct [of _ repr])
  case (3 repr kv kv' kvs)
  then show ?case
    by (simp add: lex_json_member [of repr fparse] lex_step_def)
qed (simp_all add: lex_json_member [of _ fparse])

lemma lex_json_object:
  assumes "values_ok repr fparse kvs"
  shows "lex (json_object repr kvs) = Some (LBrace # member_tokens repr (sort_key fst kvs) @ [RBrace])"
proof (cases "kvs = []")
  case True
  then show ?thesis
    by (simp add: json_object_def lex_def lex_step_def lex_end_def)
next
  case False
  then have "sort_key fst kvs \<noteq> []"
    by (metis length_sort length_0_conv)
  moreover from assms have "values_ok repr fparse (sort_key fst kvs)"
    by (simp add: values_ok_def list_all_iff)
  ultimately show ?thesis
    using False
    by (simp add: json_object_def lex_def lex_step_def lex_end_def newline_def [symmetric]
        lex_join_lines [of _ repr fparse])
qed

section \<open>Parsing the tokens\<close>

lemma parse_member_tokens:
  assumes "kvs \<noteq> []" and "values_ok repr fparse kvs"
  shows "parse_members fparse (member_tokens repr kvs @ [RBrace]) = Some kvs"
  using assms
  by (induction kvs rule: member_tokens.induct [of _ repr]) (simp_all add: read_value_token)

lemma parse_object_tokens:
  assumes "values_ok repr fparse kvs"
  shows "parse_object fparse (LBrace # member_tokens repr kvs @ [RBrace]) = Some kvs"
proof (cases kvs)
  case Nil
  then show ?thesis by (simp add: parse_object_def)
next
  case (Cons kv kvs')
  with parse_member_tokens [OF _ assms] show ?thesis
    by (cases kvs') (simp_all add: parse_object_def)
qed

section \<open>Sorting items with distinct keys\<close>

lemma distinct_map_sort_key [simp]:
  "distinct (map f (sort_key f xs)) \<longleftrightarrow> distinct (map f xs)"
  by (induction xs) (simp_all add: distinct_insort_key)

lemma filter_key_distinct:
  "distinct (map f ys) \<Longrightarrow> k \<in> set ys \<Longrightarrow> filter (\<lambda>x. f k = f x) ys = [k]"
  by (induction ys) (auto simp: filter_empty_conv image_iff)

text \<open>The sorted list of items with distinct keys depends on the set of the items only.\<close>

lemma sort_key_unique:
  assumes "distinct (map f xs)" "distinct (map f ys)" "set xs = set ys"
  shows "sort_key f xs = sort_key f ys"
proof (rule properties_for_sort_key)
  from assms show "mset (sort_key f ys) = mset xs"
    by (simp add: set_eq_iff_mset_eq_distinct [symmetric] distinct_map)
  show "sorted (map f (sort_key f ys))"
    by simp
  fix k assume "k \<in> set (sort_key f ys)"
  with assms show "filter (\<lambda>x. f k = f x) (sort_key f ys) = filter (\<lambda>x. f k = f x) xs"
    by (simp add: filter_key_distinct)
qed

lemma map_of_sort_key:
  "distinct (map fst kvs) \<Longrightarrow> map_of (sort_key fst kvs) = map_of kvs"
  by (simp add: map_of_inject_set)

section \<open>The items of a dictionary\<close>

lemma set_items_of:
  "set (items_of name d ks) = {(name k, v) | k v. k \<in> set ks \<and> d k = Some v}"
  by (auto simp: items_of_def split: option.splits)

lemma items_of_Cons:
  "items_of name d (k # ks) =
     (case d k of None \<Rightarrow> [] | Some v \<Rightarrow> [(name k, v)]) @ items_of name d ks"
  by (simp add: items_of_def)

lemma distinct_items_of:
  "inj name \<Longrightarrow> distinct ks \<Longrightarrow> distinct (map fst (items_of name d ks))"
  by (induction ks) (auto simp: items_of_Cons set_items_of items_of_def dest: injD split: option.splits)

lemma map_of_items_of:
  "inj name \<Longrightarrow> map_of (items_of name d ks) (name k) = (if k \<in> set ks then d k else None)"
  by (induction ks) (auto simp: items_of_Cons items_of_def dest: injD split: option.splits)

lemma params_of_dict_items:
  assumes "inj name"
  shows "params_of_items name (sort_key fst (dict_items name d)) = d"
  using assms
  by (simp add: params_of_items_def dict_items_def map_of_sort_key distinct_items_of
      distinct_all_keys map_of_items_of)

lemma values_ok_dict_items:
  assumes "\<And>k v. d k = Some v \<Longrightarrow> value_ok repr fparse v"
  shows "values_ok repr fparse (dict_items name d)"
  using assms by (auto simp: values_ok_def list_all_iff dict_items_def set_items_of)

lemma json_load_object:
  assumes "values_ok repr fparse kvs"
  shows "json_load name fparse (json_object repr kvs) =
         Some (Some (params_of_items name (sort_key fst kvs)))"
proof -
  from assms have "values_ok repr fparse (sort_key fst kvs)"
    by (simp add: values_ok_def list_all_iff)
  then show ?thesis
    by (simp add: json_load_def lex_json_object [OF assms] parse_object_tokens)
qed

lemma json_load_null: "json_load name fparse ''null'' = Some None"
  by (simp add: json_load_def lex_def lex_step_def lex_end_def outside_step_def
      is_space_def is_delimiter_def char_defs)

section \<open>The instance\<close>

lemma inj_demo_key_name: "inj demo_key_name"
proof (rule injI)
  fix x y assume "demo_key_name x = demo_key_name y"
  then show "x = y" by (cases x; cases y; simp)
qed

lemma demo_float_ok:
  "r = 0 \<or> r = 1 / 2 \<Longrightarrow> float_text_ok demo_float_repr demo_float_parse r"
  by (auto simp: float_text_ok_def demo_float_repr_def demo_float_parse_def read_int_def
      read_nat_def is_digit_def is_delimiter_def is_space_def char_defs)

section \<open>Printable text\<close>

lemma one_line_simps [simp]:
  "one_line []" "one_line (c # s) \<longleftrightarrow> printable_char c \<and> one_line s"
  "one_line (s @ t) \<longleftrightarrow> one_line s \<and> one_line t"
  by (simp_all add: one_line_def)

lemma printable_simps [simp]:
  "printable []" "printable (c # s) \<longleftrightarrow> (printable_char c \<or> c = newline) \<and> printable s"
  "printable (s @ t) \<longleftrightarrow> printable s \<and> printable t"
  by (simp_all add: printable_def)

lemma one_line_printable: "one_line s \<Longrightarrow> printable s"
  by (induction s) simp_all

lemma printable_hex_digit: "n < 16 \<Longrightarrow> printable_char (hex_digit n)"
  by (simp add: hex_digit_def printable_char_def of_char_char_of_small)

lemma one_line_escape_char: "one_line (escape_char c)"
  by (simp add: escape_char_def printable_hex_digit of_char_div_16 char_defs)
    (simp add: printable_char_def)

lemma one_line_concat: "(\<And>x. x \<in> set xs \<Longrightarrow> one_line (f x)) \<Longrightarrow> one_line (concat (map f xs))"
  by (induction xs) simp_all

lemma one_line_json_string: "one_line (json_string s)"
  by (simp add: json_string_def one_line_concat one_line_escape_char)
    (simp add: printable_char_def char_defs)

lemma printable_digit: "is_digit c \<Longrightarrow> printable_char c"
  by (simp add: is_digit_def printable_char_def)

lemma one_line_digits: "list_all is_digit s \<Longrightarrow> one_line s"
  by (induction s) (simp_all add: printable_digit)

lemma one_line_show_int: "one_line (show_int i)"
  by (simp add: show_int_def one_line_digits show_nat_digits) (simp add: printable_char_def)

lemma one_line_json_member:
  "(\<And>r. one_line (repr r)) \<Longrightarrow> one_line (json_member repr kv)"
  by (cases "snd kv")
    (simp_all add: json_member_def json_value_def one_line_json_string one_line_show_int
      printable_char_def)

lemma printable_join_lines:
  "(\<And>x. x \<in> set xs \<Longrightarrow> one_line x) \<Longrightarrow> printable (join_lines xs)"
  by (induction xs rule: join_lines.induct) (simp_all add: one_line_printable printable_char_def)

lemma one_line_demo_float: "one_line (demo_float_repr r)"
  by (simp add: demo_float_repr_def printable_char_def)

section \<open>The round trip of the hyperparameter file\<close>

text \<open>
  C9 (checkpoint round trip, section 8): the text \<open>json.dump\<close> writes for the
  hyperparameters, parsed back, is the hyperparameters, key for key: for \<open>None\<close>, and for
  every dictionary, when the names of the keys are distinct and the text of every float in
  it is read back as that float.
\<close>

theorem json_load_json_dump:
  assumes "inj name"
    and "\<And>d k v. ps = Some d \<Longrightarrow> d k = Some v \<Longrightarrow> value_ok repr fparse v"
  shows "json_load name fparse (json_dump name repr ps) = Some ps"
proof (cases ps)
  case None
  then show ?thesis by (simp add: json_dump_def json_load_null)
next
  case (Some d)
  with assms(2) have "values_ok repr fparse (dict_items name d)"
    by (intro values_ok_dict_items) blast
  with Some assms(1) show ?thesis
    by (simp add: json_dump_def json_load_object params_of_dict_items)
qed

text \<open>The theorem on a dictionary of an integer, a float and a string with a quote and a
  character outside of ASCII in it.\<close>

theorem json_load_json_dump_witness:
  "json_load demo_key_name demo_float_parse
     (json_dump demo_key_name demo_float_repr
        (Some [EPOCHS \<mapsto> PInt (- 2), LR \<mapsto> PFloat (1 / 2), MODEL_NAME \<mapsto> PStr [CHR ''l'', quote, CHR 0xE9]]))
   = Some (Some [EPOCHS \<mapsto> PInt (- 2), LR \<mapsto> PFloat (1 / 2), MODEL_NAME \<mapsto> PStr [CHR ''l'', quote, CHR 0xE9]])"
  by (rule json_load_json_dump [OF inj_demo_key_name])
    (auto simp: value_ok_def demo_float_ok split: if_splits pval.splits)

text \<open>
  C38 (order of the keys, \<open>sort_keys=True\<close>): the text written does not depend on the
  order in which the dictionary lists its items: from every enumeration of the keys the
  same text results.
\<close>

theorem json_dump_any_order:
  assumes "inj name" and "distinct ks" and "set ks = UNIV"
  shows "json_object repr (items_of name d ks) = json_dump name repr (Some d)"
proof -
  from assms have "set (items_of name d ks) = set (dict_items name d)"
    by (simp add: set_items_of dict_items_def)
  moreover from this have "items_of name d ks = [] \<longleftrightarrow> dict_items name d = []"
    by (metis set_empty)
  ultimately show ?thesis
    using assms
    by (simp add: json_dump_def json_object_def dict_items_def
        sort_key_unique [of fst "items_of name d ks" "items_of name d all_keys"]
        distinct_items_of distinct_all_keys)
qed

theorem json_dump_any_order_witness:
  "json_object demo_float_repr
     (items_of demo_key_name [EPOCHS \<mapsto> PInt 2, LR \<mapsto> PFloat (1 / 2)] (rev all_keys)) =
   json_dump demo_key_name demo_float_repr (Some [EPOCHS \<mapsto> PInt 2, LR \<mapsto> PFloat (1 / 2)])"
  by (rule json_dump_any_order [OF inj_demo_key_name]) (auto simp: distinct_all_keys)

section \<open>The hyperparameter file is plain text\<close>

text \<open>
  C22 (params file, sections 4.4 and 6): the hyperparameter file can be read and compared by
  a person. Whatever the names of the keys and the strings among the values hold, the text
  \<open>json.dump\<close> writes consists of printable characters of ASCII and line feeds only,
  provided that the text of a float does: every other character is written as an escape.
\<close>

theorem json_dump_printable:
  assumes "\<And>r. one_line (repr r)"
  shows "printable (json_dump name repr ps)"
proof (cases ps)
  case None
  then show ?thesis
    by (simp add: json_dump_def printable_char_def)
next
  case (Some d)
  have "printable (join_lines (map (json_member repr) (sort_key fst (dict_items name d))))"
    by (rule printable_join_lines) (auto simp: one_line_json_member assms)
  with Some show ?thesis
    by (simp add: json_dump_def json_object_def printable_char_def)
qed

theorem json_dump_printable_witness:
  "printable (json_dump demo_key_name demo_float_repr
     (Some [LR \<mapsto> PFloat (1 / 2), MODEL_NAME \<mapsto> PStr [CHR ''l'', newline, CHR 0xE9]]))"
  using json_dump_printable [of demo_float_repr] by (simp add: one_line_demo_float)

end
