(* ===== verification/World.thy ===== *)
theory World
  imports Loss Json "HOL-Library.Word"
begin

text \<open>
  What the trainer touches outside its own attributes, and the collaborators it calls.

  \<^item> \<open>world\<close> is the mutable environment: the heap of network objects (a module's
    parameters, their accumulated gradients and the device they are on, by address, so
    that the optimizer and the model can refer to the same object), the random generator (seed and number of
    draws made), the paths that exist on disk and what the files among them hold, the
    clock and the lines printed.
  \<^item> \<open>collab\<close> is the interface of the external code: the network constructor and
    its forward pass, the gradient operator of the autograd machinery, the stream of
    uniform draws a seed determines, the text of a float, whether a GPU is available,
    and the constants of the constants module that name the checkpoint files. The
    trainer's lemmas hold for every value of this record.
  \<^item> \<open>USE_CUDA\<close> is the module-level flag (line 19), \<open>module_cuda\<close> the move of a
    network to the GPU, \<open>tensor_device\<close> the device of the tensors \<open>_var\<close> builds.
  \<^item> The optimizer \<open>optim.SGD\<close> without momentum is three functions on a network
    object, from the library's documentation: \<open>sgd_zero_grad\<close>, \<open>accumulate_grad\<close>
    (what \<open>backward\<close> does to the \<open>.grad\<close> fields) and \<open>sgd_step\<close>.
  \<^item> \<open>set_random_seeds\<close> and \<open>print_info\<close> are the module-level functions of the same
    name. The seed is a word of 32 bits: \<open>np.random.seed\<close> accepts the integers from
    \<open>0\<close> to \<open>2 ^ 32 - 1\<close> (\<open>seed_ok\<close>) and raises ValueError for any other.
  \<^item> A path that exists is a regular file when it has a content (\<open>is_file\<close>) and a
    directory otherwise (\<open>is_dir\<close>). \<open>os_makedirs\<close> is \<open>os.makedirs\<close>, \<open>ensure_dir\<close> is
    \<open>_ensure_path\<close> (lines 186 to 188) with the exception it lets through,
    \<open>open_error\<close> the exception of \<open>open(path, 'w')\<close> and \<open>write_file\<close> the write. The
    lemmas show that \<open>_ensure_path\<close> raises exactly when it is \<open>blocked\<close> (by a regular
    file in the way of the directory, or because the path is empty), and that it
    and a write keep the file system well formed (\<open>wf_disk\<close>).
  \<^item> A printed line is an event (\<open>log_event\<close>); \<open>line_text\<close> is its text, from
    \<open>format_of\<close> and \<open>argument_text\<close>, and \<open>stdout_text\<close> the text of all lines printed.
\<close>

section \<open>Data\<close>

text \<open>Where the parameters of a network live. A module is created on the CPU and moved
  by \<open>.cuda()\<close>; the tensors \<open>_var\<close> builds are of the CPU or of the CUDA type.\<close>

datatype device = Cpu | Cuda

record net =
  weights :: "real list"
  grads :: "real list"
  placed :: device

datatype log_event =
    EpochLine nat
  | LossLine nat real
  | PerplexityLine nat real
  | DevLossLine nat real
  | DevPerplexityLine nat real
  | InfoLossLine nat string "real option"
  | InfoPerplexityLine nat string "real option"

text \<open>What a file written by the trainer holds: the state of a network (\<open>torch.save\<close>),
  text, or a pickled vocabulary.\<close>

datatype file_content =
    StateDict "real list"
  | Text string
  | Pickled "string list option"

record world =
  heap :: "nat \<Rightarrow> net"
  next_addr :: nat
  rng_seed :: "32 word"
  rng_pos :: nat
  disk :: filesystem
  files :: "string \<rightharpoonup> file_content"
  now :: datetime
  stdout :: "log_event list"

record collab =
  lm_init :: "pval \<Rightarrow> pval \<Rightarrow> pval \<Rightarrow> pval \<Rightarrow> pval \<Rightarrow> real list"
  lm_forward :: "real list \<Rightarrow> seqs option \<Rightarrow> seqs list option \<Rightarrow> seqs \<Rightarrow> bool \<Rightarrow> outputs"
  autograd :: "(real list \<Rightarrow> real) \<Rightarrow> real list \<Rightarrow> real list"
  np_random :: "32 word \<Rightarrow> nat \<Rightarrow> real"
  float_repr :: "real \<Rightarrow> string"
  BASE_PATH :: string
  SAVED_MODEL_FILENAME :: string
  SAVED_PARAMS_FILENAME :: string
  SAVED_VOCAB_FILENAME :: string
  KEY_NAME :: "pkey \<Rightarrow> string"
  cuda_is_available :: bool

section \<open>The device\<close>

text \<open>\<open>USE_CUDA\<close> is evaluated once, when the module is loaded. \<open>module_cuda\<close> is
  \<open>Module.cuda()\<close>: it moves the parameters and their gradients, and changes no value.
  \<open>tensor_device\<close> is the device of the tensor type \<open>_var\<close> selects.\<close>

definition USE_CUDA :: "collab \<Rightarrow> bool" where
  "USE_CUDA E = cuda_is_available E"

definition module_cuda :: "net \<Rightarrow> net" where
  "module_cuda n = n\<lparr>placed := Cuda\<rparr>"

definition tensor_device :: "collab \<Rightarrow> device" where
  "tensor_device E = (if USE_CUDA E then Cuda else Cpu)"

section \<open>Operations on the world\<close>

text \<open>\<open>np.random.seed\<close> takes an integer from \<open>0\<close> to \<open>2 ^ 32 - 1\<close> and raises
  ValueError for any other, before \<open>torch.manual_seed\<close> is reached; the generator keeps
  the seed as a word of 32 bits and starts its stream again.\<close>

definition seed_ok :: "int \<Rightarrow> bool" where
  "seed_ok seed \<longleftrightarrow> 0 \<le> seed \<and> seed < 2 ^ 32"

definition set_random_seeds :: "int \<Rightarrow> world \<Rightarrow> world result" where
  "set_random_seeds seed w =
     (if seed_ok seed then Inr (w\<lparr>rng_seed := word_of_int seed, rng_pos := 0\<rparr>)
      else Inl ValueError)"

definition random_draw :: "collab \<Rightarrow> world \<Rightarrow> real \<times> world" where
  "random_draw E w = (np_random E (rng_seed w) (rng_pos w), w\<lparr>rng_pos := Suc (rng_pos w)\<rparr>)"

text \<open>\<open>np.random.random()\<close> returns a number of the half-open interval from 0 to 1.\<close>

definition unit_draws :: "collab \<Rightarrow> bool" where
  "unit_draws E \<longleftrightarrow> (\<forall>seed pos. 0 \<le> np_random E seed pos \<and> np_random E seed pos < 1)"

definition alloc_net :: "real list \<Rightarrow> world \<Rightarrow> nat \<times> world" where
  "alloc_net ws w =
     (next_addr w,
      w\<lparr>heap := (heap w)(next_addr w := \<lparr>weights = ws, grads = map (\<lambda>_. 0) ws, placed = Cpu\<rparr>),
        next_addr := Suc (next_addr w)\<rparr>)"

definition update_net :: "nat \<Rightarrow> (net \<Rightarrow> net) \<Rightarrow> world \<Rightarrow> world" where
  "update_net a f w = w\<lparr>heap := (heap w)(a := f (heap w a))\<rparr>"

text \<open>A path that exists is a regular file when it has a content and a directory
  otherwise.\<close>

definition is_file :: "string \<Rightarrow> world \<Rightarrow> bool" where
  "is_file p w \<longleftrightarrow> files w p \<noteq> None"

definition is_dir :: "string \<Rightarrow> world \<Rightarrow> bool" where
  "is_dir p w \<longleftrightarrow> p \<in> disk w \<and> files w p = None"

text \<open>A path cannot be a directory when it or one of its ancestors is a regular file.\<close>

definition not_a_directory :: "string \<Rightarrow> world \<Rightarrow> bool" where
  "not_a_directory p w \<longleftrightarrow> list_ex (\<lambda>q. is_file q w) (dir_prefixes p)"

text \<open>\<open>os.makedirs(p)\<close> raises FileExistsError when the path exists,
  FileNotFoundError for the empty path and NotADirectoryError when a regular file is in
  its way; otherwise it creates the directory and the ancestors that are missing.\<close>

definition os_makedirs :: "string \<Rightarrow> world \<Rightarrow> world result" where
  "os_makedirs p w =
     (if p \<in> disk w then Inl FileExistsError
      else if p = [] then Inl FileNotFoundError
      else if not_a_directory p w then Inl NotADirectoryError
      else Inr (w\<lparr>disk := makedirs p (disk w)\<rparr>))"

text \<open>\<open>_ensure_path\<close> on the world: \<open>os.path.exists\<close>, then \<open>os.makedirs\<close>.\<close>

definition ensure_dir :: "string \<Rightarrow> world \<Rightarrow> world result" where
  "ensure_dir p w = (if p \<in> disk w then Inr w else os_makedirs p w)"

text \<open>Opening a file for writing, \<open>open(path, 'w')\<close> (\<open>torch.save\<close> and
  \<open>pickle.dump\<close> open the file the same way). The empty path names nothing; the
  directory of the path has to exist and to be a directory, with its ancestors (the working
  directory, which the empty directory name stands for, always is); the path itself must
  not name a directory.\<close>

definition open_error :: "string \<Rightarrow> world \<Rightarrow> py_error option" where
  "open_error path w =
     (if path = [] then Some FileNotFoundError
      else if not_a_directory (dirname path) w then Some NotADirectoryError
      else if dirname path \<noteq> [] \<and> dirname path \<notin> disk w then Some FileNotFoundError
      else if last path = CHR ''/'' \<or> is_dir path w then Some IsADirectoryError
      else None)"

text \<open>Writing a file: the file is created or replaced.\<close>

definition write_file :: "string \<Rightarrow> file_content \<Rightarrow> world \<Rightarrow> world result" where
  "write_file path content w =
     (case open_error path w of
        Some e \<Rightarrow> Inl e
      | None \<Rightarrow> Inr (w\<lparr>disk := insert path (disk w), files := (files w)(path \<mapsto> content)\<rparr>))"

definition print_line :: "log_event \<Rightarrow> world \<Rightarrow> world" where
  "print_line ev w = w\<lparr>stdout := stdout w @ [ev]\<rparr>"

definition print_info :: "nat \<Rightarrow> real list \<Rightarrow> real list \<Rightarrow> string \<Rightarrow> world \<Rightarrow> world" where
  "print_info epoch losses perplexities corpus w =
     print_line (InfoPerplexityLine epoch corpus (np_mean perplexities))
       (print_line (InfoLossLine epoch corpus (np_mean losses)) w)"

text \<open>The text of a printed line. Every \<open>print\<close> of the module is given the format
  string and the values as two arguments (\<open>print('Epoch: %d', epoch)\<close>), so the format
  string is printed as it is, then a space, then the text of the second argument: a
  number for the epoch line, a tuple for the others. A float is printed by \<open>repr\<close>, the
  mean of no numbers as \<open>nan\<close>, a string in a tuple in quotes.\<close>

fun format_of :: "log_event \<Rightarrow> string" where
  "format_of (EpochLine epoch) = ''Epoch: %d''"
| "format_of (LossLine batch_itr v) = ''Loss at batch %d = %.2f''"
| "format_of (PerplexityLine batch_itr v) = ''Perplexity at batch %d = %.2f''"
| "format_of (DevLossLine batch_itr v) = ''[Dev] Loss at batch %d = %.2f''"
| "format_of (DevPerplexityLine batch_itr v) = ''[Dev] Perplexity at batch %d = %.2f''"
| "format_of (InfoLossLine epoch corpus m) = ''Epoch = %d, [%s] Loss = %.2f''"
| "format_of (InfoPerplexityLine epoch corpus m) = ''Epoch = %d, [%s] Perplexity = %.2f''"

fun py_tuple :: "string list \<Rightarrow> string" where
  "py_tuple [] = ''()''"
| "py_tuple [x] = ''('' @ x @ '',)''"
| "py_tuple (x # y # ys) = ''('' @ x @ concat (map (\<lambda>z. '', '' @ z) (y # ys)) @ '')''"

definition mean_text :: "(real \<Rightarrow> string) \<Rightarrow> real option \<Rightarrow> string" where
  "mean_text repr m = (case m of None \<Rightarrow> ''nan'' | Some v \<Rightarrow> repr v)"

fun argument_text :: "(real \<Rightarrow> string) \<Rightarrow> log_event \<Rightarrow> string" where
  "argument_text repr (EpochLine epoch) = show_nat epoch"
| "argument_text repr (LossLine batch_itr v) = py_tuple [show_nat batch_itr, repr v]"
| "argument_text repr (PerplexityLine batch_itr v) = py_tuple [show_nat batch_itr, repr v]"
| "argument_text repr (DevLossLine batch_itr v) = py_tuple [show_nat batch_itr, repr v]"
| "argument_text repr (DevPerplexityLine batch_itr v) = py_tuple [show_nat batch_itr, repr v]"
| "argument_text repr (InfoLossLine epoch corpus m) =
     py_tuple [show_nat epoch, [CHR 0x27] @ corpus @ [CHR 0x27], mean_text repr m]"
| "argument_text repr (InfoPerplexityLine epoch corpus m) =
     py_tuple [show_nat epoch, [CHR 0x27] @ corpus @ [CHR 0x27], mean_text repr m]"

definition line_text :: "(real \<Rightarrow> string) \<Rightarrow> log_event \<Rightarrow> string" where
  "line_text repr ev = format_of ev @ '' '' @ argument_text repr ev"

definition stdout_text :: "collab \<Rightarrow> world \<Rightarrow> string list" where
  "stdout_text E w = map (line_text (float_repr E)) (stdout w)"

section \<open>Stochastic gradient descent\<close>

definition sgd_zero_grad :: "net \<Rightarrow> net" where
  "sgd_zero_grad n = n\<lparr>grads := map (\<lambda>_. 0) (grads n)\<rparr>"

definition accumulate_grad :: "real list \<Rightarrow> net \<Rightarrow> net" where
  "accumulate_grad g n = n\<lparr>grads := map2 (+) (grads n) g\<rparr>"

definition sgd_step :: "real \<Rightarrow> net \<Rightarrow> net" where
  "sgd_step rate n = n\<lparr>weights := map2 (\<lambda>w g. w - rate * g) (weights n) (grads n)\<rparr>"

definition wf_net :: "net \<Rightarrow> bool" where
  "wf_net n \<longleftrightarrow> length (grads n) = length (weights n)"

text \<open>The file system is well formed when every file exists, and the ancestors of a
  path that exists exist and are directories.\<close>

definition wf_disk :: "world \<Rightarrow> bool" where
  "wf_disk w \<longleftrightarrow>
     (\<forall>p. is_file p w \<longrightarrow> p \<in> disk w) \<and>
     (\<forall>p \<in> disk w. \<forall>q \<in> set (dir_prefixes p). q \<in> disk w \<and> (q \<noteq> p \<longrightarrow> \<not> is_file q w))"

text \<open>\<open>_ensure_path\<close> raises when it has to create the directory and cannot: the path
  is empty or a regular file is in the way.\<close>

definition blocked :: "string \<Rightarrow> world \<Rightarrow> bool" where
  "blocked p w \<longleftrightarrow> p \<notin> disk w \<and> (p = [] \<or> not_a_directory p w)"

section \<open>Lemmas\<close>

lemmas world_defs =
  set_random_seeds_def random_draw_def alloc_net_def update_net_def print_line_def print_info_def

lemmas sgd_defs = sgd_zero_grad_def accumulate_grad_def sgd_step_def

text \<open>A seed that is accepted is kept as it is: the word holds the integer.\<close>

lemma uint_seed: "seed_ok seed \<Longrightarrow> uint (word_of_int seed :: 32 word) = seed"
  by (simp add: seed_ok_def uint_word_of_int take_bit_int_eq_self)

lemma seed_inject:
  "seed_ok a \<Longrightarrow> seed_ok b \<Longrightarrow> (word_of_int a :: 32 word) = word_of_int b \<longleftrightarrow> a = b"
  by (metis uint_seed)

lemma seed_ok_uint [simp]: "seed_ok (uint (w :: 32 word))"
  using uint_bounded [of w] by (simp add: seed_ok_def)

lemma set_random_seeds_run:
  "set_random_seeds seed w = Inr w' \<longleftrightarrow>
     seed_ok seed \<and> w' = w\<lparr>rng_seed := word_of_int seed, rng_pos := 0\<rparr>"
  "set_random_seeds seed w = Inl e \<longleftrightarrow> \<not> seed_ok seed \<and> e = ValueError"
  by (auto simp: set_random_seeds_def)

lemma ensure_dir_run:
  "ensure_dir p w =
     (if blocked p w then Inl (if p = [] then FileNotFoundError else NotADirectoryError)
      else Inr (w\<lparr>disk := ensure_path p (disk w)\<rparr>))"
  by (simp add: ensure_dir_def os_makedirs_def blocked_def ensure_path_def)

lemma ensure_dir_frame:
  assumes "ensure_dir p w = Inr w'"
  shows "files w' = files w" "heap w' = heap w" "now w' = now w" "stdout w' = stdout w"
    "rng_seed w' = rng_seed w" "rng_pos w' = rng_pos w" "next_addr w' = next_addr w"
    "disk w' = ensure_path p (disk w)"
  using assms by (auto simp: ensure_dir_run split: if_splits)

lemma is_file_disk [simp]: "is_file p (w\<lparr>disk := d\<rparr>) = is_file p w"
  by (simp add: is_file_def)

lemma not_a_directory_disk [simp]: "not_a_directory p (w\<lparr>disk := d\<rparr>) = not_a_directory p w"
  by (simp add: not_a_directory_def)

lemma not_a_directory_iff:
  "not_a_directory p w \<longleftrightarrow> (\<exists>q \<in> set (dir_prefixes p). is_file q w)"
  by (simp add: not_a_directory_def list_ex_iff)

lemma not_a_directory_self: "p \<noteq> [] \<Longrightarrow> is_file p w \<Longrightarrow> not_a_directory p w"
  using self_in_dir_prefixes by (auto simp: not_a_directory_iff)

lemma not_a_directory_ancestor:
  "a \<noteq> [] \<Longrightarrow> is_file a w \<Longrightarrow> not_a_directory (slash_join a b) w"
  using ancestor_in_dir_prefixes by (auto simp: not_a_directory_iff)

text \<open>\<open>_ensure_path\<close> never raises FileExistsError: it asks first.\<close>

lemma ensure_dir_error:
  "ensure_dir p w = Inl e \<Longrightarrow>
   blocked p w \<and> e = (if p = [] then FileNotFoundError else NotADirectoryError)"
  by (simp add: ensure_dir_run split: if_splits)

text \<open>The path of a file in a directory can be opened when the directory is one and the
  path is not.\<close>

lemma open_error_in_dir:
  assumes "name \<noteq> []" and "CHR ''/'' \<notin> set name" and "dir \<noteq> []"
  shows "open_error (slash_join dir name) w =
           (if not_a_directory dir w then Some NotADirectoryError
            else if dir \<notin> disk w then Some FileNotFoundError
            else if is_dir (slash_join dir name) w then Some IsADirectoryError
            else None)"
proof -
  from assms(1,2) have "last (slash_join dir name) \<noteq> CHR ''/''"
    by (auto simp: slash_join_def dest: last_in_set)
  with assms show ?thesis
    by (simp add: open_error_def) (simp add: slash_join_def)
qed

section \<open>The file system stays well formed\<close>

lemma wf_diskD:
  assumes "wf_disk w"
  shows "is_file p w \<Longrightarrow> p \<in> disk w"
    and "p \<in> disk w \<Longrightarrow> q \<in> set (dir_prefixes p) \<Longrightarrow> q \<in> disk w"
    and "p \<in> disk w \<Longrightarrow> q \<in> set (dir_prefixes p) \<Longrightarrow> q \<noteq> p \<Longrightarrow> \<not> is_file q w"
  using assms unfolding wf_disk_def by blast+

lemma wf_disk_cong: "disk w' = disk w \<Longrightarrow> files w' = files w \<Longrightarrow> wf_disk w' = wf_disk w"
  by (simp add: wf_disk_def is_file_def)

lemma wf_disk_frame [simp]:
  "wf_disk (update_net a f w) = wf_disk w" "wf_disk (print_line ev w) = wf_disk w"
  "wf_disk (print_info n ls ps corpus w) = wf_disk w"
  "wf_disk (snd (random_draw E w)) = wf_disk w"
  by (rule wf_disk_cong; simp add: update_net_def print_line_def print_info_def random_draw_def)+

lemma wf_disk_ensure_dir:
  assumes "wf_disk w" and "ensure_dir p w = Inr w'"
  shows "wf_disk w'"
proof (cases "p \<in> disk w")
  case True
  with assms show ?thesis
    by (simp add: ensure_dir_def)
next
  case False
  with assms(2) have free: "\<not> not_a_directory p w"
    and w': "w' = w\<lparr>disk := disk w \<union> set (dir_prefixes p)\<rparr>"
    by (auto simp: ensure_dir_def os_makedirs_def makedirs_def split: if_splits)
  from free have new: "\<not> is_file q w" if "q \<in> set (dir_prefixes p)" for q
    using that by (auto simp: not_a_directory_iff)
  note wf = wf_diskD [OF assms(1)]
  show ?thesis
    unfolding wf_disk_def w'
  proof (intro conjI allI ballI impI)
    fix q assume "is_file q (w\<lparr>disk := disk w \<union> set (dir_prefixes p)\<rparr>)"
    with wf(1) [of q] show "q \<in> disk (w\<lparr>disk := disk w \<union> set (dir_prefixes p)\<rparr>)"
      by simp
  next
    fix q r assume q: "q \<in> disk (w\<lparr>disk := disk w \<union> set (dir_prefixes p)\<rparr>)"
      and r: "r \<in> set (dir_prefixes q)"
    from q have "q \<in> disk w \<or> q \<in> set (dir_prefixes p)"
      by simp
    then have "r \<in> disk w \<or> r \<in> set (dir_prefixes p)"
      using wf(2) [OF _ r] dir_prefixes_trans [OF _ r] by blast
    then show "r \<in> disk (w\<lparr>disk := disk w \<union> set (dir_prefixes p)\<rparr>)"
      by simp
    assume "r \<noteq> q"
    with \<open>q \<in> disk w \<or> q \<in> set (dir_prefixes p)\<close>
    have "\<not> is_file r w"
      using wf(3) [OF _ r] new [OF dir_prefixes_trans [OF _ r]] by blast
    then show "\<not> is_file r (w\<lparr>disk := disk w \<union> set (dir_prefixes p)\<rparr>)"
      by simp
  qed
qed

text \<open>What a path that opens for writing is like, in a well-formed file system: its
  ancestors exist and are directories, and it is above no path that exists.\<close>

lemma open_errorD:
  assumes "open_error p w = None"
  shows "p \<noteq> []" "last p \<noteq> CHR ''/''" "\<not> not_a_directory (dirname p) w"
    "dirname p = [] \<or> dirname p \<in> disk w" "\<not> is_dir p w"
  using assms by (auto simp: open_error_def split: if_splits)

lemma open_above:
  assumes "wf_disk w" and "open_error p w = None" and "q \<in> set (dir_prefixes (dirname p))"
  shows "q \<in> disk w" "\<not> is_file q w"
proof -
  from assms(3) have "dirname p \<noteq> []"
    by auto
  with open_errorD(4) [OF assms(2)] have "dirname p \<in> disk w"
    by simp
  from wf_diskD(2) [OF assms(1) this assms(3)] show "q \<in> disk w" .
  from open_errorD(3) [OF assms(2)] assms(3) show "\<not> is_file q w"
    by (auto simp: not_a_directory_iff)
qed

lemma open_below:
  assumes "wf_disk w" and "open_error p w = None" and "q \<in> disk w" and "q \<noteq> p"
  shows "p \<notin> set (dir_prefixes q)"
proof
  assume "p \<in> set (dir_prefixes q)"
  from wf_diskD(2) [OF assms(1,3) this] wf_diskD(3) [OF assms(1,3) this] assms(4)
    open_errorD(5) [OF assms(2)]
  show False
    by (auto simp: is_dir_def is_file_def)
qed

lemma wf_disk_write_file:
  assumes "wf_disk w" and "write_file p c w = Inr w'"
  shows "wf_disk w'"
proof -
  from assms(2) have ok: "open_error p w = None"
    and w': "w' = w\<lparr>disk := insert p (disk w), files := (files w)(p \<mapsto> c)\<rparr>"
    by (auto simp: write_file_def split: option.splits)
  note wf = wf_diskD [OF assms(1)] and above = open_above [OF assms(1) ok]
  have kind: "is_file q w' \<longleftrightarrow> q = p \<or> is_file q w"
    and disk: "q \<in> disk w' \<longleftrightarrow> q = p \<or> q \<in> disk w" for q
    by (simp_all add: w' is_file_def)
  have pre: "set (dir_prefixes p) = insert p (set (dir_prefixes (dirname p)))"
    using open_errorD(1,2) [OF ok] by (rule dir_prefixes_dirname)
  show ?thesis
    unfolding wf_disk_def
  proof (intro conjI allI ballI impI)
    fix q assume "is_file q w'"
    with wf(1) [of q] show "q \<in> disk w'"
      unfolding kind disk by blast
  next
    fix q r assume q: "q \<in> disk w'" and r: "r \<in> set (dir_prefixes q)"
    show "r \<in> disk w'"
    proof (cases "q = p")
      case True
      with r above(1) [of r] show ?thesis
        unfolding disk by (auto simp: pre)
    next
      case False
      with q wf(2) [OF _ r] show ?thesis
        by (simp add: disk)
    qed
  next
    fix q r assume q: "q \<in> disk w'" and r: "r \<in> set (dir_prefixes q)" and ne: "r \<noteq> q"
    show "\<not> is_file r w'"
    proof (cases "q = p")
      case True
      with r ne above(2) [of r] show ?thesis
        by (auto simp: kind pre)
    next
      case False
      with q have "q \<in> disk w"
        by (simp add: disk)
      from wf(3) [OF this r ne] open_below [OF assms(1) ok this False] r show ?thesis
        unfolding kind by blast
    qed
  qed
qed

section \<open>Networks, the generator and the output\<close>

lemma update_net_heap_same [simp]: "heap (update_net a f w) a = f (heap w a)"
  by (simp add: update_net_def)

lemma update_net_heap_other [simp]: "b \<noteq> a \<Longrightarrow> heap (update_net a f w) b = heap w b"
  by (simp add: update_net_def)

lemma update_net_frame [simp]:
  "rng_seed (update_net a f w) = rng_seed w" "rng_pos (update_net a f w) = rng_pos w"
  "disk (update_net a f w) = disk w" "stdout (update_net a f w) = stdout w"
  "files (update_net a f w) = files w"
  "now (update_net a f w) = now w" "next_addr (update_net a f w) = next_addr w"
  by (simp_all add: update_net_def)

lemma print_line_frame [simp]:
  "heap (print_line ev w) = heap w" "rng_seed (print_line ev w) = rng_seed w"
  "rng_pos (print_line ev w) = rng_pos w" "disk (print_line ev w) = disk w"
  "files (print_line ev w) = files w"
  "now (print_line ev w) = now w" "next_addr (print_line ev w) = next_addr w"
  "stdout (print_line ev w) = stdout w @ [ev]"
  by (simp_all add: print_line_def)

lemma random_draw_frame [simp]:
  "heap (snd (random_draw E w)) = heap w" "rng_seed (snd (random_draw E w)) = rng_seed w"
  "rng_pos (snd (random_draw E w)) = Suc (rng_pos w)" "disk (snd (random_draw E w)) = disk w"
  "files (snd (random_draw E w)) = files w"
  "stdout (snd (random_draw E w)) = stdout w" "now (snd (random_draw E w)) = now w"
  "fst (random_draw E w) = np_random E (rng_seed w) (rng_pos w)"
  by (simp_all add: random_draw_def)

lemma wf_net_alloc: "wf_net (heap (snd (alloc_net ws w)) (fst (alloc_net ws w)))"
  by (simp add: alloc_net_def wf_net_def)

lemma wf_net_module_cuda [simp]: "wf_net (module_cuda n) = wf_net n"
  by (simp add: wf_net_def module_cuda_def)

lemma module_cuda_simps [simp]:
  "weights (module_cuda n) = weights n" "grads (module_cuda n) = grads n"
  "placed (module_cuda n) = Cuda"
  by (simp_all add: module_cuda_def)

lemma placed_sgd [simp]:
  "placed (sgd_zero_grad n) = placed n" "placed (accumulate_grad g n) = placed n"
  "placed (sgd_step rate n) = placed n"
  by (simp_all add: sgd_defs)

lemma wf_net_sgd [simp]:
  "wf_net n \<Longrightarrow> wf_net (sgd_zero_grad n)"
  "wf_net n \<Longrightarrow> length g = length (weights n) \<Longrightarrow> wf_net (accumulate_grad g n)"
  "wf_net n \<Longrightarrow> wf_net (sgd_step rate n)"
  by (simp_all add: wf_net_def sgd_defs)

text \<open>A step after a fresh gradient: the weights move against that gradient alone.\<close>

lemma map2_add_zeros: "length xs = length g \<Longrightarrow> map2 (+) (map (\<lambda>_. 0 :: real) xs) g = g"
  by (induction xs g rule: list_induct2) simp_all

lemma accumulate_after_zero:
  "length g = length (grads n) \<Longrightarrow> grads (accumulate_grad g (sgd_zero_grad n)) = g"
  by (simp add: sgd_defs map2_add_zeros)

lemma sgd_descent:
  assumes "wf_net n" and "length g = length (weights n)"
  shows "weights (sgd_step rate (accumulate_grad g (sgd_zero_grad n))) =
           map2 (\<lambda>w d. w - rate * d) (weights n) g"
proof -
  from assms have "grads (accumulate_grad g (sgd_zero_grad n)) = g"
    by (intro accumulate_after_zero) (simp add: wf_net_def)
  moreover have "weights (accumulate_grad g (sgd_zero_grad n)) = weights n"
    by (simp add: sgd_defs)
  ultimately show ?thesis
    by (simp add: sgd_step_def)
qed

section \<open>Printed lines\<close>

text \<open>No line is formatted: each begins with its format string, conversion
  specifications included.\<close>

lemma line_text_unformatted:
  "take (length (format_of ev)) (line_text repr ev) = format_of ev"
  "CHR ''%'' \<in> set (line_text repr ev)"
  by (cases ev; simp add: line_text_def)+

lemma stdout_text_print_line [simp]:
  "stdout_text E (print_line ev w) = stdout_text E w @ [line_text (float_repr E) ev]"
  by (simp add: stdout_text_def)

lemma line_text_epoch: "line_text repr (EpochLine 0) = ''Epoch: %d 0''"
  by (simp add: line_text_def show_nat_small digit_char_def char_of_eq_iff)

end
