(* ===== verification/Trainer.thy ===== *)
theory Trainer
  imports World
begin

text \<open>
  The class \<open>Trainer\<close> (\<open>trainer.py\<close>, lines 21-87 and 170-171): its attributes as the
  record \<open>trainer\<close>, construction, the optimizer and the batch step as programs on a
  \<open>machine\<close> (the object and the world). The epoch loop, the checkpoint writer and the
  evaluation pass are the theories \<open>Epochs\<close>, \<open>Artifacts\<close> and \<open>Evaluation\<close>.

  \<^item> \<open>self.model\<close> holds \<open>None\<close>, the name of a model variant, or a network object:
    \<open>model_val\<close>. The code compares it with the variant names, asks it for
    \<open>parameters()\<close> and calls it; each constructor answers these in its own way (a name
    is equal to itself, has no parameters and cannot be called; a network is equal to no
    name).
  \<^item> \<open>self.optimizer\<close> is \<open>None\<close> or an \<open>sgd\<close>: a learning rate and the address of the
    parameters it was built on.
  \<^item> A batch of the loader has one of three shapes (\<open>batch\<close>).
  \<^item> One definition per method or group of lines, composed with \<open>pbind\<close> in the order of
    the statements: \<open>init\<close>, \<open>set_optimizer\<close>, and \<open>train_batch\<close> from
    \<open>optimizer_zero_grad\<close>, \<open>select_inputs\<close>, \<open>draw_teacher_forcing\<close>, \<open>call_model\<close>,
    \<open>loss_backward\<close> and \<open>optimizer_step\<close>.
  \<^item> \<open>untouched\<close> and \<open>history_ok\<close> are the two predicates the properties of the loops
    are stated with; \<open>demo_collab\<close> and \<open>demo_machine\<close> are one value of the
    collaborators and one state, on which the properties are applied.
  \<^item> The lemmas named \<open>..._run\<close> give the result and the state an operation leaves, by
    cases on what it reads; \<open>run_simps\<close>, \<open>fails_simps\<close> and \<open>final_simps\<close> evaluate a
    sequence of operations, its failure and its final state. The properties follow in the
    order of the methods: the batch step, the learning rate, the inputs of the model, the
    side effects of the batch step, construction and the seeds it accepts, teacher forcing
    and the device.
\<close>

section \<open>Data\<close>

datatype variant = LM_ANSWERS | LM_QUESTION_ANSWERS | LM_QUESTION_ANSWERS_REVIEWS

datatype model_val = PyNone | Name variant | Module nat

record sgd =
  lr :: real
  param_ref :: nat

datatype batch =
    Answers seqs "int list"
  | QuestionAnswers seqs "int list" seqs
  | QuestionAnswersReviews seqs "int list" seqs "seqs list"

record trainer =
  save_model_every :: int
  print_every :: int
  params :: "params option"
  dataloader :: "batch list"
  vocab :: "string list option"
  model :: model_val
  loss :: "real list"
  perplexity :: "real list"
  criterion :: criterion
  optimizer :: "sgd option"
  vocabs :: "string list option"

record machine =
  obj :: trainer
  env :: world

section \<open>Access to the object and the world\<close>

definition the_self :: "(trainer \<Rightarrow> 'a) \<Rightarrow> (machine, 'a) prog" where
  "the_self f = pget (\<lambda>s. f (obj s))"

definition set_self :: "(trainer \<Rightarrow> trainer) \<Rightarrow> (machine, unit) prog" where
  "set_self f = pmodify (\<lambda>s. s\<lparr>obj := f (obj s)\<rparr>)"

definition on_env :: "(world \<Rightarrow> world) \<Rightarrow> (machine, unit) prog" where
  "on_env f = pmodify (\<lambda>s. s\<lparr>env := f (env s)\<rparr>)"

definition self_param :: "pkey \<Rightarrow> (machine, pval) prog" where
  "self_param k = pread (\<lambda>s. getitem (params (obj s)) k)"

definition var :: "'a option \<Rightarrow> 'a result" where
  "var x = (case x of None \<Rightarrow> Inl TypeError | Some v \<Rightarrow> Inr v)"

section \<open>Construction\<close>

definition init ::
  "collab \<Rightarrow> batch list \<Rightarrow> params \<Rightarrow> int \<Rightarrow> int \<Rightarrow> int \<Rightarrow> batch list option \<Rightarrow>
   string list option \<Rightarrow> world \<Rightarrow> trainer result \<times> world"
where
  "init E loader ps random_seed n_save n_print dev_loader voc w =
     (case set_random_seeds random_seed w of
        Inl e \<Rightarrow> (Inl e, w)
      | Inr w1 \<Rightarrow>
          (case rbind (getitem (Some ps) VOCAB_SIZE) (\<lambda>v.
                rbind (getitem (Some ps) HDIM) (\<lambda>h.
                rbind (getitem (Some ps) OUTPUT_MAX_LEN) (\<lambda>m.
                rbind (getitem (Some ps) H_LAYERS) (\<lambda>l.
                rbind (getitem (Some ps) DROPOUT) (\<lambda>d. Inr (lm_init E v h m l d)))))) of
             Inl e \<Rightarrow> (Inl e, w1)
           | Inr ws \<Rightarrow>
               let (a, w2) = alloc_net ws w1;
                   w3 = (if USE_CUDA E then update_net a module_cuda w2 else w2) in
               (Inr \<lparr>save_model_every = n_save, print_every = n_print, params = None,
                     dataloader = loader, vocab = voc, model = PyNone, loss = [],
                     perplexity = [], criterion = nll_loss, optimizer = None, vocabs = None\<rparr>,
                w3)))"

section \<open>The optimizer\<close>

definition scaled_rate :: "pval \<Rightarrow> pval \<Rightarrow> real result" where
  "scaled_rate base lr_decay =
     rbind (as_number base) (\<lambda>b. rbind (as_number lr_decay) (\<lambda>d. Inr (b * d)))"

definition set_optimizer :: "pval \<Rightarrow> (machine, unit) prog" where
  "set_optimizer lr_decay =
     pbind (the_self model) (\<lambda>m.
       case m of
         Module a \<Rightarrow>
           pbind (self_param LR) (\<lambda>base.
           pbind (plift (scaled_rate base lr_decay)) (\<lambda>rate.
           set_self (\<lambda>t. t\<lparr>optimizer := Some \<lparr>lr = rate, param_ref = a\<rparr>\<rparr>)))
       | _ \<Rightarrow> praise AttributeError)"

definition optimizer_zero_grad :: "(machine, unit) prog" where
  "optimizer_zero_grad =
     pbind (the_self optimizer) (\<lambda>opt.
       case opt of
         None \<Rightarrow> praise AttributeError
       | Some g \<Rightarrow> on_env (update_net (param_ref g) sgd_zero_grad))"

definition optimizer_step :: "(machine, unit) prog" where
  "optimizer_step =
     pbind (the_self optimizer) (\<lambda>opt.
       case opt of
         None \<Rightarrow> praise AttributeError
       | Some g \<Rightarrow> on_env (update_net (param_ref g) (sgd_step (lr g))))"

section \<open>The batch step\<close>

definition select_inputs ::
  "model_val \<Rightarrow> seqs option \<Rightarrow> seqs list option \<Rightarrow> (seqs option \<times> seqs list option) result"
where
  "select_inputs m q_seqs r_seqs =
     rbind (if m = Name LM_ANSWERS then Inr None
            else rbind (var q_seqs) (\<lambda>q. Inr (Some q))) (\<lambda>q.
     rbind (if m = Name LM_QUESTION_ANSWERS_REVIEWS then rbind (var r_seqs) (\<lambda>r. Inr (Some r))
            else Inr None) (\<lambda>r.
     Inr (q, r)))"

definition draw_teacher_forcing :: "collab \<Rightarrow> (machine, bool) prog" where
  "draw_teacher_forcing E =
     pbind (\<lambda>s. (Inr (fst (random_draw E (env s))), s\<lparr>env := snd (random_draw E (env s))\<rparr>)) (\<lambda>u.
     pbind (self_param TEACHER_FORCING_RATIO) (\<lambda>v.
     pbind (plift (as_number v)) (\<lambda>ratio.
     pret (u < ratio))))"

definition call_model ::
  "collab \<Rightarrow> seqs option \<Rightarrow> seqs list option \<Rightarrow> seqs \<Rightarrow> bool \<Rightarrow> (machine, nat \<times> outputs) prog"
where
  "call_model E q r a teacher_forcing =
     pbind (the_self model) (\<lambda>m.
       case m of
         Module addr \<Rightarrow>
           pbind (pget (\<lambda>s. heap (env s) addr)) (\<lambda>n.
             if placed n = tensor_device E
             then pret (addr, lm_forward E (weights n) q r a teacher_forcing)
             else praise RuntimeError)
       | _ \<Rightarrow> praise TypeError)"

text \<open>The loss of the batch as a function of the weights: what \<open>backward\<close> differentiates.
  Where the loss is not defined the function is \<open>0\<close>; \<open>train_batch\<close> reaches \<open>backward\<close>
  only at weights where it is defined.\<close>

definition batch_objective ::
  "collab \<Rightarrow> criterion \<Rightarrow> seqs option \<Rightarrow> seqs list option \<Rightarrow> seqs \<Rightarrow> bool \<Rightarrow> int list \<Rightarrow>
   seqs \<Rightarrow> real list \<Rightarrow> real"
where
  "batch_objective E crit q r a teacher_forcing lens targets ws =
     (case batch_loss crit (lm_forward E ws q r a teacher_forcing) lens targets of
        Inl _ \<Rightarrow> 0
      | Inr v \<Rightarrow> v)"

definition loss_backward ::
  "collab \<Rightarrow> nat \<Rightarrow> (real list \<Rightarrow> real) \<Rightarrow> int list \<Rightarrow> (machine, unit) prog"
where
  "loss_backward E addr objective lens =
     (if lens = [] then praise AttributeError
      else on_env (\<lambda>w. update_net addr
                          (accumulate_grad (autograd E objective (weights (heap w addr)))) w))"

definition train_batch ::
  "collab \<Rightarrow> seqs option \<Rightarrow> seqs list option \<Rightarrow> seqs \<Rightarrow> int list \<Rightarrow> (machine, real) prog"
where
  "train_batch E q_seqs r_seqs a_seqs a_lengths =
     pbind optimizer_zero_grad (\<lambda>_.
     pbind (plift (var (Some a_seqs))) (\<lambda>answers.
     pbind (the_self model) (\<lambda>m.
     pbind (plift (select_inputs m q_seqs r_seqs)) (\<lambda>(q, r).
     pbind (plift (var (Some answers))) (\<lambda>targets.
     pbind (draw_teacher_forcing E) (\<lambda>teacher_forcing.
     pbind (call_model E q r answers teacher_forcing) (\<lambda>(addr, outs).
     pbind (the_self criterion) (\<lambda>crit.
     pbind (plift (batch_loss crit outs a_lengths targets)) (\<lambda>loss_v.
     pbind (loss_backward E addr
              (batch_objective E crit q r answers teacher_forcing a_lengths targets)
              a_lengths) (\<lambda>_.
     pbind optimizer_step (\<lambda>_.
     pret loss_v)))))))))))"

section \<open>What training is about\<close>

text \<open>Two states with the same training state: the networks, the generator, the histories
  of loss and perplexity, the model, the hyperparameters and the loader.\<close>

definition untouched :: "machine \<Rightarrow> machine \<Rightarrow> bool" where
  "untouched s s' \<longleftrightarrow>
     heap (env s') = heap (env s) \<and> rng_seed (env s') = rng_seed (env s) \<and>
     rng_pos (env s') = rng_pos (env s) \<and> loss (obj s') = loss (obj s) \<and>
     perplexity (obj s') = perplexity (obj s) \<and> model (obj s') = model (obj s) \<and>
     params (obj s') = params (obj s) \<and> dataloader (obj s') = dataloader (obj s) \<and>
     save_model_every (obj s') = save_model_every (obj s) \<and>
     print_every (obj s') = print_every (obj s)"

text \<open>The recorded perplexities are those of the recorded losses.\<close>

definition history_ok :: "trainer \<Rightarrow> bool" where
  "history_ok t \<longleftrightarrow> perplexity t = map perplexity_from_loss (loss t)"

section \<open>A concrete instance\<close>

text \<open>
  One value of every collaborator and one trainer state, on which the lemmas below are
  applied: a network of two weights whose only output step is the weight vector itself
  (read as the scores of tokens 0 and 1 for the single example of the batch), the forward
  difference as gradient operator (exact for this linear network), a generator that always
  draws \<open>1/4\<close>, and a state in which the optimizer was built on the model's parameters and
  a gradient of an earlier step is still stored.
\<close>

definition demo_collab :: collab where
  "demo_collab =
     \<lparr>lm_init = (\<lambda>v h m l d. [0, 0]),
      lm_forward = (\<lambda>ws q r a teacher_forcing. [[ws]]),
      autograd = (\<lambda>f ws. map (\<lambda>i. f (ws[i := ws ! i + 1]) - f ws) [0..<length ws]),
      np_random = (\<lambda>seed pos. 1 / 4),
      float_repr = demo_float_repr,
      BASE_PATH = ''models'',
      SAVED_MODEL_FILENAME = ''model.bin'',
      SAVED_PARAMS_FILENAME = ''params.json'',
      SAVED_VOCAB_FILENAME = ''vocab.pkl'',
      KEY_NAME = demo_key_name,
      cuda_is_available = False\<rparr>"

text \<open>The same collaborators on a machine with a GPU.\<close>

definition cuda_collab :: collab where
  "cuda_collab = demo_collab\<lparr>cuda_is_available := True\<rparr>"

definition demo_params :: params where
  "demo_params =
     [VOCAB_SIZE \<mapsto> PInt 2, HDIM \<mapsto> PInt 1, OUTPUT_MAX_LEN \<mapsto> PInt 1, H_LAYERS \<mapsto> PInt 1,
      DROPOUT \<mapsto> PFloat 0, EPOCHS \<mapsto> PInt 2, LR \<mapsto> PFloat (1 / 2), LR_DECAY \<mapsto> PFloat (1 / 2),
      DECAY_START_EPOCH \<mapsto> PInt 1, TEACHER_FORCING_RATIO \<mapsto> PFloat (1 / 2),
      MODEL_NAME \<mapsto> PStr ''lm'']"

definition demo_world :: world where
  "demo_world =
     \<lparr>heap = (\<lambda>a. \<lparr>weights = [- 1, - 2], grads = [5, 5], placed = Cpu\<rparr>), next_addr = 1,
      rng_seed = 1, rng_pos = 0, disk = {}, files = Map.empty,
      now = \<lparr>year = 2018, month = 4, day = 9, hour = 7, minute = 5, second = 3\<rparr>, stdout = []\<rparr>"

definition demo_trainer :: trainer where
  "demo_trainer =
     \<lparr>save_model_every = 1, print_every = 100, params = Some demo_params,
      dataloader = [Answers [[0]] [1]], vocab = None, model = Module 0, loss = [],
      perplexity = [], criterion = nll_loss,
      optimizer = Some \<lparr>lr = 1 / 2, param_ref = 0\<rparr>, vocabs = None\<rparr>"

definition demo_machine :: machine where
  "demo_machine = \<lparr>obj = demo_trainer, env = demo_world\<rparr>"

section \<open>Running the building blocks\<close>

named_theorems run_simps "how each building block runs on a state"

lemma the_self_run [run_simps]: "the_self f s = (Inr (f (obj s)), s)"
  by (simp add: the_self_def pget_def)

lemma set_self_run [run_simps]: "set_self f s = (Inr (), s\<lparr>obj := f (obj s)\<rparr>)"
  by (simp add: set_self_def pmodify_def)

lemma on_env_run [run_simps]: "on_env f s = (Inr (), s\<lparr>env := f (env s)\<rparr>)"
  by (simp add: on_env_def pmodify_def)

lemma self_param_run [run_simps]: "self_param k s = (getitem (params (obj s)) k, s)"
  by (simp add: self_param_def pread_def)

lemma basic_runs [run_simps]:
  "pret x s = (Inr x, s)" "praise e s = (Inl e, s)" "plift r s = (r, s)"
  "pread g s = (g s, s)" "pget h s = (Inr (h s), s)"
  by (simp_all add: prog_simps)

lemma pbind_run [run_simps]:
  "pbind m f s = (case m s of (Inl e, s') \<Rightarrow> (Inl e, s') | (Inr x, s') \<Rightarrow> f x s')"
  by (simp add: pbind_def)

lemma var_simps [simp]: "var None = Inl TypeError" "var (Some x) = Inr x"
  by (simp_all add: var_def)

lemma machine_eq_iff: "(s :: machine) = t \<longleftrightarrow> obj s = obj t \<and> env s = env t"
  by (cases s; cases t) simp

section \<open>Construction\<close>

lemma init_run:
  "init E loader ps seed n_save n_print dev voc w = (Inr t, w') \<Longrightarrow>
     t = \<lparr>save_model_every = n_save, print_every = n_print, params = None,
           dataloader = loader, vocab = voc, model = PyNone, loss = [],
           perplexity = [], criterion = nll_loss, optimizer = None, vocabs = None\<rparr>"
  by (auto simp: init_def Let_def split: sum.splits prod.splits)

lemma init_seeds:
  "init E loader ps seed n_save n_print dev voc w = (r, w') \<Longrightarrow> seed_ok seed \<Longrightarrow>
     uint (rng_seed w') = seed \<and> rng_pos w' = 0"
  by (auto simp: init_def Let_def world_defs uint_seed split: sum.splits prod.splits)

lemma init_seed_ok:
  "init E loader ps seed n_save n_print dev voc w = (Inr t, w') \<Longrightarrow> seed_ok seed"
  by (auto simp: init_def set_random_seeds_def split: sum.splits if_splits)

lemma init_bad_seed:
  "\<not> seed_ok seed \<Longrightarrow> init E loader ps seed n_save n_print dev voc w = (Inl ValueError, w)"
  by (simp add: init_def set_random_seeds_def)

section \<open>The optimizer\<close>

lemma set_optimizer_no_module:
  "\<forall>a. model (obj s) \<noteq> Module a \<Longrightarrow> set_optimizer d s = (Inl AttributeError, s)"
  by (cases "model (obj s)") (simp_all add: set_optimizer_def run_simps)

lemma set_optimizer_module:
  "model (obj s) = Module a \<Longrightarrow>
   set_optimizer d s =
     (case rbind (getitem (params (obj s)) LR) (\<lambda>base. scaled_rate base d) of
        Inl e \<Rightarrow> (Inl e, s)
      | Inr rate \<Rightarrow> (Inr (), s\<lparr>obj := (obj s)\<lparr>optimizer := Some \<lparr>lr = rate, param_ref = a\<rparr>\<rparr>\<rparr>))"
  by (simp add: set_optimizer_def run_simps split: sum.splits)

lemma set_optimizer_frame:
  "env (final (set_optimizer d s)) = env s"
  "model (obj (final (set_optimizer d s))) = model (obj s)"
  "params (obj (final (set_optimizer d s))) = params (obj s)"
  "loss (obj (final (set_optimizer d s))) = loss (obj s)"
  "perplexity (obj (final (set_optimizer d s))) = perplexity (obj s)"
  "dataloader (obj (final (set_optimizer d s))) = dataloader (obj s)"
  "print_every (obj (final (set_optimizer d s))) = print_every (obj s)"
  "save_model_every (obj (final (set_optimizer d s))) = save_model_every (obj s)"
  by (cases "model (obj s)"; simp add: set_optimizer_def run_simps split: sum.splits)+

lemma scaled_rate_numbers [simp]:
  "scaled_rate (PFloat b) (PFloat d) = Inr (b * d)"
  "scaled_rate (PInt i) (PFloat d) = Inr (real_of_int i * d)"
  "scaled_rate (PFloat b) (PInt j) = Inr (b * real_of_int j)"
  "scaled_rate (PInt i) (PInt j) = Inr (real_of_int i * real_of_int j)"
  by (simp_all add: scaled_rate_def)

lemma optimizer_zero_grad_run:
  "optimizer_zero_grad s =
     (case optimizer (obj s) of
        None \<Rightarrow> (Inl AttributeError, s)
      | Some g \<Rightarrow> (Inr (), s\<lparr>env := update_net (param_ref g) sgd_zero_grad (env s)\<rparr>))"
  by (simp add: optimizer_zero_grad_def run_simps split: option.splits)

lemma optimizer_step_run:
  "optimizer_step s =
     (case optimizer (obj s) of
        None \<Rightarrow> (Inl AttributeError, s)
      | Some g \<Rightarrow> (Inr (), s\<lparr>env := update_net (param_ref g) (sgd_step (lr g)) (env s)\<rparr>))"
  by (simp add: optimizer_step_def run_simps split: option.splits)

section \<open>The batch step\<close>

lemma select_inputs_Module [simp]:
  "select_inputs (Module a) q_seqs r_seqs = rbind (var q_seqs) (\<lambda>q. Inr (Some q, None))"
  by (simp add: select_inputs_def rbind_assoc)

lemma select_inputs_PyNone [simp]:
  "select_inputs PyNone q_seqs r_seqs = rbind (var q_seqs) (\<lambda>q. Inr (Some q, None))"
  by (simp add: select_inputs_def rbind_assoc)

lemma select_inputs_Name [simp]:
  "select_inputs (Name LM_ANSWERS) q_seqs r_seqs = Inr (None, None)"
  "select_inputs (Name LM_QUESTION_ANSWERS) q_seqs r_seqs = rbind (var q_seqs) (\<lambda>q. Inr (Some q, None))"
  "select_inputs (Name LM_QUESTION_ANSWERS_REVIEWS) q_seqs r_seqs =
     rbind (var q_seqs) (\<lambda>q. rbind (var r_seqs) (\<lambda>r. Inr (Some q, Some r)))"
  by (simp_all add: select_inputs_def rbind_assoc)

lemma draw_teacher_forcing_run:
  "draw_teacher_forcing E s =
     (case rbind (getitem (params (obj s)) TEACHER_FORCING_RATIO) as_number of
        Inl e \<Rightarrow> (Inl e, s\<lparr>env := snd (random_draw E (env s))\<rparr>)
      | Inr ratio \<Rightarrow>
          (Inr (np_random E (rng_seed (env s)) (rng_pos (env s)) < ratio),
           s\<lparr>env := snd (random_draw E (env s))\<rparr>))"
  by (simp add: draw_teacher_forcing_def run_simps rbind_def split: sum.splits)

lemma call_model_run:
  "call_model E q r a teacher_forcing s =
     (case model (obj s) of
        Module addr \<Rightarrow>
          (if placed (heap (env s) addr) = tensor_device E
           then (Inr (addr, lm_forward E (weights (heap (env s) addr)) q r a teacher_forcing), s)
           else (Inl RuntimeError, s))
      | _ \<Rightarrow> (Inl TypeError, s))"
  by (simp add: call_model_def run_simps split: model_val.splits)

lemma loss_backward_run:
  "loss_backward E addr objective lens s =
     (if lens = [] then (Inl AttributeError, s)
      else (Inr (), s\<lparr>env := update_net addr
                 (accumulate_grad (autograd E objective (weights (heap (env s) addr)))) (env s)\<rparr>))"
  by (simp add: loss_backward_def run_simps)

lemmas step_runs =
  optimizer_zero_grad_run optimizer_step_run draw_teacher_forcing_run call_model_run
  loss_backward_run

lemma train_batch_no_optimizer:
  "optimizer (obj s) = None \<Longrightarrow> train_batch E q r a l s = (Inl AttributeError, s)"
  by (simp add: train_batch_def optimizer_zero_grad_run pbind_run_Inl)

text \<open>The state a successful batch step leaves, written out.\<close>

lemma train_batch_run:
  assumes "model (obj s) = Module a" and "optimizer (obj s) = Some g"
    and "rbind (getitem (params (obj s)) TEACHER_FORCING_RATIO) as_number = Inr ratio"
    and "a_lengths \<noteq> []"
    and "tf = (np_random E (rng_seed (env s)) (rng_pos (env s)) < ratio)"
    and "placed (heap (env s) a) = tensor_device E"
    and "ws = weights (heap (update_net (param_ref g) sgd_zero_grad (env s)) a)"
    and "batch_loss (criterion (obj s)) (lm_forward E ws (Some q) None a_seqs tf) a_lengths a_seqs
           = Inr v"
    and "d = autograd E (batch_objective E (criterion (obj s)) (Some q) None a_seqs tf a_lengths
                           a_seqs) ws"
  shows "train_batch E (Some q) r_seqs a_seqs a_lengths s =
           (Inr v,
            s\<lparr>env := update_net (param_ref g) (sgd_step (lr g))
                      (update_net a (accumulate_grad d)
                         (snd (random_draw E (update_net (param_ref g) sgd_zero_grad (env s)))))\<rparr>)"
  using assms
  by (auto simp add: train_batch_def step_runs run_simps update_net_def random_draw_def)

lemma weights_zero_grad [simp]: "weights (sgd_zero_grad n) = weights n"
  by (simp add: sgd_zero_grad_def)

lemma heap_after_batch:
  "heap (update_net a (sgd_step rate)
           (update_net a (accumulate_grad d) (snd (random_draw E (update_net a sgd_zero_grad w))))) a
     = sgd_step rate (accumulate_grad d (sgd_zero_grad (heap w a)))"
  by simp

text \<open>
  C2 (batch step, section 4.1): when the model is a network on the device of the batch's
  tensors, the optimizer was built on that network's parameters, the teacher-forcing ratio
  is a number and the batch is not empty, \<open>train_batch\<close> returns the loss of the forward pass at the weights before the
  step, and moves each weight against the gradient of that loss alone, scaled by the
  learning rate: what an earlier step left in the gradient fields does not enter.
\<close>

theorem train_batch_descends:
  assumes "model (obj s) = Module a" and "optimizer (obj s) = Some g" and "param_ref g = a"
    and "wf_net (heap (env s) a)"
    and "rbind (getitem (params (obj s)) TEACHER_FORCING_RATIO) as_number = Inr ratio"
    and "a_lengths \<noteq> []"
    and "tf = (np_random E (rng_seed (env s)) (rng_pos (env s)) < ratio)"
    and "placed (heap (env s) a) = tensor_device E"
    and "ws = weights (heap (env s) a)"
    and "batch_loss (criterion (obj s)) (lm_forward E ws (Some q) None a_seqs tf) a_lengths a_seqs
           = Inr v"
    and "d = autograd E (batch_objective E (criterion (obj s)) (Some q) None a_seqs tf a_lengths
                           a_seqs) ws"
    and "length d = length ws"
  shows "outcome (train_batch E (Some q) r_seqs a_seqs a_lengths s) = Inr v \<and>
         weights (heap (env (final (train_batch E (Some q) r_seqs a_seqs a_lengths s))) a) =
           map2 (\<lambda>w x. w - lr g * x) ws d"
proof -
  have "train_batch E (Some q) r_seqs a_seqs a_lengths s =
          (Inr v,
           s\<lparr>env := update_net a (sgd_step (lr g))
                     (update_net a (accumulate_grad d)
                        (snd (random_draw E (update_net a sgd_zero_grad (env s)))))\<rparr>)"
    using assms by (simp add: train_batch_run [where ratio = ratio and g = g and a = a])
  then show ?thesis
    using assms by (simp add: heap_after_batch sgd_descent)
qed

lemma demo_collab_simps [simp]:
  "lm_forward demo_collab ws q r a tf = [[ws]]"
  "autograd demo_collab f ws = map (\<lambda>i. f (ws[i := ws ! i + 1]) - f ws) [0..<length ws]"
  "np_random demo_collab seed pos = 1 / 4"
  "BASE_PATH demo_collab = ''models''"
  "USE_CUDA demo_collab = False" "tensor_device demo_collab = Cpu"
  by (simp_all add: demo_collab_def USE_CUDA_def tensor_device_def)

lemma demo_machine_simps [simp]:
  "model (obj demo_machine) = Module 0"
  "optimizer (obj demo_machine) = Some \<lparr>lr = 1 / 2, param_ref = 0\<rparr>"
  "criterion (obj demo_machine) = nll_loss"
  "params (obj demo_machine) = Some demo_params"
  "dataloader (obj demo_machine) = [Answers [[0]] [1]]"
  "loss (obj demo_machine) = []" "perplexity (obj demo_machine) = []"
  "heap (env demo_machine) a = \<lparr>weights = [- 1, - 2], grads = [5, 5], placed = Cpu\<rparr>"
  "rng_seed (env demo_machine) = 1" "rng_pos (env demo_machine) = 0"
  "stdout (env demo_machine) = []" "disk (env demo_machine) = {}"
  by (simp_all add: demo_machine_def demo_trainer_def demo_world_def)

lemma demo_ratio:
  "rbind (getitem (params (obj demo_machine)) TEACHER_FORCING_RATIO) as_number = Inr (1 / 2)"
  by (simp add: demo_params_def)

lemma demo_forward: "batch_loss nll_loss [[[x, y]]] [1] [[0]] = Inr (- x)"
  by (simp add: batch_loss_eval nll_eval)

lemma demo_objective:
  "batch_objective demo_collab nll_loss q r [[0]] tf [1] [[0]] [x, y] = - x"
  by (simp add: batch_objective_def demo_forward)

lemma demo_gradient:
  "[- 1, 0] = autograd demo_collab
                (batch_objective demo_collab (criterion (obj demo_machine)) q r [[0]] tf [1] [[0]])
                [- 1, - 2]"
  by (simp add: demo_objective upt_rec)

lemma demo_loss:
  "batch_loss (criterion (obj demo_machine)) (lm_forward demo_collab [- 1, - 2] q r [[0]] tf)
     [1] [[0]] = Inr 1"
  by (simp add: demo_forward)

lemma demo_wf_net: "wf_net (heap (env demo_machine) a)"
  by (simp add: wf_net_def)

lemma demo_draw:
  "True = (np_random demo_collab (rng_seed (env demo_machine)) (rng_pos (env demo_machine)) < 1 / 2)"
  by simp

lemma demo_placed: "placed (heap (env demo_machine) a) = tensor_device demo_collab"
  by simp

lemma demo_weights: "[- 1, - 2] = weights (heap (env demo_machine) a)"
  by simp

theorem train_batch_descends_witness:
  "outcome (train_batch demo_collab (Some [[0]]) None [[0]] [1] demo_machine) = Inr 1 \<and>
   weights (heap (env (final (train_batch demo_collab (Some [[0]]) None [[0]] [1] demo_machine))) 0)
     = [- 1 / 2, - 2]"
proof -
  have "map2 (\<lambda>w x. w - lr \<lparr>lr = 1 / 2, param_ref = 0\<rparr> * x) [- 1, - 2] [- 1, 0]
          = [- 1 / 2, - 2 :: real]"
    by simp
  with train_batch_descends [of demo_machine 0 "\<lparr>lr = 1 / 2, param_ref = 0\<rparr>" "1 / 2" "[1]"
      True demo_collab "[- 1, - 2]" "[[0]]" "[[0]]" 1 "[- 1, 0]" None,
      OF demo_machine_simps(1) demo_machine_simps(2) _ demo_wf_net demo_ratio _ demo_draw
        demo_placed demo_weights demo_loss demo_gradient]
  show ?thesis by simp
qed

text \<open>A model that is not a network cannot be called: the step raises, whatever else holds.\<close>

lemma call_model_not_Module:
  "\<forall>a. model (obj s) \<noteq> Module a \<Longrightarrow> call_model E q r a teacher_forcing s = (Inl TypeError, s)"
  by (cases "model (obj s)") (simp_all add: call_model_run)

lemma fails_call_model: "\<forall>a. model (obj s) \<noteq> Module a \<Longrightarrow> fails (call_model E q r a tf) s"
  by (simp add: call_model_not_Module fails_iff)

lemma train_batch_needs_module:
  assumes "\<forall>a. model (obj s) \<noteq> Module a"
  shows "fails (train_batch E q_seqs r_seqs a_seqs a_lengths) s"
proof (cases "optimizer (obj s)")
  case None
  then show ?thesis by (simp add: train_batch_no_optimizer fails_iff)
next
  case (Some g)
  note evals = train_batch_def fails_def step_runs run_simps
  show ?thesis
  proof (cases "select_inputs (model (obj s)) q_seqs r_seqs")
    case (Inl e)
    with Some show ?thesis by (simp add: evals)
  next
    case (Inr qr)
    obtain q r where qr: "qr = (q, r)" by (cases qr)
    show ?thesis
    proof (cases "rbind (getitem (params (obj s)) TEACHER_FORCING_RATIO) as_number")
      case (Inl e)
      with Some Inr qr show ?thesis by (simp add: evals)
    next
      case ratio: (Inr ratio)
      with Some Inr qr assms show ?thesis
        by (cases "model (obj s)") (simp_all add: evals)
    qed
  qed
qed

section \<open>Failure and final state through the accessors\<close>

lemma fails_self_simps:
  "fails (pbind (the_self h) f) s \<longleftrightarrow> fails (f (h (obj s))) s"
  "fails (pbind (on_env u) k) s \<longleftrightarrow> fails (k ()) (s\<lparr>env := u (env s)\<rparr>)"
  "fails (pbind (set_self v) k) s \<longleftrightarrow> fails (k ()) (s\<lparr>obj := v (obj s)\<rparr>)"
  "fails (pbind (self_param key) c) s \<longleftrightarrow>
     (case getitem (params (obj s)) key of Inl _ \<Rightarrow> True | Inr x \<Rightarrow> fails (c x) s)"
  by (simp_all add: the_self_def on_env_def set_self_def self_param_def fails_bind_simps)

lemma final_self_simps:
  "final (pbind (the_self h) f s) = final (f (h (obj s)) s)"
  "final (pbind (on_env u) k s) = final (k () (s\<lparr>env := u (env s)\<rparr>))"
  "final (pbind (set_self v) k s) = final (k () (s\<lparr>obj := v (obj s)\<rparr>))"
  "final (pbind (self_param key) c s) =
     (case getitem (params (obj s)) key of Inl _ \<Rightarrow> s | Inr x \<Rightarrow> final (c x s))"
  by (simp_all add: the_self_def on_env_def set_self_def self_param_def final_bind_simps)

lemmas fails_simps = fails_bind_simps fails_self_simps

lemmas final_simps = final_bind_simps final_self_simps

section \<open>The optimizer on every branch\<close>

lemma set_optimizer_run:
  "set_optimizer d s =
     (case model (obj s) of
        Module a \<Rightarrow>
          (case rbind (getitem (params (obj s)) LR) (\<lambda>base. scaled_rate base d) of
             Inl e \<Rightarrow> (Inl e, s)
           | Inr rate \<Rightarrow> (Inr (), s\<lparr>obj := (obj s)\<lparr>optimizer := Some \<lparr>lr = rate, param_ref = a\<rparr>\<rparr>\<rparr>))
      | _ \<Rightarrow> (Inl AttributeError, s))"
  by (cases "model (obj s)") (simp_all add: set_optimizer_module set_optimizer_no_module)

section \<open>The training state\<close>

lemma untouched_refl [simp]: "untouched s s"
  by (simp add: untouched_def)

lemma untouched_trans: "untouched s t \<Longrightarrow> untouched t u \<Longrightarrow> untouched s u"
  by (simp add: untouched_def)

lemma untouched_set_optimizer: "untouched s (final (set_optimizer d s))"
  by (simp add: untouched_def set_optimizer_frame)

lemma untouched_print: "untouched s (s\<lparr>env := print_line ev (env s)\<rparr>)"
  by (simp add: untouched_def)

section \<open>The learning rate\<close>

text \<open>
  C4 (learning-rate decay, sections 4.2 and 8): on a network, \<open>_set_optimizer\<close> builds an
  optimizer on the parameters of the model whose rate is the configured rate times the
  decay factor. The rate of the optimizer that is replaced does not enter: setting the
  optimizer twice with the same factor gives the same state as setting it once.
\<close>

theorem set_optimizer_from_configured_rate:
  assumes "model (obj s) = Module a" and "getitem (params (obj s)) LR = Inr base"
    and "as_number base = Inr b" and "as_number decay = Inr d"
  shows "set_optimizer decay s =
           (Inr (), s\<lparr>obj := (obj s)\<lparr>optimizer := Some \<lparr>lr = b * d, param_ref = a\<rparr>\<rparr>\<rparr>) \<and>
         set_optimizer decay (final (set_optimizer decay s)) = set_optimizer decay s"
  using assms by (simp add: set_optimizer_run scaled_rate_def)

theorem set_optimizer_from_configured_rate_witness:
  "set_optimizer (PFloat (1 / 2)) demo_machine =
     (Inr (), demo_machine\<lparr>obj := demo_trainer\<lparr>optimizer := Some \<lparr>lr = 1 / 4, param_ref = 0\<rparr>\<rparr>\<rparr>)"
  using set_optimizer_from_configured_rate [of demo_machine 0 "PFloat (1 / 2)" "1 / 2"
      "PFloat (1 / 2)" "1 / 2"]
  by (simp add: demo_params_def) (simp add: demo_machine_def)

section \<open>The inputs of the model\<close>

text \<open>
  When \<open>train_batch\<close> selects the inputs of the model,
  the questions are absent exactly for the variant LM_ANSWERS and are the given ones
  otherwise; the reviews are the given ones exactly for LM_QUESTION_ANSWERS_REVIEWS and
  absent otherwise.
\<close>

lemma select_inputs_dispatch:
  assumes "select_inputs m q_seqs r_seqs = Inr (q, r)"
  shows "q = (if m = Name LM_ANSWERS then None else q_seqs) \<and>
         r = (if m = Name LM_QUESTION_ANSWERS_REVIEWS then r_seqs else None)"
  using assms
  by (cases q_seqs; cases r_seqs) (auto simp: select_inputs_def split: if_splits)

lemma select_inputs_dispatch_witness:
  "select_inputs (Name LM_ANSWERS) (Some [[1]]) (Some [[[2]]]) = Inr (None, None) \<and>
   select_inputs (Name LM_QUESTION_ANSWERS_REVIEWS) (Some [[1]]) (Some [[[2]]])
     = Inr (Some [[1]], Some [[[2]]])"
  using select_inputs_dispatch [of "Name LM_ANSWERS" "Some [[1]]" "Some [[[2]]]" None None]
    select_inputs_dispatch [of "Name LM_QUESTION_ANSWERS_REVIEWS" "Some [[1]]" "Some [[[2]]]"
      "Some [[1]]" "Some [[[2]]]"]
  by simp

section \<open>The histories\<close>

lemma history_ok_untouched: "untouched s s' \<Longrightarrow> history_ok (obj s) \<Longrightarrow> history_ok (obj s')"
  by (simp add: untouched_def history_ok_def)

section \<open>Side effects of the batch step\<close>

text \<open>
  C34 (batch step, section 4.1, side effects): a batch step that returns has consumed exactly
  one draw of the generator, has changed no attribute of the trainer and no network other
  than the one the optimizer refers to, and has printed and written nothing.
\<close>

theorem train_batch_effects:
  assumes "outcome (train_batch E q_seqs r_seqs a_seqs a_lengths s) = Inr v"
    and "s' = final (train_batch E q_seqs r_seqs a_seqs a_lengths s)"
  shows "obj s' = obj s \<and> rng_pos (env s') = Suc (rng_pos (env s)) \<and>
         rng_seed (env s') = rng_seed (env s) \<and> stdout (env s') = stdout (env s) \<and>
         disk (env s') = disk (env s) \<and>
         (\<exists>g a. optimizer (obj s) = Some g \<and> model (obj s) = Module a \<and>
            (\<forall>b. b \<noteq> a \<and> b \<noteq> param_ref g \<longrightarrow> heap (env s') b = heap (env s) b))"
proof -
  from assms(1) have ok: "\<not> fails (train_batch E q_seqs r_seqs a_seqs a_lengths) s"
    by (simp add: fails_def)
  then obtain g where g: "optimizer (obj s) = Some g"
    by (cases "optimizer (obj s)") (auto simp: train_batch_no_optimizer fails_iff)
  from ok obtain a where a: "model (obj s) = Module a"
    using train_batch_needs_module [of s E q_seqs r_seqs a_seqs a_lengths] by auto
  from assms(1) a obtain q where q: "q_seqs = Some q"
    by (cases q_seqs) (auto simp: train_batch_def g step_runs run_simps)
  from assms(1) a g q obtain ratio
    where ratio: "rbind (getitem (params (obj s)) TEACHER_FORCING_RATIO) as_number = Inr ratio"
    by (cases "rbind (getitem (params (obj s)) TEACHER_FORCING_RATIO) as_number")
       (auto simp: train_batch_def step_runs run_simps)
  let ?tf = "np_random E (rng_seed (env s)) (rng_pos (env s)) < ratio"
  let ?ws = "weights (heap (update_net (param_ref g) sgd_zero_grad (env s)) a)"
  from assms(1) a g q ratio
  have loss: "batch_loss (criterion (obj s)) (lm_forward E ?ws (Some q) None a_seqs ?tf) a_lengths
                a_seqs = Inr v" and lens: "a_lengths \<noteq> []"
    and dev: "placed (heap (env s) a) = tensor_device E"
    by (auto simp: train_batch_def step_runs run_simps update_net_def random_draw_def
             split: sum.splits if_splits)
  show ?thesis
    using assms(2) g a
    by (simp add: q train_batch_run [OF a g ratio lens refl dev refl loss refl])
qed

theorem train_batch_effects_witness:
  "obj (final (train_batch demo_collab (Some [[0]]) None [[0]] [1] demo_machine)) = obj demo_machine \<and>
   rng_pos (env (final (train_batch demo_collab (Some [[0]]) None [[0]] [1] demo_machine))) = 1 \<and>
   heap (env (final (train_batch demo_collab (Some [[0]]) None [[0]] [1] demo_machine))) 7
     = \<lparr>weights = [- 1, - 2], grads = [5, 5], placed = Cpu\<rparr>"
proof -
  have "outcome (train_batch demo_collab (Some [[0]]) None [[0]] [1] demo_machine) = Inr 1"
    using train_batch_run [of demo_machine 0 "\<lparr>lr = 1 / 2, param_ref = 0\<rparr>" "1 / 2" "[1]" True
        demo_collab "[- 1, - 2]" "[[0]]" "[[0]]" 1 _ None,
        OF demo_machine_simps(1) demo_machine_simps(2) demo_ratio _ demo_draw demo_placed _ _ refl]
    by (simp add: demo_forward [of "- 1" "- 2", simplified])
  from train_batch_effects [OF this refl] show ?thesis
    by auto
qed

section \<open>Construction\<close>

text \<open>
  C35 (construction, section 9): when \<open>__init__\<close> returns, the model it has just built,
  the optimizer and the hyperparameters are all \<open>None\<close>; the histories are empty, the
  generator is seeded, and the development loader it was given is not kept anywhere: the
  result is the same for every \<open>dev_loader\<close>.
\<close>

theorem init_discards_model:
  assumes "init E loader ps seed n_save n_print dev voc w = (Inr t, w')"
  shows "model t = PyNone \<and> optimizer t = None \<and> params t = None \<and>
         loss t = [] \<and> perplexity t = [] \<and> dataloader t = loader \<and>
         uint (rng_seed w') = seed \<and> rng_pos w' = 0 \<and>
         init E loader ps seed n_save n_print dev' voc w = (Inr t, w')"
proof -
  have "init E loader ps seed n_save n_print dev' voc w =
        init E loader ps seed n_save n_print dev voc w"
    by (simp add: init_def)
  with assms init_run [OF assms] init_seeds [OF assms init_seed_ok [OF assms]] show ?thesis
    by simp
qed

lemma demo_init:
  "outcome (init demo_collab [] demo_params 1 1 100 None None demo_world) =
     Inr \<lparr>save_model_every = 1, print_every = 100, params = None, dataloader = [],
          vocab = None, model = PyNone, loss = [], perplexity = [], criterion = nll_loss,
          optimizer = None, vocabs = None\<rparr>"
  by (simp add: init_def demo_params_def Let_def alloc_net_def set_random_seeds_def seed_ok_def
      split: prod.splits)

theorem init_discards_model_witness:
  "model (projr (outcome (init demo_collab [] demo_params 1 1 100 None None demo_world))) = PyNone \<and>
   params (projr (outcome (init demo_collab [] demo_params 1 1 100 None None demo_world))) = None \<and>
   rng_pos (final (init demo_collab [] demo_params 1 1 100 None None demo_world)) = 0"
  using init_discards_model [of demo_collab "[]" demo_params 1 1 100 None None demo_world
      "projr (outcome (init demo_collab [] demo_params 1 1 100 None None demo_world))"
      "final (init demo_collab [] demo_params 1 1 100 None None demo_world)"]
    demo_init
  by (simp add: prod_eq_iff)

lemma init_key_errors:
  "(\<exists>t. outcome (init E loader ps seed n_save n_print dev voc w) = Inr t) \<longleftrightarrow>
     seed_ok seed \<and>
     list_all (\<lambda>k. ps k \<noteq> None) [VOCAB_SIZE, HDIM, OUTPUT_MAX_LEN, H_LAYERS, DROPOUT]"
  by (auto simp: init_def Let_def rbind_def set_random_seeds_def
           split: option.splits sum.splits prod.splits)

lemma init_error:
  "outcome (init E loader ps seed n_save n_print dev voc w) = Inl e \<Longrightarrow>
   e = (if seed_ok seed then KeyError else ValueError)"
  by (auto simp: init_def Let_def rbind_def set_random_seeds_def
           split: option.splits sum.splits prod.splits if_splits)

text \<open>
  Construction: \<open>__init__\<close> raises exactly when the seed is out of range, with
  ValueError, or one of the five hyperparameters of the network is missing, with KeyError;
  the generator is seeded before the hyperparameters are read.
\<close>

lemma init_succeeds_iff:
  "succeeds (outcome (init E loader ps seed n_save n_print dev voc w)) \<longleftrightarrow>
     seed_ok seed \<and>
     list_all (\<lambda>k. ps k \<noteq> None) [VOCAB_SIZE, HDIM, OUTPUT_MAX_LEN, H_LAYERS, DROPOUT]"
  using init_key_errors [of E loader ps seed n_save n_print dev voc w]
  by (simp add: succeeds_iff)

text \<open>
  C20 (random seeds, sections 3 and 5): \<open>__init__\<close> seeds the generator first. A seed
  from \<open>0\<close> to \<open>2 ^ 32 - 1\<close> is kept exactly, as a word of 32 bits, and the stream of
  draws starts again at its beginning; any other seed raises ValueError before anything
  else is done, and the world is as it was.
\<close>

theorem init_seed_range:
  assumes "init E loader ps seed n_save n_print dev voc w = (r, w')"
  shows "if 0 \<le> seed \<and> seed < 2 ^ 32 then uint (rng_seed w') = seed \<and> rng_pos w' = 0
         else r = Inl ValueError \<and> w' = w"
proof (cases "seed_ok seed")
  case True
  with init_seeds [OF assms] show ?thesis
    by (simp add: seed_ok_def)
next
  case False
  with assms init_bad_seed [of seed E loader ps n_save n_print dev voc w] show ?thesis
    by (auto simp: seed_ok_def)
qed

theorem init_seed_range_witness:
  "uint (rng_seed (final (init demo_collab [] demo_params 4294967295 1 100 None None demo_world)))
     = 4294967295 \<and>
   outcome (init demo_collab [] demo_params 4294967296 1 100 None None demo_world) = Inl ValueError"
  using init_seed_range [of demo_collab "[]" demo_params 4294967295 1 100 None None demo_world
      "outcome (init demo_collab [] demo_params 4294967295 1 100 None None demo_world)"
      "final (init demo_collab [] demo_params 4294967295 1 100 None None demo_world)"]
    init_seed_range [of demo_collab "[]" demo_params 4294967296 1 100 None None demo_world
      "outcome (init demo_collab [] demo_params 4294967296 1 100 None None demo_world)"
      "final (init demo_collab [] demo_params 4294967296 1 100 None None demo_world)"]
  by simp

section \<open>Teacher forcing\<close>

lemma unit_draws_demo: "unit_draws demo_collab"
  by (simp add: unit_draws_def)

lemma demo_always_forcing:
  "rbind (getitem (params (obj (demo_machine\<lparr>obj := (obj demo_machine)
       \<lparr>params := Some (demo_params(TEACHER_FORCING_RATIO \<mapsto> PInt 1))\<rparr>\<rparr>))) TEACHER_FORCING_RATIO)
     as_number = Inr 1"
  by simp

text \<open>
  C39 (teacher forcing, section 4.1): the decision is \<open>np.random.random() < ratio\<close> with
  a draw from the half-open unit interval. With a ratio of 1 or more every batch is
  teacher-forced, with a ratio of 0 or less none is, and in between the draw decides; the
  draw is made in each case.
\<close>

theorem teacher_forcing_bounds:
  assumes "unit_draws E"
    and "rbind (getitem (params (obj s)) TEACHER_FORCING_RATIO) as_number = Inr ratio"
  shows "outcome (draw_teacher_forcing E s) =
           Inr (if 1 \<le> ratio then True else if ratio \<le> 0 then False
                else np_random E (rng_seed (env s)) (rng_pos (env s)) < ratio) \<and>
         rng_pos (env (final (draw_teacher_forcing E s))) = Suc (rng_pos (env s))"
proof -
  from assms(1) have "0 \<le> np_random E (rng_seed (env s)) (rng_pos (env s))"
    "np_random E (rng_seed (env s)) (rng_pos (env s)) < 1"
    by (simp_all add: unit_draws_def)
  with assms(2) show ?thesis
    by (auto simp: draw_teacher_forcing_run)
qed

theorem teacher_forcing_bounds_witness:
  "outcome (draw_teacher_forcing demo_collab
      (demo_machine\<lparr>obj := (obj demo_machine)
         \<lparr>params := Some (demo_params(TEACHER_FORCING_RATIO \<mapsto> PInt 1))\<rparr>\<rparr>)) = Inr True"
  using teacher_forcing_bounds [OF unit_draws_demo demo_always_forcing] by simp

section \<open>The device\<close>

text \<open>The network \<open>__init__\<close> builds is at a fresh address, has one gradient per weight
  and is on the device the tensors of \<open>_var\<close> will be on; no other network is touched.\<close>

lemma init_network:
  assumes "init E loader ps seed n_save n_print dev voc w = (Inr t, w')"
  shows "placed (heap w' (next_addr w)) = tensor_device E"
    and "wf_net (heap w' (next_addr w))" and "next_addr w' = Suc (next_addr w)"
    and "a \<noteq> next_addr w \<Longrightarrow> heap w' a = heap w a"
  using assms
  by (auto simp: init_def Let_def world_defs wf_net_def tensor_device_def
           split: sum.splits prod.splits if_splits)

lemma call_model_wrong_device:
  "model (obj s) = Module a \<Longrightarrow> placed (heap (env s) a) \<noteq> tensor_device E \<Longrightarrow>
   call_model E q r x tf s = (Inl RuntimeError, s)"
  by (simp add: call_model_run)

lemma cuda_collab_simps [simp]:
  "tensor_device cuda_collab = Cuda" "np_random cuda_collab seed pos = 1 / 4"
  by (simp_all add: cuda_collab_def demo_collab_def tensor_device_def USE_CUDA_def)

text \<open>
  C16 (device, sections 5 and 7): the trainer moves to the GPU only the network it builds
  and discards in \<open>__init__\<close>. On a model that is on another device than the tensors of
  the batch, \<open>train_batch\<close> raises in the forward pass, after the gradients were zeroed
  and the teacher-forcing draw was made: the weights are as before, the position of the
  generator is not.
\<close>

theorem train_batch_wrong_device:
  assumes "model (obj s) = Module a" and "optimizer (obj s) = Some g"
    and "rbind (getitem (params (obj s)) TEACHER_FORCING_RATIO) as_number = Inr ratio"
    and "placed (heap (env s) a) \<noteq> tensor_device E"
  shows "outcome (train_batch E (Some q) r_seqs a_seqs a_lengths s) = Inl RuntimeError \<and>
         final (train_batch E (Some q) r_seqs a_seqs a_lengths s) =
           s\<lparr>env := snd (random_draw E (update_net (param_ref g) sgd_zero_grad (env s)))\<rparr>"
  using assms
  by (auto simp add: train_batch_def step_runs run_simps update_net_def random_draw_def)

theorem train_batch_wrong_device_witness:
  "outcome (train_batch cuda_collab (Some [[0]]) None [[0]] [1] demo_machine) = Inl RuntimeError \<and>
   weights (heap (env (final (train_batch cuda_collab (Some [[0]]) None [[0]] [1] demo_machine))) 0)
     = [- 1, - 2] \<and>
   rng_pos (env (final (train_batch cuda_collab (Some [[0]]) None [[0]] [1] demo_machine))) = 1"
  using train_batch_wrong_device [of demo_machine 0 "\<lparr>lr = 1 / 2, param_ref = 0\<rparr>" "1 / 2"
      cuda_collab "[[0]]" None "[[0]]" "[1]", OF demo_machine_simps(1) demo_machine_simps(2)
      demo_ratio]
  by simp

end
