(* ===== verification/Epochs.thy ===== *)
theory Epochs
  imports Artifacts
begin

text \<open>
  The epoch loop: the method \<open>train\<close> (\<open>trainer.py\<close>, lines 89-117).

  \<^item> The local variables of \<open>train\<close> that live across iterations are the record
    \<open>frame\<close>; \<open>None\<close> is "not assigned yet", read with \<open>local_var\<close>.
  \<^item> \<open>unpack_inputs\<close> is the \<open>if/elif\<close> chain on the model variant; unpacking a batch
    of another shape than the branch expects is a ValueError.
  \<^item> \<open>train\<close> is composed from \<open>train_epoch\<close> (the body of the loop over the epochs),
    \<open>train_iteration\<close> (the body of the loop over the batches), \<open>record_loss\<close>,
    \<open>log_batch\<close>, \<open>save_every\<close> and \<open>decay_at\<close>, with \<open>pfold\<close> for the two loops.
  \<^item> The lemmas give the result and the state of each of them on every branch, and show
    what \<open>train\<close> does as a whole: which value of \<open>self.model\<close> gets through the
    dispatch, where the first batch raises, when \<open>train\<close> returns, that it leaves the
    training state untouched, and what the decay leaves of the optimizer.
\<close>

section \<open>Local variables\<close>

record frame =
  quesion_seqs :: "seqs option option"
  review_seqs :: "seqs list option option"
  answer_seqs :: "seqs option"
  answer_lengths :: "int list option"


definition local_var :: "'a option \<Rightarrow> 'a result" where
  "local_var x = (case x of None \<Rightarrow> Inl UnboundLocalError | Some v \<Rightarrow> Inr v)"

definition empty_frame :: frame where
  "empty_frame = \<lparr>quesion_seqs = None, review_seqs = None, answer_seqs = None,
                   answer_lengths = None\<rparr>"

section \<open>The epoch loop\<close>

definition unpack_inputs :: "model_val \<Rightarrow> batch \<Rightarrow> 'a frame_scheme \<Rightarrow> 'a frame_scheme result" where
  "unpack_inputs m inputs f =
     (if m = Name LM_ANSWERS then
        (case inputs of
           Answers a l \<Rightarrow> Inr (f\<lparr>answer_seqs := Some a, answer_lengths := Some l\<rparr>)
         | _ \<Rightarrow> Inl ValueError)
      else if m = Name LM_QUESTION_ANSWERS then
        (case inputs of
           QuestionAnswers a l q \<Rightarrow>
             Inr (f\<lparr>answer_seqs := Some a, answer_lengths := Some l, quesion_seqs := Some (Some q)\<rparr>)
         | _ \<Rightarrow> Inl ValueError)
      else if m = Name LM_QUESTION_ANSWERS then
        (case inputs of
           QuestionAnswersReviews a l q r \<Rightarrow>
             Inr (f\<lparr>answer_seqs := Some a, answer_lengths := Some l, quesion_seqs := Some (Some q),
                    review_seqs := Some (Some r)\<rparr>)
         | _ \<Rightarrow> Inl ValueError)
      else Inl TypeError)"

definition record_loss :: "real \<Rightarrow> (machine, unit) prog" where
  "record_loss v =
     pbind (set_self (\<lambda>t. t\<lparr>loss := loss t @ [v]\<rparr>)) (\<lambda>_.
     set_self (\<lambda>t. t\<lparr>perplexity := perplexity t @ [perplexity_from_loss v]\<rparr>))"

definition log_batch :: "nat \<Rightarrow> (machine, unit) prog" where
  "log_batch batch_itr =
     pbind (the_self print_every) (\<lambda>n.
       if n = 0 then praise ZeroDivisionError
       else if int batch_itr mod n = 0 then
         pbind (pread (\<lambda>s. py_last (loss (obj s)))) (\<lambda>l.
         pbind (on_env (print_line (LossLine batch_itr l))) (\<lambda>_.
         pbind (pread (\<lambda>s. py_last (perplexity (obj s)))) (\<lambda>p.
         on_env (print_line (PerplexityLine batch_itr p)))))
       else pret ())"

definition train_iteration :: "collab \<Rightarrow> nat \<times> batch \<Rightarrow> frame \<Rightarrow> (machine, frame) prog" where
  "train_iteration E = (\<lambda>(batch_itr, inputs) f.
     pbind (pread (\<lambda>s. unpack_inputs (model (obj s)) inputs f)) (\<lambda>f'.
     pbind (plift (local_var (quesion_seqs f'))) (\<lambda>q.
     pbind (plift (local_var (review_seqs f'))) (\<lambda>r.
     pbind (plift (local_var (answer_seqs f'))) (\<lambda>a.
     pbind (plift (local_var (answer_lengths f'))) (\<lambda>l.
     pbind (train_batch E q r a l) (\<lambda>loss_v.
     pbind (record_loss loss_v) (\<lambda>_.
     pbind (log_batch batch_itr) (\<lambda>_.
     pret f')))))))))"

definition save_every :: "collab \<Rightarrow> nat \<Rightarrow> (machine, unit) prog" where
  "save_every E epoch =
     pbind (the_self save_model_every) (\<lambda>n.
       if n = 0 then praise ZeroDivisionError
       else if int epoch mod n = 0 then save_model E
       else pret ())"

definition decay_at :: "nat \<Rightarrow> (machine, unit) prog" where
  "decay_at epoch =
     pbind (self_param DECAY_START_EPOCH) (\<lambda>start.
       if eq_int (int epoch) start then
         pbind (self_param LR_DECAY) (\<lambda>decay.
         pbind (set_optimizer decay) (\<lambda>_.
         set_self (\<lambda>t. t\<lparr>optimizer := None\<rparr>)))
       else pret ())"

definition train_epoch :: "collab \<Rightarrow> nat \<Rightarrow> frame \<Rightarrow> (machine, frame) prog" where
  "train_epoch E epoch f =
     pbind (on_env (print_line (EpochLine epoch))) (\<lambda>_.
     pbind (the_self dataloader) (\<lambda>batches.
     pbind (pfold (train_iteration E) (enumerate_from0 batches) f) (\<lambda>f'.
     pbind (save_every E epoch) (\<lambda>_.
     pbind (decay_at epoch) (\<lambda>_.
     pret f')))))"

definition train :: "collab \<Rightarrow> (machine, unit) prog" where
  "train E =
     pbind (set_optimizer (PFloat 1)) (\<lambda>_.
     pbind (self_param EPOCHS) (\<lambda>v.
     pbind (plift (as_index v)) (\<lambda>n.
     pbind (pfold (train_epoch E) (py_range n) empty_frame) (\<lambda>_.
     pret ()))))"

section \<open>Local variables\<close>

lemma local_var_simps [simp]: "local_var None = Inl UnboundLocalError" "local_var (Some x) = Inr x"
  by (simp_all add: local_var_def)

lemma empty_frame_simps [simp]:
  "quesion_seqs empty_frame = None" "review_seqs empty_frame = None"
  "answer_seqs empty_frame = None" "answer_lengths empty_frame = None"
  by (simp_all add: empty_frame_def)

section \<open>The dispatch on the model variant\<close>

lemma unpack_inputs_not_Name [simp]:
  "unpack_inputs PyNone b f = Inl TypeError"
  "unpack_inputs (Module a) b f = Inl TypeError"
  "unpack_inputs (Name LM_QUESTION_ANSWERS_REVIEWS) b f = Inl TypeError"
  by (simp_all add: unpack_inputs_def)

lemma unpack_inputs_eq_Inr_iff [result_iffs]:
  "unpack_inputs m b f = Inr f' \<longleftrightarrow>
     (\<exists>a l. m = Name LM_ANSWERS \<and> b = Answers a l \<and>
            f' = f\<lparr>answer_seqs := Some a, answer_lengths := Some l\<rparr>) \<or>
     (\<exists>a l q. m = Name LM_QUESTION_ANSWERS \<and> b = QuestionAnswers a l q \<and>
            f' = f\<lparr>answer_seqs := Some a, answer_lengths := Some l, quesion_seqs := Some (Some q)\<rparr>)"
  by (auto simp: unpack_inputs_def split: batch.splits)

lemma unpack_inputs_error: "unpack_inputs m b f = Inl e \<Longrightarrow> e = TypeError \<or> e = ValueError"
  by (auto simp: unpack_inputs_def split: batch.splits if_splits)

lemma unpack_inputs_Name: "unpack_inputs m b f = Inr f' \<Longrightarrow> \<exists>v. m = Name v"
  by (auto simp: result_iffs)

lemma unpack_inputs_reviews: "unpack_inputs m b f = Inr f' \<Longrightarrow> review_seqs f' = review_seqs f"
  by (auto simp: result_iffs)

section \<open>One iteration of the training loop\<close>

text \<open>No iteration completes: the dispatch passes only for a variant name, the call of the
  model only for a network.\<close>

lemma train_iteration_fails: "fails (train_iteration E ib f) s"
proof (cases ib)
  case (Pair i b)
  show ?thesis
  proof (cases "unpack_inputs (model (obj s)) b f")
    case (Inl e)
    with Pair show ?thesis by (simp add: train_iteration_def fails_simps)
  next
    case (Inr f')
    then have "\<forall>a. model (obj s) \<noteq> Module a"
      by (auto dest: unpack_inputs_Name)
    then have "fails (pbind (train_batch E q r a l) k) s" for q r a l and k :: "real \<Rightarrow> (machine, frame) prog"
      by (intro fails_pbindI1 train_batch_needs_module)
    with Pair Inr show ?thesis
      by (simp add: train_iteration_def fails_simps split: sum.splits)
  qed
qed

lemma train_iteration_run:
  assumes "review_seqs f = None"
  shows "train_iteration E (i, b) f s =
           (Inl (case unpack_inputs (model (obj s)) b f of
                   Inl e \<Rightarrow> e | Inr f' \<Rightarrow> UnboundLocalError), s)"
proof (cases "unpack_inputs (model (obj s)) b f")
  case (Inl e)
  then show ?thesis by (simp add: train_iteration_def run_simps)
next
  case (Inr f')
  with assms have "review_seqs f' = None"
    by (simp add: unpack_inputs_reviews)
  with Inr show ?thesis
    by (cases "quesion_seqs f'") (simp_all add: train_iteration_def run_simps)
qed

lemma hd_enumerate_from0: "xs \<noteq> [] \<Longrightarrow> hd (enumerate_from0 xs) = (0, hd xs)"
  by (cases xs) (simp_all add: enumerate_from0_def upt_rec)

lemma enumerate_from0_eq_Nil_iff [simp]: "enumerate_from0 xs = [] \<longleftrightarrow> xs = []"
  by (cases xs) (simp_all add: enumerate_from0_def upt_rec)

lemma train_loop_run:
  assumes "review_seqs f = None"
  shows "pfold (train_iteration E) (enumerate_from0 bs) f s =
           (if bs = [] then Inr f
            else Inl (case unpack_inputs (model (obj s)) (hd bs) f of
                        Inl e \<Rightarrow> e | Inr f' \<Rightarrow> UnboundLocalError), s)"
proof -
  have "fails (train_iteration E x f) s \<and> final (train_iteration E x f s) = s" for x
    using train_iteration_run [OF assms, of E "fst x" "snd x" s] by (simp add: fails_iff)
  then have "pfold (train_iteration E) (enumerate_from0 bs) f s =
               (if enumerate_from0 bs = [] then Inr f
                else outcome (train_iteration E (hd (enumerate_from0 bs)) f s), s)"
    by (intro pfold_all_raise) simp
  then show ?thesis
    using train_iteration_run [OF assms, of E 0 "hd bs" s] by (simp add: hd_enumerate_from0)
qed

section \<open>Checkpoints at the end of an epoch\<close>

lemma save_every_run:
  "save_every E epoch s =
     (if save_model_every (obj s) = 0 then (Inl ZeroDivisionError, s)
      else if int epoch mod save_model_every (obj s) = 0 then save_model E s
      else (Inr (), s))"
  by (simp add: save_every_def run_simps)

lemma fails_save_every_zero: "fails (save_every E 0) s"
  using fails_save_model [of E s] by (simp add: save_every_run fails_def)

section \<open>Learning-rate decay\<close>

lemma decay_at_run:
  "decay_at epoch s =
     (case getitem (params (obj s)) DECAY_START_EPOCH of
        Inl e \<Rightarrow> (Inl e, s)
      | Inr start \<Rightarrow>
          if eq_int (int epoch) start then
            (case getitem (params (obj s)) LR_DECAY of
               Inl e \<Rightarrow> (Inl e, s)
             | Inr decay \<Rightarrow>
                 (case set_optimizer decay s of
                    (Inl e, s') \<Rightarrow> (Inl e, s')
                  | (Inr u, s') \<Rightarrow> (Inr (), s'\<lparr>obj := (obj s')\<lparr>optimizer := None\<rparr>\<rparr>)))
          else (Inr (), s))"
  by (simp add: decay_at_def run_simps split: sum.splits prod.splits)

section \<open>The epoch loop\<close>

lemma untouched_save_every: "untouched s (final (save_every E epoch s))"
  by (simp add: untouched_def save_every_run save_model_run split: sum.splits)

lemma untouched_decay_at: "untouched s (final (decay_at epoch s))"
  by (simp add: untouched_def decay_at_run set_optimizer_run split: sum.splits model_val.splits)

lemma train_epoch_run:
  assumes "review_seqs f = None"
  shows "train_epoch E epoch f s =
           (if dataloader (obj s) = [] then
              pbind (save_every E epoch) (\<lambda>_. pbind (decay_at epoch) (\<lambda>_. pret f))
                (s\<lparr>env := print_line (EpochLine epoch) (env s)\<rparr>)
            else
              (Inl (case unpack_inputs (model (obj s)) (hd (dataloader (obj s))) f of
                      Inl e \<Rightarrow> e | Inr f' \<Rightarrow> UnboundLocalError),
               s\<lparr>env := print_line (EpochLine epoch) (env s)\<rparr>))"
  by (simp add: train_epoch_def run_simps train_loop_run [OF assms])

lemma train_epoch_untouched:
  assumes "review_seqs f = None"
  shows "untouched s (final (train_epoch E epoch f s)) \<and>
         (\<forall>f'. outcome (train_epoch E epoch f s) = Inr f' \<longrightarrow> review_seqs f' = None)"
proof (cases "dataloader (obj s) = []")
  case False
  with assms show ?thesis
    by (simp add: train_epoch_run untouched_print)
next
  case True
  let ?s1 = "s\<lparr>env := print_line (EpochLine epoch) (env s)\<rparr>"
  let ?rest = "pbind (save_every E epoch) (\<lambda>_. pbind (decay_at epoch) (\<lambda>_. pret f))"
  have run: "train_epoch E epoch f s = ?rest ?s1"
    using True assms by (simp add: train_epoch_run)
  have "untouched ?s1 (final (?rest ?s1))"
  proof (rule pbind_final_inv)
    show "untouched ?s1 (final (save_every E epoch ?s1))"
      by (rule untouched_save_every)
  next
    fix x s'
    assume "save_every E epoch ?s1 = (Inr x, s')"
    with untouched_save_every [of ?s1 E epoch] have "untouched ?s1 s'" by simp
    moreover have "untouched s' (final (pbind (decay_at epoch) (\<lambda>_. pret f) s'))"
      by (simp add: untouched_decay_at)
    ultimately show "untouched ?s1 (final (pbind (decay_at epoch) (\<lambda>_. pret f) s'))"
      by (rule untouched_trans)
  qed
  with untouched_print [of s] have "untouched s (final (?rest ?s1))"
    by (rule untouched_trans)
  moreover have "f' = f" if "outcome (?rest ?s1) = Inr f'" for f'
    using that by (auto dest!: pbind_outcome_Inr simp: pret_def)
  ultimately show ?thesis
    using assms run by auto
qed

lemma fails_train_epoch_zero: "fails (train_epoch E 0 f) s"
  by (simp add: train_epoch_def fails_simps)
     (rule fails_pbindI2, rule fails_pbindI1, rule fails_save_every_zero)

lemma epochs_untouched:
  assumes "review_seqs f = None"
  shows "untouched s (final (pfold (train_epoch E) epochs f s))"
proof -
  have "untouched s (final (pfold (train_epoch E) epochs f s)) \<and>
        (\<forall>f'. outcome (pfold (train_epoch E) epochs f s) = Inr f' \<longrightarrow> review_seqs f' = None)"
  proof (rule pfold_rule [where Q = "\<lambda>f :: frame. review_seqs f = None" and P = "untouched s"])
    fix x and l :: frame and t
    assume "review_seqs l = None" "untouched s t"
    with train_epoch_untouched [of l t E x]
    show "untouched s (final (train_epoch E x l t)) \<and>
          (\<forall>l'. outcome (train_epoch E x l t) = Inr l' \<longrightarrow> review_seqs l' = None)"
      by (auto intro: untouched_trans)
  qed (use assms in simp_all)
  then show ?thesis ..
qed

text \<open>
  C24 (epoch loop, section 4.2): whatever the state \<open>train\<close> starts from and however it is
  left, no network weight or gradient has changed, no random number was drawn and no loss
  or perplexity was recorded: \<open>train\<close> only sets the optimizer, prints epoch lines and
  creates checkpoint directories.
\<close>

theorem train_trains_nothing: "untouched s (final (train E s))"
  unfolding train_def
proof (rule pbind_final_inv)
  show "untouched s (final (set_optimizer (PFloat 1) s))"
    by (rule untouched_set_optimizer)
next
  fix x s1
  assume "set_optimizer (PFloat 1) s = (Inr x, s1)"
  with untouched_set_optimizer [of s "PFloat 1"] have "untouched s s1" by simp
  moreover have "untouched s1 (final (pbind (self_param EPOCHS) (\<lambda>v. pbind (plift (as_index v))
      (\<lambda>n. pbind (pfold (train_epoch E) (py_range n) empty_frame) (\<lambda>_. pret ()))) s1))"
    by (simp add: final_simps epochs_untouched split: sum.splits)
  ultimately show "untouched s (final (pbind (self_param EPOCHS) (\<lambda>v. pbind (plift (as_index v))
      (\<lambda>n. pbind (pfold (train_epoch E) (py_range n) empty_frame) (\<lambda>_. pret ()))) s1))"
    by (rule untouched_trans)
qed

text \<open>What \<open>train\<close> does after the optimizer is set, by the number of epochs.\<close>

lemma train_run:
  "train E s =
     (case set_optimizer (PFloat 1) s of
        (Inl e, s1) \<Rightarrow> (Inl e, s1)
      | (Inr u, s1) \<Rightarrow>
          (case rbind (getitem (params (obj s1)) EPOCHS) as_index of
             Inl e \<Rightarrow> (Inl e, s1)
           | Inr n \<Rightarrow>
               pbind (pfold (train_epoch E) (py_range n) empty_frame) (\<lambda>_. pret ()) s1))"
  by (simp add: train_def run_simps rbind_def split: sum.splits prod.splits)

lemma fails_epochs: "0 < n \<Longrightarrow> fails (pbind (pfold (train_epoch E) (py_range n) f) k) s"
  by (simp add: py_range_pos fails_pbindI1 fails_train_epoch_zero)

text \<open>
  C25 (epoch loop, section 4.2): \<open>train\<close> returns normally exactly when the model is a
  network, the learning rate is a number and the number of epochs is an integer that is not
  positive. With one epoch or more it raises: it never completes an epoch.
\<close>

theorem train_succeeds_iff:
  "succeeds (outcome (train E s)) \<longleftrightarrow>
     succeeds (outcome (set_optimizer (PFloat 1) s)) \<and>
     (\<exists>n. n \<le> 0 \<and> getitem (params (obj s)) EPOCHS = Inr (PInt n))"
proof (cases "set_optimizer (PFloat 1) s")
  case (Pair r s1)
  have params: "params (obj s1) = params (obj s)"
    using set_optimizer_frame(3) [of "PFloat 1" s] Pair by simp
  show ?thesis
  proof (cases r)
    case (Inl e)
    with Pair show ?thesis by (simp add: train_run)
  next
    case (Inr u)
    show ?thesis
    proof (cases "rbind (getitem (params (obj s)) EPOCHS) as_index")
      case (Inl e)
      with Pair Inr params show ?thesis
        by (auto simp: train_run result_iffs)
    next
      case n: (Inr n)
      then have epochs: "getitem (params (obj s)) EPOCHS = Inr (PInt n)"
        by (auto simp: result_iffs)
      show ?thesis
      proof (cases "n \<le> 0")
        case True
        with Pair Inr params n epochs show ?thesis
          by (simp add: train_run run_simps)
      next
        case False
        then have "fails (pbind (pfold (train_epoch E) (py_range n) empty_frame) (\<lambda>_. pret ())) s1"
          by (intro fails_epochs) simp
        with Pair Inr params n epochs False show ?thesis
          by (simp add: train_run fails_def split: sum.splits)
      qed
    qed
  qed
qed

text \<open>
  C26 (epoch loop, sections 4.2 and 7): started on a network with a numeric learning rate,
  one epoch or more and a loader that is not empty, \<open>train\<close> raises TypeError at the
  first batch of the first epoch, because a network is equal to no variant name and the
  \<open>else\<close> branch raises a string. The optimizer is set and one epoch line is printed;
  nothing else has happened.
\<close>

theorem train_first_batch:
  assumes "model (obj s) = Module a"
    and "rbind (getitem (params (obj s)) LR) (\<lambda>base. scaled_rate base (PFloat 1)) = Inr rate"
    and "getitem (params (obj s)) EPOCHS = Inr (PInt n)" and "0 < n"
    and "dataloader (obj s) \<noteq> []"
  shows "train E s =
           (Inl TypeError,
            \<lparr>obj = (obj s)\<lparr>optimizer := Some \<lparr>lr = rate, param_ref = a\<rparr>\<rparr>,
             env = print_line (EpochLine 0) (env s)\<rparr>)"
  using assms
  by (simp add: train_run set_optimizer_run py_range_pos train_epoch_run pbind_run_Inl)

theorem train_first_batch_witness:
  "train demo_collab demo_machine =
     (Inl TypeError,
      \<lparr>obj = demo_trainer, env = print_line (EpochLine 0) demo_world\<rparr>)"
  using train_first_batch [of demo_machine 0 "1 / 2" 2 demo_collab]
  by (simp add: demo_params_def) (simp add: demo_machine_def demo_trainer_def)

text \<open>
  C6 (variant dispatch, sections 3 and 9): the dispatch on \<open>self.model\<close> and the call of
  \<open>self.model\<close> exclude each other. A value for which a batch is unpacked is a variant
  name, the branch for batches with reviews is never taken (its test repeats the one before
  it), so \<open>review_seqs\<close> stays as it was; and for such a value the batch step raises.
\<close>

theorem dispatch_excludes_call:
  assumes "unpack_inputs (model (obj s)) b f = Inr f'"
  shows "review_seqs f' = review_seqs f \<and> model (obj s) \<noteq> Name LM_QUESTION_ANSWERS_REVIEWS \<and>
         fails (train_batch E q r a l) s"
proof -
  from assms have "\<forall>a. model (obj s) \<noteq> Module a"
    by (auto dest: unpack_inputs_Name)
  then have "fails (train_batch E q r a l) s"
    by (rule train_batch_needs_module)
  with assms show ?thesis
    by (auto simp: unpack_inputs_reviews)
qed

theorem dispatch_excludes_call_witness:
  "unpack_inputs (model (obj (demo_machine\<lparr>obj := demo_trainer\<lparr>model := Name LM_ANSWERS\<rparr>\<rparr>)))
     (Answers [[0]] [1]) empty_frame
     = Inr (empty_frame\<lparr>answer_seqs := Some [[0]], answer_lengths := Some [1]\<rparr>) \<and>
   fails (train_batch demo_collab None None [[0]] [1])
     (demo_machine\<lparr>obj := demo_trainer\<lparr>model := Name LM_ANSWERS\<rparr>\<rparr>)"
  using dispatch_excludes_call [of "demo_machine\<lparr>obj := demo_trainer\<lparr>model := Name LM_ANSWERS\<rparr>\<rparr>"
      "Answers [[0]] [1]" empty_frame
      "empty_frame\<lparr>answer_seqs := Some [[0]], answer_lengths := Some [1]\<rparr>"
      demo_collab None None "[[0]]" "[1]"]
  by (simp add: unpack_inputs_def)

section \<open>The optimizer after the decay\<close>

text \<open>
  C29 (learning-rate decay, section 4.2): at the decay epoch the optimizer is not replaced
  but lost. \<open>train\<close> assigns the result of \<open>_set_optimizer\<close>, which returns nothing, to
  \<open>self.optimizer\<close>; when \<open>decay_at\<close> returns at that epoch the optimizer is \<open>None\<close> and
  the next batch step raises.
\<close>

theorem decay_at_clears_optimizer:
  assumes "getitem (params (obj s)) DECAY_START_EPOCH = Inr start"
    and "eq_int (int epoch) start"
    and "outcome (decay_at epoch s) = Inr u"
  shows "optimizer (obj (final (decay_at epoch s))) = None \<and>
         outcome (train_batch E q r a l (final (decay_at epoch s))) = Inl AttributeError"
proof -
  from assms have "optimizer (obj (final (decay_at epoch s))) = None"
    by (auto simp: decay_at_run split: sum.splits prod.splits)
  then show ?thesis
    by (simp add: train_batch_no_optimizer)
qed

theorem decay_at_clears_optimizer_witness:
  "outcome (decay_at 1 demo_machine) = Inr () \<and>
   optimizer (obj (final (decay_at 1 demo_machine))) = None \<and>
   outcome (train_batch demo_collab (Some [[0]]) None [[0]] [1] (final (decay_at 1 demo_machine)))
     = Inl AttributeError"
proof -
  have "outcome (decay_at 1 demo_machine) = Inr ()"
    by (simp add: decay_at_run set_optimizer_run demo_params_def)
  with decay_at_clears_optimizer [of demo_machine "PInt 1" 1 "()" demo_collab "Some [[0]]" None
      "[[0]]" "[1]"]
  show ?thesis by (simp add: demo_params_def)
qed

section \<open>The histories\<close>

lemma record_loss_run:
  "record_loss v s =
     (Inr (), s\<lparr>obj := (obj s)\<lparr>loss := loss (obj s) @ [v],
                               perplexity := perplexity (obj s) @ [perplexity_from_loss v]\<rparr>\<rparr>)"
  by (simp add: record_loss_def run_simps)

text \<open>
  Training state, sections 3 and 8: recording a loss appends it to the loss history
  and its perplexity to the perplexity history, so the perplexity recorded for every loss
  is \<open>2\<close> to that loss, and the log line that follows prints the pair just recorded.
\<close>

lemma record_loss_history:
  assumes "history_ok (obj s)"
  shows "history_ok (obj (final (record_loss v s))) \<and>
         loss (obj (final (record_loss v s))) = loss (obj s) @ [v] \<and>
         py_last (perplexity (obj (final (record_loss v s)))) = Inr (2 powr v) \<and>
         env (final (record_loss v s)) = env s"
  using assms by (simp add: record_loss_run history_ok_def perplexity_from_loss_def)

lemma record_loss_history_witness:
  "history_ok (obj demo_machine) \<and>
   loss (obj (final (record_loss 3 demo_machine))) = [3] \<and>
   perplexity (obj (final (record_loss 3 demo_machine))) = [8]"
proof -
  have "history_ok (obj demo_machine)"
    by (simp add: history_ok_def)
  with record_loss_history [of demo_machine 3] show ?thesis
    by (simp add: history_ok_def perplexity_of_nat [of 3, simplified])
qed

end
