(* ===== verification/Evaluation.thy ===== *)
theory Evaluation
  imports Epochs
begin

text \<open>
  The evaluation pass: the method \<open>eval\<close> (\<open>trainer.py\<close>, lines 119-149).

  \<^item> \<open>eval_frame\<close> extends the local variables of the dispatch by the two lists of
    losses and perplexities that \<open>eval\<close> collects.
  \<^item> \<open>eval_iteration\<close> is the body of the loop over \<open>self.dataloader\<close>: the dispatch
    (\<open>unpack_inputs\<close>), the inputs of the model, the forward pass without teacher
    forcing, the loss, and the line \<open>log_dev_batch\<close> prints; \<open>eval\<close> runs it over the
    loader and prints the summary.
  \<^item> The lemmas give the result of one iteration and of the pass on every loader.
\<close>

section \<open>Local variables\<close>

record eval_frame = frame +
  dev_losses :: "real list"
  dev_perplexities :: "real list"


definition empty_eval_frame :: eval_frame where
  "empty_eval_frame = \<lparr>quesion_seqs = None, review_seqs = None, answer_seqs = None,
                        answer_lengths = None, dev_losses = [], dev_perplexities = []\<rparr>"

section \<open>The evaluation pass\<close>

definition log_dev_batch :: "nat \<Rightarrow> real \<Rightarrow> real list \<Rightarrow> (machine, unit) prog" where
  "log_dev_batch batch_itr dev_loss perplexities =
     pbind (the_self print_every) (\<lambda>n.
       if n = 0 then praise ZeroDivisionError
       else if int batch_itr mod n = 0 then
         pbind (on_env (print_line (DevLossLine batch_itr dev_loss))) (\<lambda>_.
         pbind (plift (py_last perplexities)) (\<lambda>p.
         on_env (print_line (DevPerplexityLine batch_itr p))))
       else pret ())"

definition eval_iteration ::
  "collab \<Rightarrow> nat \<times> batch \<Rightarrow> eval_frame \<Rightarrow> (machine, eval_frame) prog"
where
  "eval_iteration E = (\<lambda>(batch_itr, inputs) f.
     pbind (pread (\<lambda>s. unpack_inputs (model (obj s)) inputs f)) (\<lambda>f1.
     pbind (plift (rbind (local_var (answer_seqs f1)) (\<lambda>a. var (Some a)))) (\<lambda>answers.
     pbind (the_self model) (\<lambda>m.
     pbind (plift (if m = Name LM_ANSWERS then Inr None
                   else rbind (local_var (quesion_seqs f1)) (\<lambda>q.
                        rbind (var q) (\<lambda>x. Inr (Some x))))) (\<lambda>q.
     pbind (plift (if m = Name LM_QUESTION_ANSWERS_REVIEWS
                   then rbind (local_var (review_seqs f1)) (\<lambda>r.
                        rbind (var r) (\<lambda>x. Inr (Some x)))
                   else Inr None)) (\<lambda>r.
     pbind (plift (var (Some answers))) (\<lambda>targets.
     pbind (call_model E q r answers False) (\<lambda>(addr, outs).
     pbind (plift (local_var (answer_lengths f1))) (\<lambda>lens.
     pbind (the_self criterion) (\<lambda>crit.
     pbind (plift (batch_loss crit outs lens targets)) (\<lambda>dev_loss.
     pbind (if lens = [] then praise AttributeError else pret ()) (\<lambda>_.
     let f2 = f1\<lparr>answer_seqs := Some answers, quesion_seqs := Some q, review_seqs := Some r,
                 dev_losses := dev_losses f1 @ [dev_loss],
                 dev_perplexities := dev_perplexities f1 @ [perplexity_from_loss dev_loss]\<rparr>
     in
     pbind (log_dev_batch batch_itr dev_loss (dev_perplexities f2)) (\<lambda>_.
     pret f2)))))))))))))"

definition eval :: "collab \<Rightarrow> (machine, unit) prog" where
  "eval E =
     pbind (the_self dataloader) (\<lambda>batches.
     pbind (pfold (eval_iteration E) (enumerate_from0 batches) empty_eval_frame) (\<lambda>f.
     on_env (print_info 1 (dev_losses f) (dev_perplexities f) ''Development'')))"

section \<open>Running the evaluation pass\<close>

lemma eval_iteration_run:
  "eval_iteration E (i, b) f s =
     (Inl (case unpack_inputs (model (obj s)) b f of Inl e \<Rightarrow> e | Inr f' \<Rightarrow> TypeError), s)"
proof (cases "unpack_inputs (model (obj s)) b f")
  case (Inl e)
  then show ?thesis by (simp add: eval_iteration_def run_simps)
next
  case (Inr f')
  then consider
    (answers) a l where "model (obj s) = Name LM_ANSWERS" "b = Answers a l"
      "f' = f\<lparr>answer_seqs := Some a, answer_lengths := Some l\<rparr>"
  | (questions) a l q where "model (obj s) = Name LM_QUESTION_ANSWERS" "b = QuestionAnswers a l q"
      "f' = f\<lparr>answer_seqs := Some a, answer_lengths := Some l, quesion_seqs := Some (Some q)\<rparr>"
    by (auto simp: result_iffs)
  then show ?thesis
    by cases (simp_all add: eval_iteration_def unpack_inputs_def run_simps call_model_run)
qed

text \<open>
  C30 (evaluation pass, section 4.5): \<open>eval\<close> computes no loss. On an empty loader it
  prints the two summary lines with means of nothing; on any other loader it raises at the
  first batch (ValueError when the batch has not the shape of the variant, TypeError
  otherwise) and leaves the state as it was.
\<close>

theorem eval_run:
  "eval E s =
     (if dataloader (obj s) = [] then
        (Inr (), s\<lparr>env := print_info 1 [] [] ''Development'' (env s)\<rparr>)
      else
        (Inl (case unpack_inputs (model (obj s)) (hd (dataloader (obj s))) empty_eval_frame of
                Inl e \<Rightarrow> e | Inr f' \<Rightarrow> TypeError), s))"
proof -
  let ?bs = "dataloader (obj s)"
  have "fails (eval_iteration E x empty_eval_frame) s \<and>
        final (eval_iteration E x empty_eval_frame s) = s" for x
    using eval_iteration_run [of E "fst x" "snd x" empty_eval_frame s] by (simp add: fails_iff)
  then have "pfold (eval_iteration E) (enumerate_from0 ?bs) empty_eval_frame s =
               (if enumerate_from0 ?bs = [] then Inr empty_eval_frame
                else outcome (eval_iteration E (hd (enumerate_from0 ?bs)) empty_eval_frame s), s)"
    by (intro pfold_all_raise) simp
  then show ?thesis
    using eval_iteration_run [of E 0 "hd ?bs" empty_eval_frame s]
    by (simp add: eval_def run_simps hd_enumerate_from0 empty_eval_frame_def)
qed

end
