(* ===== verification/Invariant.thy ===== *)
theory Invariant
  imports Evaluation "HOL-Library.Sublist"
begin

text \<open>
  The invariants of a trainer, and that every method keeps them.

  \<^item> \<open>wf_machine\<close> is the well-formedness of a trainer: the perplexity history is the
    loss history mapped by \<open>_perplexity_from_loss\<close>; the model, when it is a network, is
    allocated and has one gradient per weight; the optimizer, when there is one, was built
    on the parameters of the model.
  \<^item> \<open>placement\<close> is the device of every network of the heap, \<open>settings\<close> the
    attributes of the trainer that only the caller assigns. The well-formedness of the
    file system, \<open>wf_disk\<close> of the theory \<open>World\<close>, is an invariant of the same kind.
  \<^item> \<open>invocation\<close> names the methods of the class with their arguments and \<open>call\<close>
    dispatches on them; \<open>calls\<close> is a sequence of calls by a caller that catches the
    exceptions, so that each call starts in the state the last one left.
  \<^item> \<open>grad_shaped\<close> is what well-formedness asks of the gradient operator: one partial
    derivative per weight.
  \<^item> \<open>block_invariant E P\<close> is the interface between the methods and an invariant
    \<open>P\<close>: the building blocks that change the state preserve \<open>P\<close>, on a normal return
    and on an exception. \<open>step_invariant E P\<close> asks it of the blocks of \<open>train_batch\<close>
    only.
  The methods are shown once, for every such \<open>P\<close>, to preserve it (the rules
  \<open>preserves_intros\<close> compose the blocks); each invariant then only has to be shown of
  the blocks.
\<close>

section \<open>Definitions\<close>

definition grad_shaped :: "collab \<Rightarrow> bool" where
  "grad_shaped E \<longleftrightarrow> (\<forall>f ws. length (autograd E f ws) = length ws)"

definition wf_machine :: "machine \<Rightarrow> bool" where
  "wf_machine s \<longleftrightarrow>
     history_ok (obj s) \<and>
     (case model (obj s) of
        Module a \<Rightarrow> a < next_addr (env s) \<and> wf_net (heap (env s) a)
      | _ \<Rightarrow> True) \<and>
     (case optimizer (obj s) of
        None \<Rightarrow> True
      | Some g \<Rightarrow> model (obj s) = Module (param_ref g))"

definition placement :: "machine \<Rightarrow> nat \<Rightarrow> device" where
  "placement s a = placed (heap (env s) a)"

definition settings ::
  "machine \<Rightarrow> model_val \<times> params option \<times> batch list \<times> string list option \<times> int \<times> int" where
  "settings s =
     (model (obj s), params (obj s), dataloader (obj s), vocab (obj s),
      save_model_every (obj s), print_every (obj s))"

definition step_invariant :: "collab \<Rightarrow> (machine \<Rightarrow> bool) \<Rightarrow> bool" where
  "step_invariant E P \<longleftrightarrow>
     preserves P optimizer_zero_grad \<and>
     preserves P optimizer_step \<and>
     (\<forall>addr objective lens. preserves P (loss_backward E addr objective lens)) \<and>
     preserves P (draw_teacher_forcing E)"

definition block_invariant :: "collab \<Rightarrow> (machine \<Rightarrow> bool) \<Rightarrow> bool" where
  "block_invariant E P \<longleftrightarrow>
     step_invariant E P \<and>
     (\<forall>d. preserves P (set_optimizer d)) \<and>
     (\<forall>v. preserves P (record_loss v)) \<and>
     preserves P (set_self (\<lambda>t. t\<lparr>optimizer := None\<rparr>)) \<and>
     (\<forall>p c. preserves P (write_artifact p c)) \<and>
     (\<forall>ev. preserves P (on_env (print_line ev))) \<and>
     (\<forall>n ls ps corpus. preserves P (on_env (print_info n ls ps corpus))) \<and>
     (\<forall>dir. preserves P (try_env (ensure_dir dir)))"

datatype invocation =
    Train
  | Eval
  | TrainBatch "seqs option" "seqs list option" seqs "int list"
  | SaveModel
  | SetOptimizer pval

definition call :: "collab \<Rightarrow> invocation \<Rightarrow> (machine, unit) prog" where
  "call E m =
     (case m of
        Train \<Rightarrow> train E
      | Eval \<Rightarrow> eval E
      | TrainBatch q r a l \<Rightarrow> pbind (train_batch E q r a l) (\<lambda>_. pret ())
      | SaveModel \<Rightarrow> save_model E
      | SetOptimizer d \<Rightarrow> set_optimizer d)"

fun calls :: "collab \<Rightarrow> invocation list \<Rightarrow> machine \<Rightarrow> machine" where
  "calls E [] s = s"
| "calls E (m # ms) s = calls E ms (final (call E m s))"

section \<open>The methods preserve what their building blocks preserve\<close>

lemma step_invariantD:
  assumes "step_invariant E P"
  shows "preserves P optimizer_zero_grad" "preserves P optimizer_step"
    "preserves P (loss_backward E addr objective lens)" "preserves P (draw_teacher_forcing E)"
  using assms by (simp_all add: step_invariant_def)

lemma block_invariantD [preserves_intros]:
  assumes "block_invariant E P"
  shows "preserves P (set_optimizer d)" "preserves P (record_loss v)"
    "preserves P (set_self (\<lambda>t. t\<lparr>optimizer := None\<rparr>))" "preserves P (write_artifact p c)"
    "preserves P (on_env (print_line ev))" "preserves P (on_env (print_info n ls ps corpus))"
    "preserves P (try_env (ensure_dir dir))"
  using assms by (simp_all add: block_invariant_def)

lemma block_invariant_step: "block_invariant E P \<Longrightarrow> step_invariant E P"
  by (simp add: block_invariant_def)

text \<open>The blocks that only read the state preserve every predicate.\<close>

lemma preserves_reads [preserves_intros]:
  "preserves P (the_self f)" "preserves P (self_param k)"
  "preserves P (call_model E q r a tf)" "preserves P state_dict"
  by (simp_all add: preserves_def run_simps call_model_run split: model_val.splits)

lemma preserves_batch_step: "step_invariant E P \<Longrightarrow> preserves P (train_batch E q r a l)"
  unfolding train_batch_def by (intro preserves_intros step_invariantD)

lemma preserves_train_batch [preserves_intros]:
  "block_invariant E P \<Longrightarrow> preserves P (train_batch E q r a l)"
  by (intro preserves_batch_step block_invariant_step)

lemma preserves_log_batch [preserves_intros]:
  "block_invariant E P \<Longrightarrow> preserves P (log_batch i)"
  unfolding log_batch_def by (intro preserves_intros)

lemma preserves_train_iteration [preserves_intros]:
  "block_invariant E P \<Longrightarrow> preserves P (train_iteration E x f)"
  unfolding train_iteration_def by (cases x) (simp, intro preserves_intros)

lemma preserves_write_artifacts [preserves_intros]:
  "block_invariant E P \<Longrightarrow> preserves P (write_artifacts E mf pf vf)"
  unfolding write_artifacts_def by (intro preserves_intros)

lemma preserves_save_dir [preserves_intros]:
  "block_invariant E P \<Longrightarrow> preserves P (save_dir E time)"
  unfolding save_dir_def by (intro preserves_intros)

lemma preserves_save_model [preserves_intros]:
  "block_invariant E P \<Longrightarrow> preserves P (save_model E)"
  unfolding save_model_def by (intro preserves_intros)


lemma preserves_save_every [preserves_intros]:
  "block_invariant E P \<Longrightarrow> preserves P (save_every E epoch)"
  unfolding save_every_def by (intro preserves_intros)

lemma preserves_decay_at [preserves_intros]:
  "block_invariant E P \<Longrightarrow> preserves P (decay_at epoch)"
  unfolding decay_at_def by (intro preserves_intros)

lemma preserves_train_epoch [preserves_intros]:
  "block_invariant E P \<Longrightarrow> preserves P (train_epoch E epoch f)"
  unfolding train_epoch_def by (intro preserves_intros)

lemma preserves_train [preserves_intros]: "block_invariant E P \<Longrightarrow> preserves P (train E)"
  unfolding train_def by (intro preserves_intros)

lemma preserves_log_dev_batch [preserves_intros]:
  "block_invariant E P \<Longrightarrow> preserves P (log_dev_batch i v ps)"
  unfolding log_dev_batch_def by (intro preserves_intros)

lemma preserves_eval_iteration [preserves_intros]:
  "block_invariant E P \<Longrightarrow> preserves P (eval_iteration E x f)"
  unfolding eval_iteration_def by (cases x) (simp, intro preserves_intros)

lemma preserves_eval [preserves_intros]: "block_invariant E P \<Longrightarrow> preserves P (eval E)"
  unfolding eval_def by (intro preserves_intros)

lemma preserves_call: "block_invariant E P \<Longrightarrow> preserves P (call E m)"
  unfolding call_def by (cases m) (simp_all add: preserves_intros)

lemma calls_invariant: "block_invariant E P \<Longrightarrow> P s \<Longrightarrow> P (calls E ms s)"
proof (induction ms arbitrary: s)
  case (Cons m ms)
  from preserves_call [OF Cons.prems(1)] Cons.prems(2) have "P (final (call E m s))"
    by (rule preservesD)
  with Cons.prems(1) show ?case
    by (simp add: Cons.IH)
qed simp

section \<open>Well-formedness is preserved by the building blocks\<close>

lemma wf_machine_iff:
  "wf_machine s \<longleftrightarrow>
     history_ok (obj s) \<and>
     (\<forall>a. model (obj s) = Module a \<longrightarrow> a < next_addr (env s) \<and> wf_net (heap (env s) a)) \<and>
     (\<forall>g. optimizer (obj s) = Some g \<longrightarrow> model (obj s) = Module (param_ref g))"
  by (cases "model (obj s)"; cases "optimizer (obj s)") (simp_all add: wf_machine_def)

lemma wf_machine_env:
  "heap w = heap (env s) \<Longrightarrow> next_addr w = next_addr (env s) \<Longrightarrow>
   wf_machine (s\<lparr>env := w\<rparr>) \<longleftrightarrow> wf_machine s"
  by (simp add: wf_machine_iff)

lemma wf_machine_update_net:
  assumes "wf_machine s" and "\<And>a. wf_net (heap (env s) a) \<Longrightarrow> wf_net (f (heap (env s) a))"
  shows "wf_machine (s\<lparr>env := update_net b f (env s)\<rparr>)"
  using assms by (simp add: wf_machine_iff update_net_def)

lemma wf_on_env:
  "(\<And>w. heap (f w) = heap w \<and> next_addr (f w) = next_addr w) \<Longrightarrow> preserves wf_machine (on_env f)"
  by (simp add: preserves_def run_simps wf_machine_env)

lemma wf_prints:
  "preserves wf_machine (on_env (print_line ev))"
  "preserves wf_machine (on_env (print_info n ls ps corpus))"
  by (rule wf_on_env; simp add: print_line_def print_info_def)+

lemma wf_optimizer_zero_grad: "preserves wf_machine optimizer_zero_grad"
proof (rule preservesI)
  fix s assume "wf_machine s"
  then show "wf_machine (final (optimizer_zero_grad s))"
    by (cases "optimizer (obj s)") (simp_all add: optimizer_zero_grad_run wf_machine_update_net)
qed

lemma wf_optimizer_step: "preserves wf_machine optimizer_step"
proof (rule preservesI)
  fix s assume "wf_machine s"
  then show "wf_machine (final (optimizer_step s))"
    by (cases "optimizer (obj s)") (simp_all add: optimizer_step_run wf_machine_update_net)
qed

lemma wf_loss_backward:
  assumes "grad_shaped E"
  shows "preserves wf_machine (loss_backward E addr objective lens)"
proof (rule preservesI)
  fix s assume wf: "wf_machine s"
  show "wf_machine (final (loss_backward E addr objective lens s))"
  proof (cases "lens = []")
    case False
    have "wf_machine (s\<lparr>env := update_net addr
            (\<lambda>n. accumulate_grad (autograd E objective (weights n)) n) (env s)\<rparr>)"
      using assms by (intro wf_machine_update_net wf) (simp add: grad_shaped_def)
    with False show ?thesis
      by (simp add: loss_backward_run update_net_def)
  qed (simp add: loss_backward_run wf)
qed

lemma wf_draw: "preserves wf_machine (draw_teacher_forcing E)"
  by (simp add: preserves_def draw_teacher_forcing_run wf_machine_env random_draw_def
      split: sum.splits)

lemma wf_self_updates:
  "preserves wf_machine (set_optimizer d)" "preserves wf_machine (record_loss v)"
  "preserves wf_machine (set_self (\<lambda>t. t\<lparr>optimizer := None\<rparr>))"
  by (simp_all add: preserves_def set_optimizer_run record_loss_run run_simps wf_machine_iff
      history_ok_def split: model_val.splits sum.splits)

lemma wf_write_artifact:
  "preserves wf_machine (write_artifact p c)" "preserves wf_machine (try_env (ensure_dir dir))"
  by (simp_all add: preserves_def write_artifact_run ensure_step_run wf_machine_env
      split: option.splits)

lemmas wf_blocks =
  wf_optimizer_zero_grad wf_optimizer_step wf_loss_backward wf_draw wf_self_updates
  wf_write_artifact wf_prints

lemma wf_machine_blocks: "grad_shaped E \<Longrightarrow> block_invariant E wf_machine"
  by (simp add: block_invariant_def step_invariant_def wf_blocks)

lemma wf_machine_init:
  "init E loader ps seed n_save n_print dev voc w = (Inr t, w') \<Longrightarrow>
   wf_machine \<lparr>obj = t, env = w'\<rparr>"
  by (drule init_run) (simp add: wf_machine_def history_ok_def)

section \<open>Placement and settings are preserved by the building blocks\<close>

text \<open>No block moves a network: \<open>zero_grad\<close>, \<open>backward\<close> and \<open>step\<close> change the
  values of a network where it is. And no block assigns an attribute other than the
  optimizer and the two histories.\<close>

lemma placement_update_net:
  "(\<And>n. placed (f n) = placed n) \<Longrightarrow> placement (s\<lparr>env := update_net a f (env s)\<rparr>) = placement s"
  by (auto simp: placement_def update_net_def)

lemma placement_env: "heap w = heap (env s) \<Longrightarrow> placement (s\<lparr>env := w\<rparr>) = placement s"
  by (auto simp: placement_def)

lemma placement_obj [simp]: "placement (s\<lparr>obj := t\<rparr>) = placement s"
  by (auto simp: placement_def)

lemmas block_runs =
  optimizer_zero_grad_run optimizer_step_run loss_backward_run draw_teacher_forcing_run
  set_optimizer_run record_loss_run write_artifact_run ensure_step_run run_simps

lemma placement_blocks: "block_invariant E (\<lambda>s. placement s = pl)"
  by (simp add: block_invariant_def step_invariant_def preserves_def block_runs placement_update_net placement_env
      print_line_def print_info_def random_draw_def
      split: option.splits sum.splits model_val.splits)

lemma settings_blocks: "block_invariant E (\<lambda>s. settings s = c)"
  by (simp add: block_invariant_def step_invariant_def preserves_def block_runs settings_def
      split: option.splits sum.splits model_val.splits)

text \<open>No block sets the clock or seeds the generator.\<close>

lemma clock_blocks: "block_invariant E (\<lambda>s. now (env s) = t \<and> rng_seed (env s) = sd)"
  by (simp add: block_invariant_def step_invariant_def preserves_def block_runs update_net_def
      print_line_def print_info_def random_draw_def
      split: option.splits sum.splits model_val.splits)

text \<open>Without a network as model no block builds an optimizer.\<close>

lemma no_optimizer_blocks:
  "block_invariant E (\<lambda>s. (\<forall>a. model (obj s) \<noteq> Module a) \<and> optimizer (obj s) = None)"
  by (simp add: block_invariant_def step_invariant_def preserves_def block_runs
      split: option.splits sum.splits model_val.splits)

text \<open>The blocks create directories and files and append to the output; they delete
  nothing.\<close>

lemma disk_blocks: "block_invariant E (\<lambda>s. D \<subseteq> disk (env s))"
  using ensure_path_mono
  by (auto simp: block_invariant_def step_invariant_def preserves_def block_runs written_def print_line_def
      print_info_def random_draw_def split: option.splits sum.splits model_val.splits)




lemma stdout_blocks: "block_invariant E (\<lambda>s. prefix out (stdout (env s)))"
  by (auto simp: block_invariant_def step_invariant_def preserves_def block_runs written_def print_line_def
      print_info_def random_draw_def split: option.splits sum.splits model_val.splits)

section \<open>A concrete instance\<close>

lemma grad_shaped_demo: "grad_shaped demo_collab"
  by (simp add: grad_shaped_def)

lemma wf_machine_demo: "wf_machine demo_machine"
  by (simp add: wf_machine_def history_ok_def wf_net_def)
    (simp add: demo_machine_def demo_world_def)

section \<open>Well-formedness is an invariant\<close>

text \<open>
  C14 (well-formed trainer): every method keeps the trainer well formed, whether it returns
  or raises: after any sequence of calls of \<open>train\<close>, \<open>eval\<close>, \<open>train_batch\<close>,
  \<open>save_model\<close> and \<open>_set_optimizer\<close> on a well-formed trainer, the perplexity history is
  still the loss history mapped by \<open>_perplexity_from_loss\<close>, the network of the model
  still has one gradient per weight, and the optimizer still updates the parameters of
  the model, provided that \<open>backward\<close> computes one partial derivative per weight.
\<close>

theorem wf_machine_calls:
  assumes "grad_shaped E" and "wf_machine s"
  shows "wf_machine (calls E ms s)"
  using wf_machine_blocks [OF assms(1)] assms(2) by (rule calls_invariant)

theorem wf_machine_calls_witness:
  "wf_machine (calls demo_collab
     [TrainBatch None None [[0]] [1], SetOptimizer (PFloat (1 / 2)), Train, SaveModel, Eval]
     demo_machine)"
  using wf_machine_calls [OF grad_shaped_demo wf_machine_demo] .

section \<open>Placement is static\<close>

text \<open>
  C15 (device placement, section 5): placement is decided once. Whatever methods are called,
  in whatever order, and whether they return or raise, every network is afterwards on the
  device it was on before: no method moves a network.
\<close>

theorem placement_calls: "placement (calls E ms s) = placement s"
  using placement_blocks [of E "placement s"] by (rule calls_invariant) simp

section \<open>The methods assign no setting\<close>

text \<open>The model, the hyperparameters, the data loader, the vocabulary and the two
  periods are assigned by the caller only: no sequence of calls of the methods changes
  one of them.\<close>

lemma settings_calls: "settings (calls E ms s) = settings s"
  using settings_blocks [of E "settings s"] by (rule calls_invariant) simp

section \<open>The file system stays well formed\<close>




section \<open>Nothing is deleted\<close>

text \<open>
  The methods only add to the outside world. After any
  sequence of calls every file and directory that existed still exists, and the lines
  printed before are the beginning of the lines printed.
\<close>

lemma outside_world_grows:
  "disk (env s) \<subseteq> disk (env (calls E ms s)) \<and>
   prefix (stdout (env s)) (stdout (env (calls E ms s)))"
  using calls_invariant [OF disk_blocks [of E "disk (env s)"], of s ms]
    calls_invariant [OF stdout_blocks [of E "stdout (env s)"], of s ms]
  by simp

end
