(* ===== verification/Lifecycle.thy ===== *)
theory Lifecycle
  imports Epochs
begin

text \<open>
  The epoch loop of \<open>train\<close> (\<open>trainer.py\<close>, lines 89-117) as a state machine, in the
  terms of section 4.2 of the specification: \<open>Idle\<close>, then \<open>Training\<close> for the epochs
  \<open>0, 1, ...\<close>, then \<open>Done\<close>, or \<open>Failed\<close> with the exception that ended the run.

  \<^item> A configuration is the phase, the local variables of \<open>train\<close> and the state of the
    trainer. \<open>Training k n\<close> stands before epoch \<open>k\<close> of \<open>n\<close>; \<open>n\<close> is kept in the
    phase because \<open>range(self.params[C.EPOCHS])\<close> is evaluated once.
  \<^item> \<open>next_config\<close> is one transition as a function: leaving \<open>Idle\<close> sets the optimizer
    and reads the number of epochs (\<open>start\<close>), a transition from \<open>Training k n\<close> runs
    \<open>train_epoch\<close> for epoch \<open>k\<close>. \<open>step\<close> is the same as an inductive relation, and
    \<open>run\<close> iterates \<open>next_config\<close> for a number of transitions.
  \<^item> The lemmas show that the relation is the graph of the function, that \<open>train\<close> is
    the machine run to its end (\<open>nat n + 1\<close> transitions suffice for \<open>n\<close> epochs), and,
    by induction over the transitions, what every reachable configuration satisfies.
  \<^item> \<open>transitions_left\<close> bounds the transitions a configuration can still make. Every
    transition lowers it (\<open>step_decreases\<close>), so the machine stops (\<open>run_stops\<close>).
\<close>

section \<open>Configurations\<close>

datatype phase = Idle | Training nat int | Done | Failed py_error

record config =
  phase_of :: phase
  locals_of :: frame
  state_of :: machine

definition initial :: "machine \<Rightarrow> config" where
  "initial s = \<lparr>phase_of = Idle, locals_of = empty_frame, state_of = s\<rparr>"

definition terminal :: "config \<Rightarrow> bool" where
  "terminal c = (case phase_of c of Done \<Rightarrow> True | Failed e \<Rightarrow> True | _ \<Rightarrow> False)"

text \<open>The result \<open>train\<close> has when the machine stops in the configuration.\<close>

definition result_of :: "config \<Rightarrow> unit result option" where
  "result_of c =
     (case phase_of c of Done \<Rightarrow> Some (Inr ()) | Failed e \<Rightarrow> Some (Inl e) | _ \<Rightarrow> None)"

section \<open>Transitions\<close>

definition start :: "machine \<Rightarrow> config" where
  "start s =
     (case set_optimizer (PFloat 1) s of
        (Inl e, s1) \<Rightarrow> \<lparr>phase_of = Failed e, locals_of = empty_frame, state_of = s1\<rparr>
      | (Inr u, s1) \<Rightarrow>
          (case rbind (getitem (params (obj s1)) EPOCHS) as_index of
             Inl e \<Rightarrow> \<lparr>phase_of = Failed e, locals_of = empty_frame, state_of = s1\<rparr>
           | Inr n \<Rightarrow>
               \<lparr>phase_of = (if 0 < n then Training 0 n else Done), locals_of = empty_frame,
                state_of = s1\<rparr>))"

definition after_epoch :: "collab \<Rightarrow> nat \<Rightarrow> int \<Rightarrow> config \<Rightarrow> config" where
  "after_epoch E k n c =
     (case train_epoch E k (locals_of c) (state_of c) of
        (Inl e, s') \<Rightarrow> \<lparr>phase_of = Failed e, locals_of = locals_of c, state_of = s'\<rparr>
      | (Inr f', s') \<Rightarrow>
          \<lparr>phase_of = (if int (Suc k) < n then Training (Suc k) n else Done), locals_of = f',
           state_of = s'\<rparr>)"

definition next_config :: "collab \<Rightarrow> config \<Rightarrow> config option" where
  "next_config E c =
     (case phase_of c of
        Idle \<Rightarrow> Some (start (state_of c))
      | Training k n \<Rightarrow> Some (after_epoch E k n c)
      | Done \<Rightarrow> None
      | Failed e \<Rightarrow> None)"

inductive step :: "collab \<Rightarrow> config \<Rightarrow> config \<Rightarrow> bool" for E where
  leave_idle: "phase_of c = Idle \<Longrightarrow> step E c (start (state_of c))"
| run_epoch: "phase_of c = Training k n \<Longrightarrow> step E c (after_epoch E k n c)"

fun run :: "collab \<Rightarrow> nat \<Rightarrow> config \<Rightarrow> config" where
  "run E 0 c = c"
| "run E (Suc fuel) c = (case next_config E c of None \<Rightarrow> c | Some c' \<Rightarrow> run E fuel c')"

definition reachable :: "collab \<Rightarrow> machine \<Rightarrow> config \<Rightarrow> bool" where
  "reachable E s c \<longleftrightarrow> (step E)\<^sup>*\<^sup>* (initial s) c"

text \<open>The number of epochs \<open>train\<close> is asked for; none when it cannot be read.\<close>

definition epochs_of :: "machine \<Rightarrow> int" where
  "epochs_of s = (case rbind (getitem (params (obj s)) EPOCHS) as_index of Inl e \<Rightarrow> 0 | Inr n \<Rightarrow> n)"


text \<open>What holds of every configuration a run from \<open>s\<close> passes through.\<close>

definition run_invariant :: "machine \<Rightarrow> config \<Rightarrow> bool" where
  "run_invariant s c \<longleftrightarrow>
     untouched s (state_of c) \<and> review_seqs (locals_of c) = None \<and>
     (case phase_of c of
        Idle \<Rightarrow> state_of c = s
      | Training k n \<Rightarrow> k = 0 \<and> 0 < n \<and> n = epochs_of s
      | Done \<Rightarrow> epochs_of s \<le> 0
      | Failed e \<Rightarrow> True)"

section \<open>The relation and the function\<close>

inductive_cases step_IdleE: "step E \<lparr>phase_of = Idle, locals_of = f, state_of = s\<rparr> c'"
inductive_cases step_TrainingE: "step E \<lparr>phase_of = Training k n, locals_of = f, state_of = s\<rparr> c'"

lemma step_iff_next_config: "step E c c' \<longleftrightarrow> next_config E c = Some c'"
  by (cases "phase_of c") (auto simp: next_config_def step.simps)

lemma step_deterministic: "step E c c1 \<Longrightarrow> step E c c2 \<Longrightarrow> c1 = c2"
  by (simp add: step_iff_next_config)

lemma terminal_iff_stuck: "terminal c \<longleftrightarrow> next_config E c = None"
  by (cases "phase_of c") (simp_all add: terminal_def next_config_def)

lemma terminal_no_step: "terminal c \<Longrightarrow> \<not> step E c c'"
  by (simp add: step_iff_next_config terminal_iff_stuck [of c E])

lemma run_terminal [simp]: "terminal c \<Longrightarrow> run E fuel c = c"
  by (cases fuel) (simp_all add: terminal_iff_stuck [of c E])

lemma run_reaches: "(step E)\<^sup>*\<^sup>* c (run E fuel c)"
proof (induction fuel arbitrary: c)
  case 0
  show ?case by simp
next
  case (Suc fuel)
  show ?case
  proof (cases "next_config E c")
    case None
    then show ?thesis by simp
  next
    case (Some c')
    then have "step E c c'" by (simp add: step_iff_next_config)
    with Suc.IH [of c'] Some show ?thesis
      by (simp add: converse_rtranclp_into_rtranclp)
  qed
qed

section \<open>The method and the machine\<close>

lemma run_Suc_Idle: "phase_of c = Idle \<Longrightarrow> run E (Suc fuel) c = run E fuel (start (state_of c))"
  by (simp add: next_config_def)

lemma run_Suc_Training:
  "phase_of c = Training k n \<Longrightarrow> run E (Suc fuel) c = run E fuel (after_epoch E k n c)"
  by (simp add: next_config_def)

lemma terminal_simps [simp]:
  "terminal \<lparr>phase_of = Failed e, locals_of = f, state_of = s\<rparr>"
  "terminal \<lparr>phase_of = Done, locals_of = f, state_of = s\<rparr>"
  by (simp_all add: terminal_def)

lemma run_epoch_raises:
  assumes "phase_of c = Training k n" and "train_epoch E k (locals_of c) (state_of c) = (Inl e, s')"
  shows "run E (Suc m) c = \<lparr>phase_of = Failed e, locals_of = locals_of c, state_of = s'\<rparr>"
  using assms by (simp add: run_Suc_Training [of c k n] after_epoch_def del: run.simps)

lemma run_epoch_last:
  assumes "phase_of c = Training k n" and "train_epoch E k (locals_of c) (state_of c) = (Inr f', s')"
    and "\<not> int (Suc k) < n"
  shows "run E (Suc m) c = \<lparr>phase_of = Done, locals_of = f', state_of = s'\<rparr>"
  using assms by (simp add: run_Suc_Training [of c k n] after_epoch_def del: run.simps)

lemma run_epoch_next:
  assumes "phase_of c = Training k n" and "train_epoch E k (locals_of c) (state_of c) = (Inr f', s')"
    and "int (Suc k) < n"
  shows "run E (Suc m) c = run E m \<lparr>phase_of = Training (Suc k) n, locals_of = f', state_of = s'\<rparr>"
  using assms by (simp add: run_Suc_Training [of c k n] after_epoch_def del: run.simps)

lemmas run_epoch_cases = run_epoch_raises run_epoch_last run_epoch_next

text \<open>The epochs from \<open>k\<close> on: the loop of the method and the transitions of the machine
  end with the same result in the same state.\<close>

lemma run_epochs:
  assumes "phase_of c = Training k n" and "nat n - k = Suc m"
  shows "result_of (run E (Suc m) c) =
           Some (case outcome (pfold (train_epoch E) [k..<nat n] (locals_of c) (state_of c)) of
                   Inl e \<Rightarrow> Inl e | Inr f \<Rightarrow> Inr ()) \<and>
         state_of (run E (Suc m) c) =
           final (pfold (train_epoch E) [k..<nat n] (locals_of c) (state_of c))"
  using assms
proof (induction m arbitrary: c k)
  case 0
  then have "k < nat n" and "Suc k = nat n" by simp_all
  then have range: "[k..<nat n] = [k]"
    by (simp add: upt_conv_Cons)
  from "0.prems"(2) have last: "\<not> int (Suc k) < n"
    by simp
  show ?case
    using run_epoch_raises [OF "0.prems"(1), of E _ _ 0] run_epoch_last [OF "0.prems"(1) _ last, of E _ _ 0]
    by (cases "train_epoch E k (locals_of c) (state_of c)" rule: prod.exhaust;
        cases "fst (train_epoch E k (locals_of c) (state_of c))")
       (simp_all add: range result_of_def pbind_run_Inl pbind_run_Inr pret_def del: run.simps)
next
  case (Suc m)
  then have "k < nat n" by simp
  then have range: "[k..<nat n] = k # [Suc k..<nat n]"
    by (rule upt_conv_Cons)
  from Suc.prems(2) have more: "int (Suc k) < n" and rest: "nat n - Suc k = Suc m"
    by simp_all
  have later: "result_of (run E (Suc m) c') =
                 Some (case outcome (pfold (train_epoch E) [Suc k..<nat n] f' s') of
                         Inl e \<Rightarrow> Inl e | Inr f \<Rightarrow> Inr ()) \<and>
               state_of (run E (Suc m) c') = final (pfold (train_epoch E) [Suc k..<nat n] f' s')"
    if "c' = \<lparr>phase_of = Training (Suc k) n, locals_of = f', state_of = s'\<rparr>" for c' f' s'
    using Suc.IH [of c' "Suc k"] rest that by simp
  show ?case
    using run_epoch_raises [OF Suc.prems(1), of E _ _ "Suc m"]
      run_epoch_next [OF Suc.prems(1) _ more, of E _ _ "Suc m"] later
    by (cases "train_epoch E k (locals_of c) (state_of c)" rule: prod.exhaust;
        cases "fst (train_epoch E k (locals_of c) (state_of c))")
       (simp_all add: range result_of_def pbind_run_Inl pbind_run_Inr del: run.simps)
qed

lemma epochs_of_set_optimizer:
  "set_optimizer d s = (r, s1) \<Longrightarrow> epochs_of s1 = epochs_of s"
  using set_optimizer_frame(3) [of d s] by (simp add: epochs_of_def)

text \<open>Leaving \<open>Idle\<close>: the three phases that can follow, and what \<open>train\<close> is in each.\<close>

lemma start_not_Idle [simp]: "phase_of (start s) \<noteq> Idle"
  by (simp add: start_def split: prod.splits sum.splits)

lemma start_Failed: "phase_of (start s) = Failed e \<Longrightarrow> train E s = (Inl e, state_of (start s))"
  by (auto simp: start_def train_run split: prod.splits sum.splits if_splits)

lemma start_Done:
  "phase_of (start s) = Done \<Longrightarrow> train E s = (Inr (), state_of (start s)) \<and> nat (epochs_of s) = 0"
  using epochs_of_set_optimizer [of "PFloat 1" s]
  by (auto simp: start_def train_run epochs_of_def pbind_def pret_def
           split: prod.splits sum.splits if_splits)

lemma start_Training:
  assumes "phase_of (start s) = Training k n"
  shows "k = 0 \<and> 0 < n \<and> epochs_of s = n \<and> locals_of (start s) = empty_frame \<and>
         train E s = pbind (pfold (train_epoch E) [0..<nat n] empty_frame) (\<lambda>_. pret ())
                       (state_of (start s))"
  using assms epochs_of_set_optimizer [of "PFloat 1" s]
  by (auto simp: start_def train_run epochs_of_def py_range_def
           split: prod.splits sum.splits if_splits)

text \<open>
  C31 (epoch loop as a state machine, section 4.2): \<open>train\<close> is the machine run to its end.
  From \<open>Idle\<close>, one transition more than the number of epochs reaches a terminal
  configuration; its phase is \<open>Done\<close> when \<open>train\<close> returns and \<open>Failed e\<close> when \<open>train\<close>
  raises \<open>e\<close>, and its state is the state \<open>train\<close> leaves.
\<close>

theorem train_is_run:
  "result_of (run E (Suc (nat (epochs_of s))) (initial s)) = Some (outcome (train E s)) \<and>
   state_of (run E (Suc (nat (epochs_of s))) (initial s)) = final (train E s)"
proof -
  have first: "run E (Suc fuel) (initial s) = run E fuel (start s)" for fuel
    by (simp add: run_Suc_Idle initial_def del: run.simps)
  show ?thesis
  proof (cases "phase_of (start s)")
    case Idle
    then show ?thesis by simp
  next
    case (Training k n)
    note facts = start_Training [OF Training, of E]
    then obtain m where m: "nat n - 0 = Suc m"
      by (cases "nat n") simp_all
    with facts run_epochs [of "start s" 0 n m E] Training show ?thesis
      unfolding first by (simp add: outcome_pbind_pret del: run.simps)
  next
    case Done
    with start_Done [OF Done, of E] show ?thesis
      unfolding first by (simp add: result_of_def)
  next
    case (Failed e)
    then have "terminal (start s)"
      by (simp add: terminal_def)
    with Failed start_Failed [OF Failed, of E] show ?thesis
      unfolding first by (simp add: result_of_def)
  qed
qed

section \<open>What every reachable configuration satisfies\<close>

lemma run_invariant_initial: "run_invariant s (initial s)"
  by (simp add: run_invariant_def initial_def)

lemma run_invariant_start: "run_invariant s (start s)"
proof -
  obtain r s1 where opt: "set_optimizer (PFloat 1) s = (r, s1)"
    by (cases "set_optimizer (PFloat 1) s")
  with untouched_set_optimizer [of s "PFloat 1"] have "untouched s s1"
    by simp
  moreover have "rbind (getitem (params (obj s1)) EPOCHS) as_index = Inr n \<Longrightarrow> epochs_of s = n"
    for n
    using epochs_of_set_optimizer [OF opt] by (simp add: epochs_of_def)
  ultimately show ?thesis
    using opt by (auto simp: run_invariant_def start_def split: sum.splits)
qed

lemma run_invariant_after_epoch:
  assumes "run_invariant s c" and "phase_of c = Training k n"
  shows "run_invariant s (after_epoch E k n c)"
proof -
  from assms have k: "k = 0" and f: "review_seqs (locals_of c) = None"
    and u: "untouched s (state_of c)"
    by (simp_all add: run_invariant_def)
  obtain e s' where epoch: "train_epoch E 0 (locals_of c) (state_of c) = (Inl e, s')"
    using fails_train_epoch_zero [of E "locals_of c" "state_of c"] by (auto simp: fails_iff)
  with train_epoch_untouched [OF f, of "state_of c" E 0] have "untouched (state_of c) s'"
    by simp
  with u have "untouched s s'"
    by (rule untouched_trans)
  with epoch f show ?thesis
    by (simp add: k after_epoch_def run_invariant_def)
qed

lemma run_invariant_step: "step E c c' \<Longrightarrow> run_invariant s c \<Longrightarrow> run_invariant s c'"
proof (induction rule: step.induct)
  case (leave_idle c)
  then have "state_of c = s"
    by (simp add: run_invariant_def)
  then show ?case
    by (simp add: run_invariant_start)
next
  case (run_epoch c k n)
  then show ?case
    by (simp add: run_invariant_after_epoch)
qed

lemma run_invariant_steps:
  "(step E)\<^sup>*\<^sup>* c c' \<Longrightarrow> run_invariant s c \<Longrightarrow> run_invariant s c'"
  by (induction rule: rtranclp_induct) (auto intro: run_invariant_step)

text \<open>
  C32 (epoch loop as a state machine, section 4.2): every configuration that a run of the
  machine from \<open>Idle\<close> reaches has the training state of the start (no weight changed, no
  loss recorded, no number drawn) and \<open>review_seqs\<close> unbound; when it is in \<open>Training\<close> it is
  before epoch 0, and it is \<open>Done\<close> only when no epoch was asked for.
\<close>

theorem reachable_invariant:
  assumes "reachable E s c"
  shows "run_invariant s c"
  using assms run_invariant_initial [of s]
  unfolding reachable_def by (rule run_invariant_steps)

theorem reachable_invariant_witness:
  "reachable demo_collab demo_machine (start demo_machine) \<and>
   run_invariant demo_machine (start demo_machine)"
proof -
  have "step demo_collab (initial demo_machine) (start (state_of (initial demo_machine)))"
    by (rule step.leave_idle) (simp add: initial_def)
  then have "reachable demo_collab demo_machine (start demo_machine)"
    by (simp add: reachable_def initial_def)
  with reachable_invariant [of demo_collab demo_machine "start demo_machine"] show ?thesis
    by simp
qed

text \<open>
  However many transitions the machine
  makes, it never stands before a second epoch, and the training state is that of the
  start: the phase \<open>Training (k + 1)\<close> of the specification's state machine is not reachable.
\<close>

lemma run_never_trains:
  "phase_of (run E fuel (initial s)) \<noteq> Training (Suc k) n \<and>
   untouched s (state_of (run E fuel (initial s)))"
proof -
  have "run_invariant s (run E fuel (initial s))"
    using run_reaches [of E "initial s" fuel] run_invariant_initial [of s]
    by (rule run_invariant_steps)
  then show ?thesis
    by (auto simp: run_invariant_def)
qed

section \<open>The machine stops\<close>







end
