(* ===== verification/Descent.thy ===== *)
theory Descent
  imports Invariant
begin

text \<open>
  What a sequence of batch steps computes: stochastic gradient descent.

  \<^item> \<open>descent\<close> is the state of the abstract iteration: a point of the weight space and
    the number of draws made from the generator. \<open>task\<close> are its constants: the learning
    rate, the teacher-forcing ratio, the seed and the criterion.
  \<^item> \<open>descent_step\<close> is one iteration on a batch: a draw decides on teacher forcing; when
    the loss of the batch is defined at the point, the point moves against the gradient of
    that loss, scaled by the rate; when it is not, the point stays.
  \<^item> \<open>descent_of\<close> reads the abstract state off a trainer, and \<open>trainable\<close> says when
    a trainer is set up for the task: the model is a network on the device of the tensors,
    with one gradient per weight, and the optimizer was built on its parameters with the
    rate of the task.
  \<^item> \<open>batch_calls\<close> are the calls of \<open>train_batch\<close> on a list of batches, by a caller
    that catches the exceptions.
  The lemmas show that \<open>train_batch\<close>, which zeroes the gradient fields, accumulates into
  them and steps through the optimizer, and which may raise on the way, implements
  \<open>descent_step\<close>, that a sequence of calls implements the iteration and keeps every
  predicate the steps of a batch keep (\<open>batch_calls_invariant\<close>), among them the set-up
  and what is on the disk.
\<close>

section \<open>Definitions\<close>

record descent =
  point :: "real list"
  draws :: nat

record task =
  step_size :: real
  forcing_ratio :: real
  generator_seed :: "32 word"
  loss_fn :: criterion

type_synonym example = "seqs \<times> seqs \<times> int list"

definition descent_step :: "collab \<Rightarrow> task \<Rightarrow> example \<Rightarrow> descent \<Rightarrow> descent" where
  "descent_step E T b st =
     (case b of (q, answers, lens) \<Rightarrow>
        let tf = np_random E (generator_seed T) (draws st) < forcing_ratio T;
            st' = st\<lparr>draws := Suc (draws st)\<rparr>
        in case batch_loss (loss_fn T) (lm_forward E (point st) (Some q) None answers tf) lens answers of
             Inl e \<Rightarrow> st'
           | Inr v \<Rightarrow>
               if lens = [] then st'
               else st'\<lparr>point :=
                      map2 (\<lambda>w d. w - step_size T * d) (point st)
                        (autograd E (batch_objective E (loss_fn T) (Some q) None answers tf lens answers)
                           (point st))\<rparr>)"

definition descent_of :: "nat \<Rightarrow> machine \<Rightarrow> descent" where
  "descent_of a s = \<lparr>point = weights (heap (env s) a), draws = rng_pos (env s)\<rparr>"

definition trainable :: "collab \<Rightarrow> nat \<Rightarrow> task \<Rightarrow> machine \<Rightarrow> bool" where
  "trainable E a T s \<longleftrightarrow>
     model (obj s) = Module a \<and>
     optimizer (obj s) = Some \<lparr>lr = step_size T, param_ref = a\<rparr> \<and>
     criterion (obj s) = loss_fn T \<and>
     rbind (getitem (params (obj s)) TEACHER_FORCING_RATIO) as_number = Inr (forcing_ratio T) \<and>
     rng_seed (env s) = generator_seed T \<and>
     wf_net (heap (env s) a) \<and>
     placed (heap (env s) a) = tensor_device E"

definition batch_calls :: "seqs list option \<Rightarrow> example list \<Rightarrow> invocation list" where
  "batch_calls r bs = map (\<lambda>(q, answers, lens). TrainBatch (Some q) r answers lens) bs"

definition demo_task :: task where
  "demo_task = \<lparr>step_size = 1 / 2, forcing_ratio = 1 / 2, generator_seed = 1, loss_fn = nll_loss\<rparr>"

section \<open>One batch step\<close>

text \<open>The state a batch step leaves, on every exit.\<close>

lemma train_batch_final:
  assumes "model (obj s) = Module a" and "optimizer (obj s) = Some g"
    and "rbind (getitem (params (obj s)) TEACHER_FORCING_RATIO) as_number = Inr r"
    and "placed (heap (env s) a) = tensor_device E"
    and "w1 = snd (random_draw E (update_net (param_ref g) sgd_zero_grad (env s)))"
    and "tf = (np_random E (rng_seed (env s)) (rng_pos (env s)) < r)"
    and "ws = weights (heap (env s) a)"
  shows "final (train_batch E (Some q) rs answers lens s) =
           (case batch_loss (criterion (obj s)) (lm_forward E ws (Some q) None answers tf) lens
                   answers of
              Inl e \<Rightarrow> s\<lparr>env := w1\<rparr>
            | Inr v \<Rightarrow>
                if lens = [] then s\<lparr>env := w1\<rparr>
                else s\<lparr>env := update_net (param_ref g) (sgd_step (lr g))
                        (update_net a
                           (accumulate_grad
                              (autograd E (batch_objective E (criterion (obj s)) (Some q) None
                                             answers tf lens answers) ws)) w1)\<rparr>)"
  using assms
  by (auto simp add: train_batch_def step_runs run_simps update_net_def random_draw_def
           split: sum.splits)

lemma descent_of_drawn:
  "descent_of a (s\<lparr>env := snd (random_draw E (update_net b sgd_zero_grad (env s)))\<rparr>) =
     (descent_of a s)\<lparr>draws := Suc (rng_pos (env s))\<rparr>"
  by (simp add: descent_of_def update_net_def random_draw_def)

lemma descent_of_stepped:
  assumes "wf_net (heap (env s) a)" and "length d = length (weights (heap (env s) a))"
  shows "descent_of a
           (s\<lparr>env := update_net a (sgd_step x)
                  (update_net a (accumulate_grad d)
                     (snd (random_draw E (update_net a sgd_zero_grad (env s)))))\<rparr>) =
         \<lparr>point = map2 (\<lambda>w g. w - x * g) (weights (heap (env s) a)) d,
          draws = Suc (rng_pos (env s))\<rparr>"
  using assms by (simp add: descent_of_def heap_after_batch sgd_descent wf_net_def)

lemma train_batch_refines:
  assumes "grad_shaped E" and "trainable E a T s"
  shows "descent_of a (final (train_batch E (Some q) rs answers lens s)) =
           descent_step E T (q, answers, lens) (descent_of a s)"
proof -
  let ?g = "\<lparr>lr = step_size T, param_ref = a\<rparr>"
  from assms(2) have s: "model (obj s) = Module a" "optimizer (obj s) = Some ?g"
      "rbind (getitem (params (obj s)) TEACHER_FORCING_RATIO) as_number = Inr (forcing_ratio T)"
      "placed (heap (env s) a) = tensor_device E"
    and T: "criterion (obj s) = loss_fn T" "rng_seed (env s) = generator_seed T"
    and wf: "wf_net (heap (env s) a)"
    by (simp_all add: trainable_def)
  have len: "length (autograd E f (weights (heap (env s) a))) = length (weights (heap (env s) a))"
    for f
    using assms(1) by (simp add: grad_shaped_def)
  note final = train_batch_final [OF s refl refl refl] descent_step_def Let_def T
  show ?thesis
  proof (cases "batch_loss (loss_fn T)
                  (lm_forward E (weights (heap (env s) a)) (Some q) None answers
                     (np_random E (generator_seed T) (rng_pos (env s)) < forcing_ratio T))
                  lens answers")
    case (Inl e)
    then show ?thesis
      by (simp add: final descent_of_drawn) (simp add: descent_of_def)
  next
    case (Inr v)
    then show ?thesis
      by (simp add: final descent_of_drawn descent_of_stepped [OF wf len])
        (simp add: descent_of_def)
  qed
qed

section \<open>The set-up is kept\<close>

lemma trainable_steps: "grad_shaped E \<Longrightarrow> step_invariant E (trainable E a T)"
  by (auto simp: step_invariant_def preserves_def trainable_def step_runs run_simps
      update_net_def random_draw_def grad_shaped_def
      split: option.splits sum.splits)

text \<open>What the steps of a batch keep, a list of batch steps keeps.\<close>

lemma batch_call_invariant:
  "step_invariant E P \<Longrightarrow> P s \<Longrightarrow> P (final (call E (TrainBatch q r answers lens) s))"
  using preserves_batch_step [of E P q r answers lens]
  by (auto simp: call_def preserves_def run_simps split: sum.splits prod.splits)

lemma batch_calls_invariant:
  assumes "step_invariant E P"
  shows "P s \<Longrightarrow> P (calls E (batch_calls r bs) s)"
proof (induction bs arbitrary: s)
  case (Cons b bs)
  then show ?case
    by (cases b) (simp add: batch_calls_def batch_call_invariant [OF assms])
qed (simp add: batch_calls_def)

lemma trainable_call:
  "grad_shaped E \<Longrightarrow> trainable E a T s \<Longrightarrow>
   trainable E a T (final (call E (TrainBatch q r answers lens) s))"
  by (rule batch_call_invariant [OF trainable_steps])

text \<open>The steps of a batch touch neither the disk nor the files.\<close>

lemma storage_steps: "step_invariant E (\<lambda>s. disk (env s) = D \<and> files (env s) = F)"
  by (auto simp: step_invariant_def preserves_def step_runs run_simps update_net_def
      random_draw_def split: option.splits sum.splits)

lemma batch_calls_storage:
  "disk (env (calls E (batch_calls r bs) s)) = disk (env s)"
  "files (env (calls E (batch_calls r bs) s)) = files (env s)"
  using batch_calls_invariant [OF storage_steps [of E "disk (env s)" "files (env s)"], of s r bs]
  by simp_all

lemma final_call_batch:
  "final (call E (TrainBatch q r answers lens) s) = final (train_batch E q r answers lens s)"
  by (simp add: call_def run_simps split: sum.splits prod.splits)

lemma batch_calls_simps [simp]:
  "batch_calls r [] = []"
  "batch_calls r ((q, answers, lens) # bs) = TrainBatch (Some q) r answers lens # batch_calls r bs"
  by (simp_all add: batch_calls_def)

lemma calls_refine:
  assumes "grad_shaped E"
  shows "trainable E a T s \<Longrightarrow>
         descent_of a (calls E (batch_calls r bs) s) = fold (descent_step E T) bs (descent_of a s)"
proof (induction bs arbitrary: s)
  case (Cons b bs)
  obtain q answers lens where b: "b = (q, answers, lens)"
    by (cases b)
  from Cons.prems have "trainable E a T (final (call E (TrainBatch (Some q) r answers lens) s))"
    by (rule trainable_call [OF assms])
  from Cons.IH [OF this] show ?case
    by (simp add: b final_call_batch train_batch_refines [OF assms Cons.prems])
qed simp

text \<open>Every call makes one draw, and two trainers that start from the same point with
  the same number of draws made end at the same point: the run is reproducible from the
  seed.\<close>

lemma draws_descent_step [simp]: "draws (descent_step E T b st) = Suc (draws st)"
  by (cases b) (simp add: descent_step_def Let_def split: sum.splits)

lemma draws_fold_descent: "draws (fold (descent_step E T) bs st) = draws st + length bs"
  by (induction bs arbitrary: st) simp_all

lemma batch_calls_draws:
  assumes "grad_shaped E" and "trainable E a T s"
  shows "rng_pos (env (calls E (batch_calls r bs) s)) = rng_pos (env s) + length bs"
proof -
  have "rng_pos (env (calls E (batch_calls r bs) s)) =
          draws (descent_of a (calls E (batch_calls r bs) s))"
    by (simp add: descent_of_def)
  also have "\<dots> = draws (descent_of a s) + length bs"
    by (simp add: calls_refine [OF assms] draws_fold_descent)
  finally show ?thesis
    by (simp add: descent_of_def)
qed

lemma batch_calls_reproducible:
  assumes "grad_shaped E" and "trainable E a T s" and "trainable E b T s'"
    and "descent_of a s = descent_of b s'"
  shows "descent_of a (calls E (batch_calls r bs) s) = descent_of b (calls E (batch_calls r' bs) s')"
  using assms by (simp add: calls_refine)

lemma trainable_demo: "trainable demo_collab 0 demo_task demo_machine"
  using demo_ratio by (simp add: trainable_def demo_task_def wf_net_def)

lemma batch_calls_trainable:
  "grad_shaped E \<Longrightarrow> trainable E a T s \<Longrightarrow> trainable E a T (calls E (batch_calls r bs) s)"
  by (rule batch_calls_invariant [OF trainable_steps])

lemma descent_of_demo: "descent_of 0 demo_machine = \<lparr>point = [- 1, - 2], draws = 0\<rparr>"
  by (simp add: descent_of_def)

lemma demo_no_lengths: "batch_loss nll_loss [[[x, y]]] [] [[0]] = Inr 0"
  by (simp add: batch_loss_eval)

lemma descent_demo:
  "fold (descent_step demo_collab demo_task) [([[0]], [[0]], [1]), ([[0]], [[0]], [])]
     \<lparr>point = [- 1, - 2], draws = 0\<rparr> = \<lparr>point = [- 1 / 2, - 2], draws = 2\<rparr>"
  by (simp add: descent_step_def demo_task_def demo_forward demo_no_lengths demo_objective
      upt_conv_Cons)

section \<open>Training is gradient descent\<close>

text \<open>
  C11 (batch steps, sections 4.1 and 5): a sequence of calls of \<open>train_batch\<close> implements
  stochastic gradient descent. On a trainer set up for a task, the weights of the network
  and the position of the generator after the calls are the point and the number of draws
  the abstract iteration reaches on the same batches: every call makes one draw, a call
  whose loss is defined moves the weights against the gradient of that loss alone, a call
  that raises leaves the weights where they are, and the trainer stays set up for the
  task. This holds provided \<open>backward\<close> computes one partial derivative per weight.
\<close>

theorem training_refines_descent:
  assumes "grad_shaped E" and "trainable E a T s"
  shows "descent_of a (calls E (batch_calls r bs) s) = fold (descent_step E T) bs (descent_of a s) \<and>
         trainable E a T (calls E (batch_calls r bs) s)"
proof
  show "descent_of a (calls E (batch_calls r bs) s) = fold (descent_step E T) bs (descent_of a s)"
    using assms by (rule calls_refine)
  show "trainable E a T (calls E (batch_calls r bs) s)"
    using assms by (rule batch_calls_trainable)
qed

theorem training_refines_descent_witness:
  "descent_of 0 (calls demo_collab (batch_calls None [([[0]], [[0]], [1]), ([[0]], [[0]], [])])
                   demo_machine)
     = \<lparr>point = [- 1 / 2, - 2], draws = 2\<rparr>"
  using training_refines_descent [OF grad_shaped_demo trainable_demo,
      of None "[([[0]], [[0]], [1]), ([[0]], [[0]], [])]"]
  by (simp add: descent_of_demo descent_demo [simplified] del: calls.simps batch_calls_simps)

end
