(* ===== verification/Spec2Isabelle.thy ===== *)
theory Spec2Isabelle
  imports Prelude Loss Params Checkpoint Json World Trainer Artifacts Epochs Evaluation Invariant
    Lifecycle Descent
begin

text \<open>
  \<^bold>\<open>A verification development for the seq2seq language-model trainer\<close>
  (\<open>src/src/language_models/trainer.py\<close>).

  \<^bold>\<open>The program.\<close> One Python module: the class \<open>Trainer\<close> with the methods \<open>__init__\<close>,
  \<open>train_batch\<close>, \<open>train\<close>, \<open>eval\<close>, \<open>save_model\<close>, \<open>_save_dir\<close> and \<open>_set_optimizer\<close>,
  and the module-level functions \<open>_set_random_seeds\<close>, \<open>_batch_loss\<close>, \<open>_ensure_path\<close>,
  \<open>_perplexity_from_loss\<close>, \<open>_print_info\<close> and \<open>_var\<close>. \<open>train\<close> is a double loop over
  epochs and batches; for each batch it dispatches on the model variant, calls
  \<open>train_batch\<close> (zero the gradients, select the inputs, draw the teacher-forcing flag, call
  the network, compute the masked loss with \<open>_batch_loss\<close>, backpropagate, step the
  optimizer), appends loss and perplexity to two histories and logs; at the end of an epoch
  it may call \<open>save_model\<close> and may rebuild the optimizer with a decayed rate. \<open>save_model\<close>
  creates a directory named by the model and the time and writes three files into it: the
  state of the network, the hyperparameters as JSON text, the pickled vocabulary. \<open>eval\<close> is
  the same loop without the optimizer. The network (\<open>LM\<close>), the tensor library, the
  optimizer, the random generator, the file system and the clock are outside the module.

  \<^bold>\<open>The model.\<close> Python is embedded shallowly: an object is a record, a tagged value a
  datatype, an exception a value \<open>Inl e\<close> of \<open>py_error + 'a\<close>, a method a function from the
  state to a result and a state (\<open>prog\<close>; the state survives an exception, as attributes
  assigned before a raise do), a \<open>for\<close> loop the recursion \<open>pfold\<close> over the list it
  iterates, carrying the local variables that live across iterations. Python 3 is
  assumed (raising a string and comparing a string with a float are TypeErrors). Floats
  are \<open>real\<close>; not-a-number is the error \<open>NotANumber\<close> for the criterion and \<open>None\<close> for
  \<open>np.mean\<close>.

  \<^descr>[\<open>Prelude\<close>] results (\<open>rbind\<close>, \<open>rmap\<close>), programs (\<open>pbind\<close>, \<open>pfold\<close>, \<open>fails\<close>),
    the loop rules \<open>pfold_final_inv\<close>, \<open>pfold_rule\<close> and \<open>pfold_all_raise\<close>, the
    predicate \<open>preserves\<close> with the rules \<open>preserves_intros\<close> that carry an invariant
    through a method along its structure, and indexing
    as Python and numpy do it (\<open>py_nth\<close>, \<open>py_last\<close>, \<open>mask_select\<close> for \<open>x[idxes]\<close>,
    \<open>select_column\<close> for \<open>x[idxes, idx]\<close>, \<open>enumerate_from0\<close>).
  \<^descr>[\<open>Loss\<close>] \<open>_batch_loss\<close> as the loop \<open>batch_loss_loop\<close> with its running counter
    \<open>l\<close> and \<open>batch_loss\<close>; \<open>_perplexity_from_loss\<close> as \<open>perplexity_from_loss\<close>; the mean
    of \<open>_print_info\<close> as \<open>np_mean\<close>. The criterion is a parameter; \<open>nll_loss\<close> is
    \<open>nn.NLLLoss()\<close> from the library's documentation, with its defaults: the mean over
    the targets that are not \<open>ignore_index\<close>. The lemmas show that the loop equals
    the closed form \<open>batch_loss_ref\<close> (step \<open>idx\<close> selects the examples with
    \<open>idx < target_lengths[i]\<close>), that the result depends on the unmasked positions only,
    when the loop raises (IndexError when the batch is larger than the number of output
    steps, not-a-number when it is larger than the longest answer), that steps of
    \<open>outputs\<close> beyond the batch size are ignored, that the loop equals the loss over all
    time steps (\<open>timestep_loss\<close>) when their number is the batch size, that under
    \<open>nll_loss\<close> the loss of a batch that \<open>nll_ready\<close> describes is the sum of the means
    \<open>nll_step\<close> over the examples \<open>active\<close> at each step, divided by the number of output
    steps, and lies between \<open>0\<close> and \<open>b\<close> for scores that are logarithms of
    probabilities not below \<open>- b\<close>, and that
    perplexity is \<open>2\<close> to the loss, inverted by \<open>log 2\<close>, strictly increasing, and
    below \<open>2 ^ 1024\<close> exactly for a loss below \<open>1024\<close>.
    A target equal to \<open>ignore_index\<close> drops its row from the criterion.
  \<^descr>[\<open>Params\<close>] the hyperparameter dictionary: keys \<open>pkey\<close>, values \<open>pval\<close>, the read
    \<open>getitem\<close> on an attribute that may be \<open>None\<close>, and the coercions that the uses of a
    value in \<open>trainer.py\<close> make (\<open>as_index\<close> for \<open>range\<close>, \<open>as_number\<close> for products and
    comparisons, \<open>eq_int\<close> for \<open>==\<close>). The keys are enumerated by \<open>all_keys\<close>, which makes
    \<open>pkey\<close> an instance of the library's class \<open>enum\<close>.
  \<^descr>[\<open>Checkpoint\<close>] \<open>time.strftime('%Y-%m-%d-%H-%M-%S')\<close> as \<open>strftime\<close> with its
    inverse \<open>strptime\<close>, the path of \<open>_save_dir\<close> as \<open>save_dir_path\<close>, \<open>'%s/%s' % ...\<close>
    as \<open>slash_join\<close>, and the paths of the file system: \<open>ensure_path\<close> is the set of
    paths that exist when \<open>_ensure_path\<close> returns (\<open>makedirs\<close> adds the path and its
    ancestors \<open>dir_prefixes\<close>), and \<open>dirname\<close> the directory a file is opened in. The
    lemmas show the round trip of the time stamp, its length, that \<open>ensure_path\<close> creates
    the directory, keeps what exists, is idempotent and creates nothing below the
    directory, and that the ancestors of a path are the path and the ancestors of its
    directory.
  \<^descr>[\<open>Json\<close>] the text of the hyperparameter file, \<open>json.dump(self.params, fp, indent=4,
    sort_keys=True)\<close> as \<open>json_dump\<close>: the items of the dictionary under the names of the
    keys (\<open>dict_items\<close>), sorted by key, one per line (\<open>json_object\<close>, \<open>json_member\<close>),
    strings escaped to ASCII (\<open>json_string\<close>, \<open>escape_char\<close>); and a reader \<open>json_load\<close>
    for such text, a scanner that is a state machine over the characters (\<open>lex_step\<close>,
    \<open>lex_run\<close>) followed by a parser of the tokens (\<open>parse_object\<close>). The lemmas follow
    the text through the scanner piece by piece (an escaped character, a string, a number,
    a member, the lines of an object) and show that the reader inverts the writer, that
    the text does not depend on the order of the items, and that it consists of printable
    ASCII characters and line breaks (\<open>printable\<close>).
  \<^descr>[\<open>World\<close>] the state outside the trainer (\<open>world\<close>: heap of networks, generator,
    disk with the contents of its files, clock, printed lines); \<open>set_random_seeds\<close>, which
    keeps a seed that \<open>np.random.seed\<close> accepts (\<open>seed_ok\<close>) as a word of 32 bits and
    raises ValueError for any other; the file system with its exceptions: a path that
    exists is a regular file or a directory (\<open>is_file\<close>, \<open>is_dir\<close>), \<open>os_makedirs\<close> is
    \<open>os.makedirs\<close>, \<open>ensure_dir\<close> is \<open>_ensure_path\<close> on the world, \<open>open_error\<close> is
    the exception \<open>open(path, 'w')\<close> raises and \<open>write_file\<close> a file opened and written;
    the lemmas show that these keep the file system well formed (\<open>wf_disk\<close>: every file
    exists and the ancestors of a path that exists are directories that exist);
    the text of a printed line (\<open>line_text\<close>: the format string as
    it is, then the values, since no \<open>print\<close> of the module applies its format), the
    interface of the external code (\<open>collab\<close>), the device of a network and of the
    tensors (\<open>USE_CUDA\<close>, \<open>module_cuda\<close> for \<open>.cuda()\<close>, \<open>tensor_device\<close> for the tensor
    type \<open>_var\<close> selects), the range of a draw (\<open>unit_draws\<close>), and
    \<open>optim.SGD\<close> without momentum (\<open>sgd_zero_grad\<close>, \<open>accumulate_grad\<close>, \<open>sgd_step\<close>) with
    the lemma \<open>sgd_descent\<close>. Networks live in a heap by address because the optimizer and
    \<open>self.model\<close> refer to the same parameters.
  \<^descr>[\<open>Trainer\<close>] the class, its construction and the batch step: the record
    \<open>trainer\<close>, the state \<open>machine\<close> (object and world), \<open>init\<close> for \<open>__init__\<close>,
    \<open>set_optimizer\<close>, \<open>train_batch\<close> and its steps (\<open>optimizer_zero_grad\<close>,
    \<open>select_inputs\<close>, \<open>draw_teacher_forcing\<close>, \<open>call_model\<close>, \<open>loss_backward\<close>,
    \<open>optimizer_step\<close>), and \<open>var\<close> for \<open>_var\<close>. The lemmas give, for each of them,
    the state and the result it leaves on every branch, among them the forward pass on a
    network that is on another device than the tensors, the teacher-forcing decision
    at the ends of the range of the ratio, and the seeds \<open>__init__\<close> accepts.
  \<^descr>[\<open>Artifacts\<close>] the checkpoint writer: \<open>save_dir\<close>, \<open>save_model\<close> with its three
    writes \<open>write_artifacts\<close> (\<open>state_dict\<close>, \<open>write_artifact\<close>) and the operator
    \<open>str_and\<close> of its third file name, and what the three writes leave on disk.
    \<open>checkpoint\<close> is the checkpoint of section 4.4 of the specification, \<open>save_model\<close>
    with the third file name formatted as the other two; \<open>read_params\<close> reads the
    hyperparameter file back. The lemmas give the result of \<open>save_model\<close> and of the
    writes on every branch (no network, an exception of one of the three writes, success)
    and show that a checkpoint in a directory that is free (\<open>dir_free\<close>: no regular file
    in the way of the directory, no directory in the way of a file) holds the weights, the
    hyperparameters and the vocabulary of the trainer, that the hyperparameters are read
    back from it, that it is idempotent, and what a checkpoint that fails leaves: nothing
    when a regular file is in the way of the directory, the weights alone when the path of
    the hyperparameter file is a directory.
  \<^descr>[\<open>Epochs\<close>] the method \<open>train\<close>: the local variables \<open>frame\<close>, \<open>unpack_inputs\<close>
    for the \<open>if/elif\<close> chain on the variant, \<open>train_iteration\<close>, \<open>train_epoch\<close>,
    \<open>train\<close>, \<open>save_every\<close>, \<open>decay_at\<close>, \<open>record_loss\<close> and \<open>log_batch\<close>. The lemmas
    give the result of each on every branch and of \<open>train\<close> as a whole.
  \<^descr>[\<open>Evaluation\<close>] the method \<open>eval\<close>: \<open>eval_frame\<close>, \<open>eval_iteration\<close>,
    \<open>log_dev_batch\<close> and \<open>eval\<close>, with the result of the pass on every loader.
  \<^descr>[\<open>Invariant\<close>] the well-formedness \<open>wf_machine\<close> of a trainer (histories that
    correspond, a network with one gradient per weight, an optimizer on the parameters of
    the model), the methods as a datatype \<open>invocation\<close> with the dispatch \<open>call\<close>, and
    sequences of calls (\<open>calls\<close>). The interface \<open>block_invariant\<close> says that the
    building blocks of the methods preserve a predicate; the lemmas show once, for every
    such predicate, that every method and every sequence of calls preserves it on every
    exit (\<open>calls_invariant\<close>), and then of the blocks that they preserve well-formedness,
    the device of every network (\<open>placement\<close>), the attributes only the caller assigns
    (\<open>settings\<close>), the clock and the seed, the absence of an optimizer where there is no
    network, what exists on the disk, the well-formedness of the file system and what
    was printed.
  \<^descr>[\<open>Descent\<close>] stochastic gradient descent as the specification of the batch step:
    the abstract state \<open>descent\<close> (a point and the number of draws), the iteration
    \<open>descent_step\<close>, the abstraction \<open>descent_of\<close> of a trainer and the set-up
    \<open>trainable\<close>. The lemmas give the state \<open>train_batch\<close> leaves on every exit
    (\<open>train_batch_final\<close>) and show that a call implements one iteration and keeps the
    set-up, so that a sequence of calls (\<open>batch_calls\<close>) implements the iteration over
    the batches, keeps what the steps of a batch keep (\<open>batch_calls_invariant\<close>) and
    touches neither the disk nor the files.
  \<^descr>[\<open>Lifecycle\<close>] the epoch loop of \<open>train\<close> as the state machine of section 4.2 of
    the specification: the phases \<open>Idle\<close>, \<open>Training k n\<close>, \<open>Done\<close> and \<open>Failed e\<close>, one
    transition per epoch as the function \<open>next_config\<close> and as the inductive relation
    \<open>step\<close>, and \<open>run\<close>, which iterates transitions with fuel. The lemmas show that the
    relation is the graph of the function, that \<open>train\<close> is the machine run to its end, by
    induction over the transitions the invariant \<open>run_invariant\<close> of every reachable
    configuration, and with the measure \<open>transitions_left\<close>, which every transition
    lowers, that the machine stops.
  \<^descr>[\<open>Spec2Isabelle\<close>] this theory: the trainer from construction on
    (\<open>construct_then_train\<close>), batch steps followed by a checkpoint
    (\<open>train_then_checkpoint\<close>), and the properties that need several components
    together: what a constructed trainer can do, and that the weights a checkpoint writes
    after training are the point gradient descent reaches.

  \<^bold>\<open>What the lemmas show of the trainer.\<close> The batch step is a step of gradient descent:
  with a network as model and an optimizer on its parameters, \<open>train_batch\<close> returns the
  masked loss at the old weights and moves the weights against its gradient, drawing one
  random number and changing nothing else. \<open>set_optimizer\<close> takes the configured rate
  times the decay factor, not the current rate. Around the batch step the methods do not
  fit together, and the lemmas say exactly how:
  \<^item> \<open>__init__\<close> raises ValueError for a seed below \<open>0\<close> or from \<open>2 ^ 32\<close> on, before it
    does anything else. It ends by setting the model, the optimizer and the
    hyperparameters to \<open>None\<close>, so a trainer as constructed raises in \<open>train\<close>,
    \<open>train_batch\<close> and \<open>save_model\<close>, and construction followed by \<open>train\<close> always
    raises.
  \<^item> \<open>self.model\<close> is compared with variant names and is called; no value passes both.
    Hence no iteration of \<open>train\<close> or \<open>eval\<close> completes: \<open>train\<close> changes no weight and
    records no loss, raises at the first batch and returns only when there are no epochs;
    \<open>eval\<close> raises on every loader that is not empty.
  \<^item> The \<open>elif\<close> for batches with reviews repeats the test before it, so \<open>review_seqs\<close> is
    never bound.
  \<^item> \<open>save_model\<close> creates the checkpoint directory, or raises NotADirectoryError when
    a regular file is in its way, and raises before it writes a file; at the decay epoch
    the optimizer is lost.
  \<^item> The three writes of \<open>save_model\<close> are sound in themselves: reached with the third
    file name formatted as the other two, they leave a checkpoint from which the
    hyperparameters are read back, and after batch steps the weights of that checkpoint
    are the point gradient descent has reached. They are not atomic: a write that raises
    leaves the files written before it.
  \<^item> \<open>__init__\<close> moves to the GPU the network it discards; no method moves a network or
    assigns the model, so a trainer stays unusable until its attributes are assigned from
    outside, and a model assigned without being moved raises in the forward pass when a
    GPU is available.
  Through all of this the trainer stays well formed (\<open>wf_machine\<close>), nothing on the disk
  is deleted, the file system stays well formed (\<open>wf_disk\<close>), and the epoch loop always
  comes to an end. Called directly on a trainer
  that is set up, \<open>train_batch\<close> implements stochastic gradient descent over the batches
  it is given, a call that raises included.

  \<^bold>\<open>Assumptions and bounds.\<close> Every loop of the module iterates over a finite list and is
  a structural recursion, so the methods need no fuel. Only \<open>run\<close> of \<open>Lifecycle\<close> takes
  fuel, the number of transitions; one more than the number of epochs is shown to be
  enough to reach the end of \<open>train\<close>, from any configuration \<open>transitions_left\<close> are. The external code is total and does not
  raise: the network constructor and forward pass, the gradient operator and the generator
  are fields of \<open>collab\<close>, and every lemma on the trainer holds for all their values. The
  gradient that \<open>backward\<close> accumulates is that of the batch loss as a function of the
  weights (\<open>batch_objective\<close>), through the abstract operator \<open>autograd\<close>; \<open>loss.data[0]\<close>
  is the value of the loss, and on an empty batch, where the loss is the plain number
  \<open>0 / len(outputs)\<close>, \<open>backward\<close> raises AttributeError. A batch of another shape than the
  branch of the dispatch unpacks is a ValueError. The optimizer accepts every numeric rate
  and every network. \<open>USE_CUDA\<close> is the field \<open>cuda_is_available\<close> of \<open>collab\<close>, read
  once. \<open>_var\<close> converts its argument to a tensor on the device \<open>tensor_device\<close>:
  \<open>var\<close> raises TypeError on \<open>None\<close> and keeps the values otherwise; since every tensor
  of a batch is built by \<open>_var\<close>, the device is recorded once, in the forward pass,
  which raises RuntimeError (as current versions of the library do) when the network is
  elsewhere. The criterion is \<open>nn.NLLLoss()\<close> with its defaults, the optimizer
  \<open>optim.SGD\<close> with its defaults (no momentum, dampening or weight decay). A draw of the
  generator is a function of the seed and the number of draws made; where a lemma needs
  the draws to lie in the half-open unit interval it assumes \<open>unit_draws\<close>. The seed is
  a word of 32 bits (\<open>HOL-Library.Word\<close>), the range \<open>np.random.seed\<close> accepts;
  \<open>torch.manual_seed\<close> is taken to accept every seed of that range. The file system is
  the set of the paths that exist and the contents of the regular files among them; a
  path is a string, its ancestors are its prefixes before a slash, and the working
  directory, which the empty directory name stands for, always exists. \<open>os.makedirs\<close>
  and \<open>open\<close> raise as the library documents: FileExistsError, NotADirectoryError for a
  regular file on the way, FileNotFoundError for a directory that is missing and for the
  empty path, IsADirectoryError for a path that is a directory or ends in a slash. Where
  several of these apply the model takes the first in this order, which is the order of
  the path walk when the file system is well formed. Permissions, a full disk, symbolic
  links and the components \<open>.\<close> and \<open>..\<close> of a path are left out. \<open>_var\<close> applied to a
  tensor (line 69) keeps its values, and the reviews that \<open>map(_var, ...)\<close> wraps are
  taken as converted. The JSON text is that of the documentation of the \<open>json\<close>
  module for integers, floats and strings; characters are the 256 of \<open>char\<close>, so an
  escape is \<open>\u00XX\<close>. The text of a float is the interface function \<open>float_repr\<close>; the
  round trip asks that it is read back as the same float (\<open>float_text_ok\<close>), which
  \<open>repr\<close> of Python 3 ensures for finite floats, and that the names of the keys
  (\<open>KEY_NAME\<close>) are distinct, as the keys of one dictionary are. Well-formedness and
  the refinement of gradient descent ask of \<open>autograd\<close> one partial derivative per weight
  (\<open>grad_shaped\<close>).

  \<^bold>\<open>Not modelled.\<close> The network \<open>LM\<close>, the tensors and the autograd tape beyond the
  interface above; \<open>tqdm\<close> (a progress bar around the iterators); the byte formats of
  \<open>torch.save\<close> and \<open>pickle.dump\<close> (a file written by them holds the value that was
  saved); JSON beyond one flat object of integers, floats and strings (no nesting, no
  \<open>true\<close>, \<open>false\<close> or not-a-number); the text of a tensor where one is printed (the
  element \<open>dev_loss[-1]\<close> is printed as its value); the element type of a tensor
  (\<open>_var\<close> builds float tensors; the model keeps the values integers, and the criterion
  takes them as class indices); the shape check of a tensor built from a ragged list;
  the rounding of floats and their overflow (a perplexity from \<open>2 ^ 1024\<close> on is
  \<open>inf\<close> in Python and a real number here);
  a data loader that yields another order in each epoch (the loader is one list). The
  network and the data loader stay partly modelled because their code is not in the
  repository: what the trainer does with them is modelled, what they compute is a
  parameter. Every statement of \<open>trainer.py\<close> is otherwise covered by a definition: what
  is left of the file are its imports.
\<close>

section \<open>A trainer from construction on\<close>

text \<open>\<open>Trainer(...)\<close> followed by a method call on the new object, as a script does it.\<close>

definition construct_then ::
  "(machine, 'a) prog \<Rightarrow> collab \<Rightarrow> batch list \<Rightarrow> params \<Rightarrow> int \<Rightarrow> int \<Rightarrow> int \<Rightarrow>
   batch list option \<Rightarrow> string list option \<Rightarrow> world \<Rightarrow> 'a result \<times> world"
where
  "construct_then method E loader ps seed n_save n_print dev voc w =
     (case init E loader ps seed n_save n_print dev voc w of
        (Inl e, w') \<Rightarrow> (Inl e, w')
      | (Inr t, w') \<Rightarrow>
          (case method \<lparr>obj = t, env = w'\<rparr> of (r, s) \<Rightarrow> (r, env s)))"

definition construct_then_train ::
  "collab \<Rightarrow> batch list \<Rightarrow> params \<Rightarrow> int \<Rightarrow> int \<Rightarrow> int \<Rightarrow> batch list option \<Rightarrow>
   string list option \<Rightarrow> world \<Rightarrow> unit result \<times> world"
where
  "construct_then_train E = construct_then (train E) E"

section \<open>Training, then a checkpoint\<close>


section \<open>Lemmas\<close>




lemma train_without_module:
  "\<forall>a. model (obj s) \<noteq> Module a \<Longrightarrow> train E s = (Inl AttributeError, s)"
  by (simp add: train_run set_optimizer_no_module)

lemma save_model_without_params:
  "params (obj s) = None \<Longrightarrow> save_model E s = (Inl TypeError, s)"
  by (simp add: save_model_run)

text \<open>
  A trainer as \<open>__init__\<close> returns it cannot be used. \<open>train\<close>
  and \<open>train_batch\<close> raise AttributeError (there is no model to take parameters from and no
  optimizer), \<open>save_model\<close> raises TypeError (the hyperparameters are \<open>None\<close>), and each
  leaves the state as it found it.
\<close>

lemma fresh_trainer_is_unusable:
  assumes "init E loader ps seed n_save n_print dev voc w = (Inr t, w')"
    and "s = \<lparr>obj = t, env = w'\<rparr>"
  shows "train E s = (Inl AttributeError, s) \<and>
         train_batch E q r a l s = (Inl AttributeError, s) \<and>
         save_model E s = (Inl TypeError, s)"
  using init_run [OF assms(1)] assms(2)
  by (simp add: train_without_module train_batch_no_optimizer save_model_without_params)

lemma fresh_trainer_is_unusable_witness:
  "outcome (train demo_collab
      \<lparr>obj = projr (outcome (init demo_collab [] demo_params 1 1 100 None None demo_world)),
       env = final (init demo_collab [] demo_params 1 1 100 None None demo_world)\<rparr>)
     = Inl AttributeError"
  using fresh_trainer_is_unusable [of demo_collab "[]" demo_params 1 1 100 None None demo_world
      "projr (outcome (init demo_collab [] demo_params 1 1 100 None None demo_world))"
      "final (init demo_collab [] demo_params 1 1 100 None None demo_world)" _ None None "[]" "[]"]
    demo_init
  by (simp add: prod_eq_iff)

text \<open>
  C27 (construction and training, end to end): constructing a trainer and calling \<open>train\<close>
  on it always raises, for every loader, every hyperparameter dictionary, every seed and
  every collaborator: ValueError from \<open>__init__\<close> when the seed is not an integer of 32
  bits, KeyError from \<open>__init__\<close> when one of the hyperparameters of the network is
  missing, AttributeError from \<open>train\<close> otherwise. The world is left as \<open>__init__\<close>
  left it.
\<close>

theorem construct_then_train_raises:
  "construct_then_train E loader ps seed n_save n_print dev voc w =
     (Inl (if \<not> seed_ok seed then ValueError
           else if list_all (\<lambda>k. ps k \<noteq> None) [VOCAB_SIZE, HDIM, OUTPUT_MAX_LEN, H_LAYERS, DROPOUT]
           then AttributeError else KeyError),
      final (init E loader ps seed n_save n_print dev voc w))"
proof (cases "init E loader ps seed n_save n_print dev voc w")
  case (Pair r w')
  note keys = init_key_errors [of E loader ps seed n_save n_print dev voc w]
  show ?thesis
  proof (cases r)
    case (Inl e)
    with Pair have "e = (if seed_ok seed then KeyError else ValueError)"
      using init_error [of E loader ps seed n_save n_print dev voc w e] by simp
    moreover from Pair Inl keys
    have "\<not> (seed_ok seed \<and>
              list_all (\<lambda>k. ps k \<noteq> None) [VOCAB_SIZE, HDIM, OUTPUT_MAX_LEN, H_LAYERS, DROPOUT])"
      by simp
    ultimately show ?thesis
      using Pair Inl by (auto simp: construct_then_train_def construct_then_def)
  next
    case (Inr t)
    with Pair keys
    have "seed_ok seed"
      "list_all (\<lambda>k. ps k \<noteq> None) [VOCAB_SIZE, HDIM, OUTPUT_MAX_LEN, H_LAYERS, DROPOUT]"
      by simp_all
    moreover from Pair Inr have "model t = PyNone"
      by (auto dest: init_run)
    ultimately show ?thesis
      using Pair Inr
      by (simp add: construct_then_train_def construct_then_def train_without_module)
  qed
qed

text \<open>
  Checkpoint directory, sections 4.4 and 6: the directory \<open>_save_dir\<close> names is
  \<open>BASE_PATH/model name/time\<close>, and for a fixed trainer two different valid times give two
  different directories: checkpoints written at different seconds do not overwrite each
  other.
\<close>

lemma checkpoint_dirs_distinct:
  assumes "valid_datetime t1" and "valid_datetime t2" and "t1 \<noteq> t2"
    and "getitem (params (obj s)) MODEL_NAME = Inr name"
  shows "outcome (save_dir E t1 s) =
           Inr (save_dir_path (BASE_PATH E) (py_str (float_repr E) name) (strftime t1)) \<and>
         outcome (save_dir E t1 s) \<noteq> outcome (save_dir E t2 s)"
  using assms strftime_inj [of t1 t2]
  by (auto simp: save_dir_run save_dir_path_def)

lemma checkpoint_dirs_distinct_witness:
  "outcome (save_dir demo_collab (now demo_world) demo_machine)
     \<noteq> outcome (save_dir demo_collab ((now demo_world)\<lparr>second := 4\<rparr>) demo_machine)"
proof -
  have "valid_datetime (now demo_world)" "valid_datetime ((now demo_world)\<lparr>second := 4\<rparr>)"
    "now demo_world \<noteq> (now demo_world)\<lparr>second := 4\<rparr>"
    "getitem (params (obj demo_machine)) MODEL_NAME = Inr (PStr ''lm'')"
    by (simp_all add: demo_world_def valid_datetime_def demo_params_def)
  from checkpoint_dirs_distinct [OF this] show ?thesis
    by (rule conjunct2)
qed

text \<open>
  C28 (construction and use, section 9): no method repairs a trainer. After any sequence of
  calls on a trainer as \<open>__init__\<close> returns it, the model and the hyperparameters are
  still \<open>None\<close>, there is still no optimizer, and a batch step still raises
  AttributeError: the attributes have to be assigned from outside the class.
\<close>

theorem constructed_trainer_stays_unusable:
  assumes "init E loader ps seed n_save n_print dev voc w = (Inr t, w')"
    and "s = calls E ms \<lparr>obj = t, env = w'\<rparr>"
  shows "model (obj s) = PyNone \<and> params (obj s) = None \<and> optimizer (obj s) = None \<and>
         train_batch E q r a l s = (Inl AttributeError, s)"
proof -
  let ?s0 = "\<lparr>obj = t, env = w'\<rparr>"
  from init_run [OF assms(1)]
  have t: "model (obj ?s0) = PyNone" "params (obj ?s0) = None" "optimizer (obj ?s0) = None"
    by simp_all
  have "settings s = settings ?s0"
    unfolding assms(2) using settings_blocks [of E "settings ?s0"] by (rule calls_invariant) simp
  moreover have "(\<forall>a. model (obj s) \<noteq> Module a) \<and> optimizer (obj s) = None"
    unfolding assms(2) using no_optimizer_blocks by (rule calls_invariant) (use t in simp)
  ultimately show ?thesis
    using t by (simp add: settings_def train_batch_no_optimizer)
qed

theorem constructed_trainer_stays_unusable_witness:
  "optimizer (obj (calls demo_collab
      [SetOptimizer (PFloat 1), Train, TrainBatch (Some [[0]]) None [[0]] [1], Eval, SaveModel]
      \<lparr>obj = projr (outcome (init demo_collab [] demo_params 1 1 100 None None demo_world)),
       env = final (init demo_collab [] demo_params 1 1 100 None None demo_world)\<rparr>)) = None"
proof -
  let ?i = "init demo_collab [] demo_params 1 1 100 None None demo_world"
  have "?i = (Inr (projr (outcome ?i)), final ?i)"
    using demo_init by (simp add: prod_eq_iff)
  from constructed_trainer_stays_unusable [OF this refl, THEN conjunct2, THEN conjunct2,
      THEN conjunct1]
  show ?thesis .
qed



end
